theory Spec2Isabelle
  imports Complex_Main "HOL-Library.Sublist" "HOL-Library.Char_ord" "HOL-Library.List_Lexorder"
    "HOL-Library.Product_Lexorder"
begin

section \<open>Python values and exceptions\<close>

text \<open>
  Every exception the two modules can raise is a value of \<open>error\<close>; a computation that
  may raise returns \<open>error + 'a\<close>, with \<open>Inl\<close> the exception.
\<close>

datatype error =
    Error string
  | MonomialException string
  | IndexError
  | TypeError
  | AttributeError
  | KeyError
  | AssertionError
  | ProviderError

text \<open>
  Modelled from the spec: \<open>ffc.common.log.error\<close> (and \<open>ffc.log.error\<close>) is not among the
  sources. The spec lists every failure it reports as fatal for the unit being processed,
  so the call raises, carrying its message.
\<close>

definition error :: "string \<Rightarrow> error + 'a" where
  "error message = Inl (Error message)"

text \<open>
  Python's \<open>xs[i]\<close> on a list: \<open>None\<close> as a subscript is a TypeError, a negative subscript
  counts from the end, and a subscript out of range is an IndexError.
\<close>

definition getitem :: "'a list \<Rightarrow> int option \<Rightarrow> error + 'a" where
  "getitem xs i =
     (case i of
        None \<Rightarrow> Inl TypeError
      | Some k \<Rightarrow>
          (let n = int (length xs); j = (if k < 0 then n + k else k)
           in if 0 \<le> j \<and> j < n then Inr (xs ! nat j) else Inl IndexError))"

text \<open>Python 2's \<open>range(n)\<close>: the list \<open>[0, ..., n - 1]\<close>.\<close>

definition py_range :: "nat \<Rightarrow> int list" where
  "py_range n = map int [0..<n]"

section \<open>Index algebra: class MonomialIndex\<close>

text \<open>
  The five class constants \<open>MonomialIndex.FIXED\<close>, ..., \<open>MonomialIndex.EXTERNAL\<close>;
  \<open>role_name\<close> is the string each constant holds. An index that has not been given a
  role yet has \<open>index_type = None\<close>.
\<close>

datatype role = FIXED | PRIMARY | SECONDARY | INTERNAL | EXTERNAL

fun role_name :: "role \<Rightarrow> string" where
  "role_name FIXED = ''fixed''"
| "role_name PRIMARY = ''primary''"
| "role_name SECONDARY = ''secondary''"
| "role_name INTERNAL = ''internal''"
| "role_name EXTERNAL = ''external''"

record MonomialIndex =
  index_type :: "role option"
  index_range :: "int list"
  index_id :: "int option"

text \<open>
  \<open>MonomialIndex.__call__(primary=None, secondary=None, internal=None, external=None)\<close>.
  A binding array is \<open>None\<close> or a list; \<open>not primary\<close> holds for \<open>None\<close> and for the empty
  list. The last branch evaluates \<open>str(self.type)\<close>, an attribute the class never sets,
  before \<open>error\<close> is reached.
\<close>

definition call ::
  "MonomialIndex \<Rightarrow> int list option \<Rightarrow> int list option \<Rightarrow> int list option \<Rightarrow>
     int list option \<Rightarrow> error + int" where
  "call self primary secondary internal external =
     (if index_type self = Some FIXED then
        (case index_range self of [] \<Rightarrow> Inl IndexError | x # _ \<Rightarrow> Inr x)
      else if index_type self = Some PRIMARY then
        (case primary of
           None \<Rightarrow> error ''Missing index values for primary indices.''
         | Some [] \<Rightarrow> error ''Missing index values for primary indices.''
         | Some (v # vs) \<Rightarrow> getitem (v # vs) (index_id self))
      else if index_type self = Some SECONDARY then
        (case secondary of
           None \<Rightarrow> error ''Missing index values for secondary indices.''
         | Some [] \<Rightarrow> error ''Missing index values for secondary indices.''
         | Some (v # vs) \<Rightarrow> getitem (v # vs) (index_id self))
      else if index_type self = Some INTERNAL then
        (case internal of
           None \<Rightarrow> error ''Missing index values for internal auxiliary indices.''
         | Some [] \<Rightarrow> error ''Missing index values for internal auxiliary indices.''
         | Some (v # vs) \<Rightarrow> getitem (v # vs) (index_id self))
      else if index_type self = Some EXTERNAL then
        (case external of
           None \<Rightarrow> error ''Missing index values for external auxiliary indices.''
         | Some [] \<Rightarrow> error ''Missing index values for external auxiliary indices.''
         | Some (v # vs) \<Rightarrow> getitem (v # vs) (index_id self))
      else Inl AttributeError)"

text \<open>\<open>__add__\<close> and \<open>__sub__\<close>: a copy of the index with its range shifted.\<close>

definition add :: "MonomialIndex \<Rightarrow> int \<Rightarrow> MonomialIndex" where
  "add self offset =
     \<lparr>index_type = index_type self,
      index_range = map (\<lambda>i. offset + i) (index_range self),
      index_id = index_id self\<rparr>"

definition sub :: "MonomialIndex \<Rightarrow> int \<Rightarrow> MonomialIndex" where
  "sub self offset = add self (- offset)"

text \<open>\<open>__str__\<close> of an index; \<open>str_int\<close> is Python's \<open>str\<close> on an integer.\<close>

fun str_nat :: "nat \<Rightarrow> string" where
  "str_nat n =
     (if n < 10 then [char_of (48 + n)]
      else str_nat (n div 10) @ [char_of (48 + n mod 10)])"

declare str_nat.simps [simp del]

definition str_int :: "int \<Rightarrow> string" where
  "str_int i = (if i < 0 then CHR ''-'' # str_nat (nat (- i)) else str_nat (nat i))"

definition str_opt_int :: "int option \<Rightarrow> string" where
  "str_opt_int i = (case i of None \<Rightarrow> ''None'' | Some k \<Rightarrow> str_int k)"

definition str_index :: "MonomialIndex \<Rightarrow> error + string" where
  "str_index self =
     (if index_type self = Some FIXED then
        (case index_range self of [] \<Rightarrow> Inl IndexError | x # _ \<Rightarrow> Inr (str_int x))
      else if index_type self = Some PRIMARY then Inr (''i_'' @ str_opt_int (index_id self))
      else if index_type self = Some SECONDARY then Inr (''a_'' @ str_opt_int (index_id self))
      else if index_type self = Some INTERNAL then Inr (''g_'' @ str_opt_int (index_id self))
      else if index_type self = Some EXTERNAL then Inr (''b_'' @ str_opt_int (index_id self))
      else Inr ''?'')"

section \<open>Monomial transformation: the data\<close>

text \<open>
  \<open>MonomialIndex\<close> instances are shared between the lists of a monomial and mutated in
  place when they are classified, and two indices are the same index only when they are
  the same instance. So the instances live in a store \<open>heap\<close>, and the lists hold
  references into it; \<open>next_ref\<close> is the next unused reference.
\<close>

type_synonym ref = nat

record MonomialDeterminant =
  det_power :: int
  d_restriction :: "string option"

record MonomialCoefficient =
  c_index :: ref
  number :: int

datatype transform_type = J | JINV

record MonomialTransform =
  index0 :: ref
  index1 :: ref
  transform_type :: transform_type
  t_restriction :: "string option"
  offset :: int

text \<open>
  The element provider (\<open>ffc.fem.create_element\<close>) is outside the sources. An element is
  what the transformation reads from it: \<open>value_dimension(0)\<close>, \<open>space_dimension()\<close>,
  \<open>geometric_dimension()\<close>, \<open>num_sub_elements()\<close>, and, for a component, the mapping of
  the sub-element holding it together with the sub-element's offset, \<open>None\<close> where the
  provider raises (\<open>ProviderError\<close> stands for its exception).
\<close>

datatype mapping = AFFINE | CONTRAVARIANT_PIOLA | COVARIANT_PIOLA

record element =
  value_dimension :: nat
  space_dimension :: nat
  geometric_dimension :: nat
  num_sub_elements :: nat
  component_element :: "int \<Rightarrow> (mapping \<times> int) option"

record MonomialBasisFunction =
  v_element :: element
  v_index :: ref
  components :: "ref list"
  derivatives :: "ref list"
  v_restriction :: "string option"

text \<open>
  The raw monomial (\<open>monomialextraction\<close>, outside the sources): a factor has an element,
  a function that is a \<open>BasisFunction\<close> or a \<open>Function\<close> with its \<open>count()\<close>, component
  and derivative indices that are UFL \<open>Index\<close> or \<open>FixedIndex\<close> objects (dictionary keys
  by their count and their value), and a restriction.
\<close>

datatype ufl_index = Index nat | FixedIndex int

datatype ufl_function = BasisFunction int | Function int

record factor =
  f_element :: element
  f_function :: ufl_function
  f_components :: "ufl_index list"
  f_derivatives :: "ufl_index list"
  f_restriction :: "string option"

record monomial =
  m_float_value :: rat
  factors :: "factor list"

text \<open>The module's three counters.\<close>

record globals =
  current_secondary_index :: int
  current_internal_index :: int
  current_external_index :: int

definition next_secondary_index :: "globals \<Rightarrow> int \<times> globals" where
  "next_secondary_index g =
     (let g' = g\<lparr>current_secondary_index := current_secondary_index g + 1\<rparr>
      in (current_secondary_index g' - 1, g'))"

definition next_internal_index :: "globals \<Rightarrow> int \<times> globals" where
  "next_internal_index g =
     (let g' = g\<lparr>current_internal_index := current_internal_index g + 1\<rparr>
      in (current_internal_index g' - 1, g'))"

definition next_external_index :: "globals \<Rightarrow> int \<times> globals" where
  "next_external_index g =
     (let g' = g\<lparr>current_external_index := current_external_index g + 1\<rparr>
      in (current_external_index g' - 1, g'))"

definition reset_indices :: "globals \<Rightarrow> globals" where
  "reset_indices g =
     g\<lparr>current_secondary_index := 0, current_internal_index := 0,
       current_external_index := 0\<rparr>"

text \<open>
  The state of one \<open>TransformedMonomial.__init__\<close>: the counters, the store, the local
  \<open>index_map\<close>, and the fields of \<open>self\<close>.
\<close>

record state =
  globals :: globals
  heap :: "ref \<Rightarrow> MonomialIndex"
  next_ref :: ref
  index_map :: "ufl_index \<rightharpoonup> ref"
  float_value :: rat
  determinant :: MonomialDeterminant
  coefficients :: "MonomialCoefficient list"
  transforms :: "MonomialTransform list"
  basis_functions :: "MonomialBasisFunction list"

text \<open>Creating a \<open>MonomialIndex\<close> instance: it gets the next reference.\<close>

definition new_index :: "MonomialIndex \<Rightarrow> state \<Rightarrow> ref \<times> state" where
  "new_index idx self =
     (next_ref self,
      self\<lparr>heap := (heap self)(next_ref self := idx), next_ref := Suc (next_ref self)\<rparr>)"

text \<open>
  \<open>MonomialTransform.__init__\<close>: a FIXED end point is replaced by a new instance, the
  index minus the offset.
\<close>

definition MonomialTransform_init ::
  "ref \<Rightarrow> ref \<Rightarrow> transform_type \<Rightarrow> string option \<Rightarrow> int \<Rightarrow> state \<Rightarrow>
     MonomialTransform \<times> state" where
  "MonomialTransform_init i0 i1 tt r off self =
     (let (j0, s1) =
            (if index_type (heap self i0) = Some FIXED
             then new_index (sub (heap self i0) off) self else (i0, self));
          (j1, s2) =
            (if index_type (heap s1 i1) = Some FIXED
             then new_index (sub (heap s1 i1) off) s1 else (i1, s1))
      in (\<lparr>index0 = j0, index1 = j1, transform_type = tt, t_restriction = r, offset = off\<rparr>,
          s2))"

section \<open>Monomial transformation: the factors\<close>

text \<open>\<open>_extract_components\<close>; the last argument is the list \<open>components\<close> built so far.\<close>

fun extract_components ::
  "ufl_index list \<Rightarrow> nat \<Rightarrow> state \<Rightarrow> ref list \<Rightarrow> ref list \<times> state" where
  "extract_components [] vdim self comps = (comps, self)"
| "extract_components (c # cs) vdim self comps =
     (let (idx, s1) =
            (case index_map self c of
               Some i \<Rightarrow> (i, self)
             | None \<Rightarrow>
                 (case c of
                    FixedIndex v \<Rightarrow>
                      new_index \<lparr>index_type = Some FIXED, index_range = [v], index_id = None\<rparr> self
                  | Index _ \<Rightarrow>
                      new_index \<lparr>index_type = None, index_range = py_range vdim, index_id = None\<rparr>
                        self));
          s2 = s1\<lparr>index_map := (index_map s1)(c \<mapsto> idx)\<rparr>
      in extract_components cs vdim s2 (comps @ [idx]))"

text \<open>
  The list comprehension over \<open>component.index_range\<close> of lines 253-254: the mapping of
  every component, unless the provider raises.
\<close>

fun mappings :: "element \<Rightarrow> int list \<Rightarrow> error + mapping list" where
  "mappings el [] = Inr []"
| "mappings el (c # cs) =
     (case component_element el c of
        None \<Rightarrow> Inl ProviderError
      | Some (m, off) \<Rightarrow>
          (case mappings el cs of Inl e \<Rightarrow> Inl e | Inr ms \<Rightarrow> Inr (m # ms)))"

definition same_mapping :: "element \<Rightarrow> int list \<Rightarrow> error + unit" where
  "same_mapping el r =
     (if length r > 1 then
        (case component_element el (hd r) of
           None \<Rightarrow> Inl ProviderError
         | Some (same, off) \<Rightarrow>
             (case mappings el r of
                Inl e \<Rightarrow> Inl e
              | Inr ms \<Rightarrow>
                  if \<not> list_all (\<lambda>m. m = same) ms
                  then Inl (MonomialException
                              ''Unable to handle different mappings for index range.'')
                  else Inr ()))
      else Inr ())"

text \<open>
  Lines 247-274, the non-affine mappings: the result is the list \<open>components\<close>, whose
  entry 0 is replaced when a transform is added. Of \<open>MonomialIndex(index_range=range(gdim))
  + offset\<close> only the sum, a new instance, is kept by the code, so only the sum gets a
  reference.
\<close>

definition handle_mappings ::
  "element \<Rightarrow> string option \<Rightarrow> ref list \<Rightarrow> state \<Rightarrow> error + (ref list \<times> state)" where
  "handle_mappings el restriction comps self =
     (case comps of
        [] \<Rightarrow> Inr (comps, self)
      | component # _ \<Rightarrow>
          (case same_mapping el (index_range (heap self component)) of
             Inl e \<Rightarrow> Inl e
           | Inr _ \<Rightarrow>
               (case index_range (heap self component) of
                  [] \<Rightarrow> Inl IndexError
                | c0 # _ \<Rightarrow>
                    (case component_element el c0 of
                       None \<Rightarrow> Inl ProviderError
                     | Some (mapping, off) \<Rightarrow>
                         if mapping = CONTRAVARIANT_PIOLA then
                           (let (i1, s1) =
                                  new_index
                                    (add \<lparr>index_type = None,
                                          index_range = py_range (geometric_dimension el),
                                          index_id = None\<rparr> off) self;
                                (transform, s2) =
                                  MonomialTransform_init component i1 J restriction off s1;
                                s3 = s2\<lparr>transforms := transforms s2 @ [transform]\<rparr>;
                                s4 = s3\<lparr>determinant :=
                                          (determinant s3)\<lparr>det_power := det_power (determinant s3) - 1\<rparr>\<rparr>
                            in Inr (comps[0 := i1], s4))
                         else if mapping = COVARIANT_PIOLA then
                           (let (i0, s1) =
                                  new_index
                                    (add \<lparr>index_type = None,
                                          index_range = py_range (geometric_dimension el),
                                          index_id = None\<rparr> off) self;
                                (transform, s2) =
                                  MonomialTransform_init i0 component JINV restriction off s1;
                                s3 = s2\<lparr>transforms := transforms s2 @ [transform]\<rparr>
                            in Inr (comps[0 := i0], s3))
                         else Inr (comps, self)))))"

text \<open>Lines 276-291, the derivatives; the last argument is the list built so far.\<close>

fun extract_derivatives ::
  "ufl_index list \<Rightarrow> nat \<Rightarrow> string option \<Rightarrow> state \<Rightarrow> ref list \<Rightarrow> ref list \<times> state" where
  "extract_derivatives [] gdim restriction self derivs = (derivs, self)"
| "extract_derivatives (d # ds) gdim restriction self derivs =
     (let (i0, s1) =
            new_index \<lparr>index_type = None, index_range = py_range gdim, index_id = None\<rparr> self;
          (i1, s2) =
            (case index_map s1 d of
               Some i \<Rightarrow> (i, s1)
             | None \<Rightarrow>
                 (case d of
                    FixedIndex v \<Rightarrow>
                      new_index \<lparr>index_type = Some FIXED, index_range = [v], index_id = Some v\<rparr> s1
                  | Index _ \<Rightarrow>
                      new_index \<lparr>index_type = None, index_range = py_range gdim, index_id = None\<rparr>
                        s1));
          s3 = s2\<lparr>index_map := (index_map s2)(d \<mapsto> i1)\<rparr>;
          (transform, s4) = MonomialTransform_init i0 i1 JINV restriction 0 s3;
          s5 = s4\<lparr>transforms := transforms s4 @ [transform]\<rparr>
      in extract_derivatives ds gdim restriction s5 (derivs @ [i0]))"

text \<open>The body of the loop over \<open>monomial.factors\<close>, lines 224-298.\<close>

definition transform_factor :: "factor \<Rightarrow> state \<Rightarrow> error + state" where
  "transform_factor f self =
     (let el = f_element f;
          vdim = value_dimension el;
          sdim = space_dimension el;
          gdim = geometric_dimension el;
          (vindex, s1) =
            (case f_function f of
               BasisFunction count \<Rightarrow>
                 new_index \<lparr>index_type = Some PRIMARY, index_range = py_range sdim,
                            index_id = Some count\<rparr> self
             | Function count \<Rightarrow>
                 (let (v, s) =
                        new_index \<lparr>index_type = None, index_range = py_range sdim,
                                   index_id = None\<rparr> self
                  in (v, s\<lparr>coefficients :=
                              coefficients s @ [\<lparr>c_index = v, number = count\<rparr>]\<rparr>)));
          (comps, s2) = extract_components (f_components f) vdim s1 []
      in if length comps > 1
         then Inl (MonomialException ''Can only handle rank 0 or rank 1 tensors.'')
         else
           (case handle_mappings el (f_restriction f) comps s2 of
              Inl e \<Rightarrow> Inl e
            | Inr (comps', s3) \<Rightarrow>
                (let (derivs, s4) =
                       extract_derivatives (f_derivatives f) gdim (f_restriction f) s3 [];
                     v = \<lparr>v_element = el, v_index = vindex, components = comps',
                          derivatives = derivs, v_restriction = f_restriction f\<rparr>
                 in Inr (s4\<lparr>basis_functions := basis_functions s4 @ [v]\<rparr>))))"

fun transform_factors :: "factor list \<Rightarrow> state \<Rightarrow> error + state" where
  "transform_factors [] self = Inr self"
| "transform_factors (f # fs) self =
     (case transform_factor f self of
        Inl e \<Rightarrow> Inl e
      | Inr s \<Rightarrow> transform_factors fs s)"

section \<open>Monomial transformation: the classification of indices\<close>

definition internal_footprint :: "state \<Rightarrow> ref list" where
  "internal_footprint self =
     concat (map (\<lambda>v. [v_index v] @ components v @ derivatives v) (basis_functions self))"

definition external_footprint :: "state \<Rightarrow> ref list" where
  "external_footprint self =
     map c_index (coefficients self) @ map index0 (transforms self) @
     map index1 (transforms self)"

definition extract_internal_indices :: "state \<Rightarrow> role option \<Rightarrow> ref list" where
  "extract_internal_indices self t =
     filter (\<lambda>i. index_type (heap self i) = t) (internal_footprint self)"

definition extract_external_indices :: "state \<Rightarrow> role option \<Rightarrow> ref list" where
  "extract_external_indices self t =
     filter (\<lambda>i. index_type (heap self i) = t) (external_footprint self)"

text \<open>
  The loop of lines 303-323 over \<open>internal_indices + external_indices\<close>; the two lists
  were computed before the loop and are not recomputed.
\<close>

fun classify :: "ref list \<Rightarrow> ref list \<Rightarrow> ref list \<Rightarrow> state \<Rightarrow> error + state" where
  "classify internal_indices external_indices [] self = Inr self"
| "classify internal_indices external_indices (i # rest) self =
     (if index_type (heap self i) \<noteq> None
      then classify internal_indices external_indices rest self
      else
        (let num_internal = length (filter (\<lambda>j. j = i) internal_indices);
             num_external = length (filter (\<lambda>j. j = i) external_indices)
         in if num_internal = 1 \<and> num_external = 1 then
              (let (k, g) = next_secondary_index (globals self)
               in classify internal_indices external_indices rest
                    (self\<lparr>heap := (heap self)
                             (i := (heap self i)\<lparr>index_type := Some SECONDARY,
                                                 index_id := Some k\<rparr>),
                          globals := g\<rparr>))
            else if num_internal = 2 \<and> num_external = 0 then
              (let (k, g) = next_internal_index (globals self)
               in classify internal_indices external_indices rest
                    (self\<lparr>heap := (heap self)
                             (i := (heap self i)\<lparr>index_type := Some INTERNAL,
                                                 index_id := Some k\<rparr>),
                          globals := g\<rparr>))
            else if num_internal = 0 \<and> num_external = 2 then
              (let (k, g) = next_external_index (globals self)
               in classify internal_indices external_indices rest
                    (self\<lparr>heap := (heap self)
                             (i := (heap self i)\<lparr>index_type := Some EXTERNAL,
                                                 index_id := Some k\<rparr>),
                          globals := g\<rparr>))
            else
              (case str_index (heap self i) of
                 Inl e \<Rightarrow> Inl e
               | Inr s \<Rightarrow> error (''Summation index does not appear exactly twice: '' @ s))))"

text \<open>
  \<open>TransformedMonomial.__init__\<close>, started with the counters as an earlier construction
  left them. Unused references of the store hold an index without role.
\<close>

definition initial_state :: "globals \<Rightarrow> monomial \<Rightarrow> state" where
  "initial_state g m =
     \<lparr>globals = reset_indices g,
      heap = (\<lambda>_. \<lparr>index_type = None, index_range = [], index_id = None\<rparr>),
      next_ref = 0,
      index_map = Map.empty,
      float_value = m_float_value m,
      determinant = \<lparr>det_power = 0, d_restriction = None\<rparr>,
      coefficients = [],
      transforms = [],
      basis_functions = []\<rparr>"

definition TransformedMonomial :: "globals \<Rightarrow> monomial \<Rightarrow> error + state" where
  "TransformedMonomial g m =
     (case transform_factors (factors m) (initial_state g m) of
        Inl e \<Rightarrow> Inl e
      | Inr self \<Rightarrow>
          (let internal_indices = extract_internal_indices self None;
               external_indices = extract_external_indices self None
           in classify internal_indices external_indices
                (internal_indices @ external_indices) self))"

section \<open>Quadrature code generation: the target language and the backend\<close>

text \<open>
  The statements and expressions of the backend's language module (\<open>backend.language\<close>,
  outside the sources) are the nodes the generator builds. \<open>A[i]\<close> on a symbol is
  \<open>ArrayAccess\<close>; \<open>FlattenedIndices\<close> stands for \<open>L.flattened_indices(indices, shape)\<close>;
  a \<open>ForRange\<close> holds its index, begin, end and body. Floating-point literals and table
  entries are the rationals they denote.
\<close>

datatype expr =
    Symbol string
  | LiteralInt int
  | LiteralFloat rat
  | ArrayAccess expr "expr list"
  | Product "expr list"
  | FlattenedIndices "expr list" "nat list"

datatype stmt =
    Comment string
  | VerbatimStatement string
  | Assign expr expr
  | AssignAdd expr expr
  | ArrayDecl string expr "nat list" "rat list option" nat
  | Scope "stmt list"
  | ForRange expr expr expr "stmt list"
  | StatementList "stmt list"

text \<open>
  Modelled from the spec: \<open>L.commented_code_list\<close> is part of the language module, not
  among the sources. The spec has an empty varying body emit nothing, and the generator's
  own comments at its calls say ``add leading comment if there are any tables'': the
  comments are put in front of a non-empty code list, and an empty list stays empty.
\<close>

definition commented_code_list :: "stmt list \<Rightarrow> string list \<Rightarrow> stmt list" where
  "commented_code_list code comments = (if code = [] then [] else map Comment comments @ code)"

text \<open>
  An expression-graph node: a modified terminal, with what \<open>analyse_modified_terminal\<close>
  reads from it, or an operator with its \<open>_ufl_handler_name_\<close>, whether it is a
  \<open>Condition\<close>, and its \<open>ufl_operands\<close>. \<open>literal_value\<close> is \<open>float(v)\<close> where
  \<open>v._ufl_is_literal_\<close> holds.
\<close>

record modified_terminal =
  terminal :: string
  modifiers :: string
  literal_value :: "rat option"

datatype ufl_expr =
    ModifiedTerminal modified_terminal
  | Operator string bool "ufl_expr list"

type_synonym table_range = "nat \<times> nat"

text \<open>
  The backend adapter, a parameter of the generator: its symbols, the access expression
  and the definitions of a modified terminal, and the translation of an operator applied
  to the accesses of its operands.
\<close>

record backend =
  element_tensor :: string
  weights_array :: "nat \<Rightarrow> expr"
  points_array :: "nat \<Rightarrow> expr"
  quadrature_loop_index :: "nat \<Rightarrow> expr"
  num_quadrature_points :: "nat \<Rightarrow> expr"
  argument_loop_index :: "nat \<Rightarrow> expr"
  access :: "string \<Rightarrow> modified_terminal \<Rightarrow> table_range \<Rightarrow> nat \<Rightarrow> expr"
  definitions :: "string \<Rightarrow> modified_terminal \<Rightarrow> table_range \<Rightarrow> nat \<Rightarrow> expr \<Rightarrow> stmt list"
  ufl_to_language :: "ufl_expr \<Rightarrow> expr list \<Rightarrow> expr"

section \<open>Quadrature code generation: the intermediate representation\<close>

text \<open>
  A dictionary whose keys are iterated in sorted order is an association list (with
  distinct keys); \<open>sorted(d)\<close> sorts its keys and \<open>d[k]\<close> raises KeyError on a missing key.
  A table is a numpy array: its shape and its entries. The points of a quadrature rule
  are the rows of an array.
\<close>

datatype partition = Piecewise | Varying

fun partition_name :: "partition \<Rightarrow> string" where
  "partition_name Piecewise = ''piecewise''"
| "partition_name Varying = ''varying''"

record table =
  shape :: "nat list"
  entries :: "rat list"

record contribution =
  ma_indices :: "nat list"
  factor_index :: nat
  c_table_ranges :: "table_range list"
  unames :: "string list"
  ttypes :: "string list"

type_synonym dofblock = "(nat \<times> nat) list"

record expr_ir =
  V :: "ufl_expr list"
  piecewise :: "bool list"
  varying :: "bool list"
  table_ranges :: "table_range list"
  need_weights :: bool
  need_points :: bool
  unique_tables :: "(string \<times> table) list"
  modified_arguments :: "modified_terminal list"
  block_contributions :: "partition \<Rightarrow> (dofblock \<times> contribution list) list"

record ir =
  integral_type :: string
  quadrature_rules :: "(nat \<times> (rat list list \<times> rat list)) list"
  expr_irs :: "(nat \<times> expr_ir) list"
  tensor_shape :: "nat list"
  alignas :: nat

definition lookup :: "('k \<times> 'v) list \<Rightarrow> 'k \<Rightarrow> error + 'v" where
  "lookup d k = (case map_of d k of None \<Rightarrow> Inl KeyError | Some v \<Rightarrow> Inr v)"

definition sorted_keys :: "('k::linorder \<times> 'v) list \<Rightarrow> 'k list" where
  "sorted_keys d = sort (map fst d)"

definition sorted_items :: "('k::linorder \<times> 'v) list \<Rightarrow> ('k \<times> 'v) list" where
  "sorted_items d = sort_key fst d"

text \<open>\<open>xs[i]\<close> for an index that is never negative.\<close>

definition item :: "'a list \<Rightarrow> nat \<Rightarrow> error + 'a" where
  "item xs i = (if i < length xs then Inr (xs ! i) else Inl IndexError)"

text \<open>
  The generator object: the representation and the backend it was built with, and the two
  attributes it mutates, the memo \<open>vaccesses\<close> (per number of quadrature points, from a
  node to its access) and the set \<open>_ufl_names\<close>.
\<close>

record generator =
  gen_ir :: ir
  gen_backend :: backend

record gen_state =
  vaccesses :: "nat \<rightharpoonup> (ufl_expr \<rightharpoonup> expr)"
  ufl_names :: "string set"

section \<open>Quadrature code generation: tables and tensor reset\<close>

definition quadrature_table ::
  "generator \<Rightarrow> nat \<times> (rat list list \<times> rat list) \<Rightarrow> error + stmt list" where
  "quadrature_table self rule =
     (case rule of (num_points, points, weights) \<Rightarrow>
        if num_points \<noteq> length weights then Inl AssertionError
        else
          (case lookup (expr_irs (gen_ir self)) num_points of
             Inl e \<Rightarrow> Inl e
           | Inr expr_ir \<Rightarrow>
               (let wparts =
                      (if need_weights expr_ir
                       then [ArrayDecl ''static const double''
                               (weights_array (gen_backend self) num_points) [num_points]
                               (Some weights) (alignas (gen_ir self))]
                       else [])
                in case points of
                     [] \<Rightarrow> Inl IndexError
                   | p0 # _ \<Rightarrow>
                       (let pdim = length p0
                        in if length points \<noteq> num_points then Inl AssertionError
                           else if pdim \<noteq> 0 \<and> need_points expr_ir
                           then Inr (wparts @
                                  [ArrayDecl ''static const double''
                                     (points_array (gen_backend self) num_points)
                                     [num_points * pdim] (Some (concat points))
                                     (alignas (gen_ir self))])
                           else Inr wparts))))"

fun quadrature_tables ::
  "generator \<Rightarrow> (nat \<times> (rat list list \<times> rat list)) list \<Rightarrow> error + stmt list" where
  "quadrature_tables self [] = Inr []"
| "quadrature_tables self (rule # rules) =
     (case quadrature_table self rule of
        Inl e \<Rightarrow> Inl e
      | Inr parts \<Rightarrow>
          (case quadrature_tables self rules of
             Inl e \<Rightarrow> Inl e
           | Inr rest \<Rightarrow> Inr (parts @ rest)))"

definition generate_quadrature_tables :: "generator \<Rightarrow> error + stmt list" where
  "generate_quadrature_tables self =
     (if integral_type (gen_ir self) \<in>
           set [''custom'', ''cutcell'', ''interface'', ''overlap'', ''vertex'']
      then Inr []
      else
        (case quadrature_tables self (sorted_items (quadrature_rules (gen_ir self))) of
           Inl e \<Rightarrow> Inl e
         | Inr parts \<Rightarrow>
             Inr (commented_code_list parts
                    [''Section for quadrature weights and points''])))"

definition element_tables :: "generator \<Rightarrow> nat \<times> expr_ir \<Rightarrow> stmt list" where
  "element_tables self entry =
     (case entry of (num_points, expr_ir) \<Rightarrow>
        (let tables = unique_tables expr_ir
         in if tables \<noteq> [] then
              Comment (''Definitions of '' @ str_nat (length tables) @ '' tables for '' @
                       str_nat num_points @ '' quadrature points'') #
              map (\<lambda>(name, table).
                     ArrayDecl ''static const double'' (Symbol name) (shape table)
                       (Some (entries table)) (alignas (gen_ir self)))
                (sorted_items tables)
            else []))"

definition generate_element_tables :: "generator \<Rightarrow> stmt list" where
  "generate_element_tables self =
     commented_code_list
       (concat (map (element_tables self) (sorted_items (expr_irs (gen_ir self)))))
       [''Section for precomputed element basis function values'',
        ''Table dimensions: num_entities, num_points, num_dofs'']"

text \<open>
  \<open>generate_tensor_reset\<close>, with its local \<open>memzero\<close>; \<open>ufl.product\<close> of the shape is the
  product of its entries, 1 for the empty shape.
\<close>

definition memzero :: "string \<Rightarrow> nat \<Rightarrow> stmt" where
  "memzero ptrname n =
     VerbatimStatement
       (''memset('' @ ptrname @ '', 0, '' @ str_nat n @ '' * sizeof(*'' @ ptrname @ ''));'')"

definition generate_tensor_reset :: "generator \<Rightarrow> stmt list" where
  "generate_tensor_reset self =
     (let A = element_tensor (gen_backend self);
          A_size = prod_list (tensor_shape (gen_ir self));
          parts = [Comment ''Reset element tensor'']
      in if A_size = 1
         then parts @ [Assign (ArrayAccess (Symbol A) [LiteralInt 0]) (LiteralFloat 0)]
         else parts @ [memzero A A_size])"

section \<open>Quadrature code generation: partitions\<close>

text \<open>
  The local state of \<open>generate_partition\<close>: the lists \<open>definitions\<close> and \<open>intermediates\<close>,
  the memo of the current number of quadrature points, and \<open>_ufl_names\<close>.
\<close>

record partition_state =
  p_definitions :: "stmt list"
  p_intermediates :: "stmt list"
  p_vaccesses :: "ufl_expr \<rightharpoonup> expr"
  p_ufl_names :: "string set"

text \<open>\<open>[vaccesses[op] for op in v.ufl_operands]\<close>: KeyError at an operand not visited.\<close>

fun operand_accesses :: "(ufl_expr \<rightharpoonup> expr) \<Rightarrow> ufl_expr list \<Rightarrow> error + expr list" where
  "operand_accesses m [] = Inr []"
| "operand_accesses m (op # ops) =
     (case m op of
        None \<Rightarrow> Inl KeyError
      | Some a \<Rightarrow>
          (case operand_accesses m ops of Inl e \<Rightarrow> Inl e | Inr as \<Rightarrow> Inr (a # as)))"

text \<open>The body of the loop over \<open>partition_indices\<close>, lines 335-383.\<close>

definition partition_step ::
  "generator \<Rightarrow> expr \<Rightarrow> ufl_expr list \<Rightarrow> table_range list \<Rightarrow> nat \<Rightarrow> nat \<Rightarrow>
     partition_state \<Rightarrow> error + partition_state" where
  "partition_step self symbol Vs ranges num_points i st =
     (case item Vs i of
        Inl e \<Rightarrow> Inl e
      | Inr v \<Rightarrow>
          (case v of
             ModifiedTerminal mt \<Rightarrow>
               (case item ranges i of
                  Inl e \<Rightarrow> Inl e
                | Inr tr \<Rightarrow>
                    (let vaccess = access (gen_backend self) (terminal mt) mt tr num_points;
                         vdef = definitions (gen_backend self) (terminal mt) mt tr num_points
                                  vaccess
                     in Inr (st\<lparr>p_definitions := p_definitions st @ vdef,
                                p_vaccesses := (p_vaccesses st)(v \<mapsto> vaccess)\<rparr>)))
           | Operator name is_condition operands \<Rightarrow>
               (case operand_accesses (p_vaccesses st) operands of
                  Inl e \<Rightarrow> Inl e
                | Inr vops \<Rightarrow>
                    (let names = insert name (p_ufl_names st);
                         vexpr = ufl_to_language (gen_backend self) v vops;
                         j = (if is_condition then None
                              else Some (length (p_intermediates st)))
                     in case j of
                          Some k \<Rightarrow>
                            (let vaccess = ArrayAccess symbol [LiteralInt (int k)]
                             in Inr (st\<lparr>p_intermediates :=
                                          p_intermediates st @ [Assign vaccess vexpr],
                                        p_vaccesses := (p_vaccesses st)(v \<mapsto> vaccess),
                                        p_ufl_names := names\<rparr>))
                        | None \<Rightarrow>
                            Inr (st\<lparr>p_vaccesses := (p_vaccesses st)(v \<mapsto> vexpr),
                                    p_ufl_names := names\<rparr>)))))"

fun partition_loop ::
  "generator \<Rightarrow> expr \<Rightarrow> ufl_expr list \<Rightarrow> table_range list \<Rightarrow> nat \<Rightarrow> nat list \<Rightarrow>
     partition_state \<Rightarrow> error + partition_state" where
  "partition_loop self symbol Vs ranges num_points [] st = Inr st"
| "partition_loop self symbol Vs ranges num_points (i # is) st =
     (case partition_step self symbol Vs ranges num_points i st of
        Inl e \<Rightarrow> Inl e
      | Inr st' \<Rightarrow> partition_loop self symbol Vs ranges num_points is st')"

text \<open>\<open>[i for i, p in enumerate(partition) if p]\<close>.\<close>

definition partition_indices :: "bool list \<Rightarrow> nat list" where
  "partition_indices flags = filter (\<lambda>i. flags ! i) [0..<length flags]"

definition generate_partition ::
  "generator \<Rightarrow> expr \<Rightarrow> ufl_expr list \<Rightarrow> bool list \<Rightarrow> table_range list \<Rightarrow> nat \<Rightarrow>
     gen_state \<Rightarrow> error + (stmt list \<times> gen_state)" where
  "generate_partition self symbol Vs flags ranges num_points g =
     (case vaccesses g num_points of
        None \<Rightarrow> Inl KeyError
      | Some memo \<Rightarrow>
          (case partition_loop self symbol Vs ranges num_points (partition_indices flags)
                  \<lparr>p_definitions = [], p_intermediates = [], p_vaccesses = memo,
                   p_ufl_names = ufl_names g\<rparr> of
             Inl e \<Rightarrow> Inl e
           | Inr st \<Rightarrow>
               (let parts = (if p_definitions st \<noteq> [] then p_definitions st else []);
                    parts' =
                      (if p_intermediates st \<noteq> []
                       then parts @
                            [ArrayDecl ''double'' symbol [length (p_intermediates st)] None
                               (alignas (gen_ir self))] @
                            p_intermediates st
                       else parts)
                in Inr (parts',
                        g\<lparr>vaccesses := (vaccesses g)(num_points \<mapsto> p_vaccesses st),
                          ufl_names := p_ufl_names st\<rparr>))))"

definition expr_ir_partition :: "expr_ir \<Rightarrow> partition \<Rightarrow> bool list" where
  "expr_ir_partition e p = (case p of Piecewise \<Rightarrow> piecewise e | Varying \<Rightarrow> varying e)"

definition generate_unstructured_partition ::
  "generator \<Rightarrow> nat \<Rightarrow> partition \<Rightarrow> gen_state \<Rightarrow> error + (stmt list \<times> gen_state)" where
  "generate_unstructured_partition self num_points p g =
     (case lookup (expr_irs (gen_ir self)) num_points of
        Inl e \<Rightarrow> Inl e
      | Inr expr_ir \<Rightarrow>
          (let name = (case p of Piecewise \<Rightarrow> ''sp'' | Varying \<Rightarrow> ''sv'');
               arraysymbol = Symbol (name @ str_nat num_points)
           in case generate_partition self arraysymbol (V expr_ir) (expr_ir_partition expr_ir p)
                     (table_ranges expr_ir) num_points g of
                Inl e \<Rightarrow> Inl e
              | Inr (parts, g') \<Rightarrow>
                  Inr (commented_code_list parts
                         [''Unstructured '' @ partition_name p @ '' computations''], g')))"

section \<open>Quadrature code generation: dof blocks\<close>

text \<open>
  \<open>generate_dofblock_partition\<close>, one contribution at a time. \<open>A_indices\<close> is the list of
  loop counters, one per axis.
\<close>

fun A_indices :: "generator \<Rightarrow> nat \<Rightarrow> string list \<Rightarrow> nat list \<Rightarrow> error + expr list" where
  "A_indices self num_points tts [] = Inr []"
| "A_indices self num_points tts (i # is) =
     (case item tts i of
        Inl e \<Rightarrow> Inl e
      | Inr tt \<Rightarrow>
          (let ia = (if tt = ''quadrature''
                     then quadrature_loop_index (gen_backend self) num_points
                     else argument_loop_index (gen_backend self) i)
           in case A_indices self num_points tts is of
                Inl e \<Rightarrow> Inl e
              | Inr ias \<Rightarrow> Inr (ia # ias)))"

text \<open>Lines 289-299: the table accesses appended to \<open>factors\<close> (\<open>facs\<close>).\<close>

fun table_factors ::
  "generator \<Rightarrow> nat \<Rightarrow> expr_ir \<Rightarrow> contribution \<Rightarrow> nat list \<Rightarrow> expr list \<Rightarrow>
     error + expr list" where
  "table_factors self num_points expr_ir data [] facs = Inr facs"
| "table_factors self num_points expr_ir data (i # is) facs =
     (case item (ttypes data) i of
        Inl e \<Rightarrow> Inl e
      | Inr tt \<Rightarrow>
          if tt \<in> set [''zeros''] then Inl AssertionError
          else if tt \<notin> set [''quadrature'', ''ones''] then
            (case item (ma_indices data) i of
               Inl e \<Rightarrow> Inl e
             | Inr ma \<Rightarrow>
                 (case item (modified_arguments expr_ir) ma of
                    Inl e \<Rightarrow> Inl e
                  | Inr mt \<Rightarrow>
                      (case item (c_table_ranges data) i of
                         Inl e \<Rightarrow> Inl e
                       | Inr tr \<Rightarrow>
                           table_factors self num_points expr_ir data is
                             (facs @
                              [access (gen_backend self) (terminal mt) mt tr num_points]))))
          else table_factors self num_points expr_ir data is facs)"

text \<open>Lines 311-316: the loop nest, built from the last axis to the first.\<close>

fun loop_nest :: "expr list \<Rightarrow> string list \<Rightarrow> dofblock \<Rightarrow> nat list \<Rightarrow> stmt \<Rightarrow> error + stmt" where
  "loop_nest ias tts dofblock [] body = Inr body"
| "loop_nest ias tts dofblock (i # is) body =
     (case item tts i of
        Inl e \<Rightarrow> Inl e
      | Inr tt \<Rightarrow>
          if tt \<noteq> ''quadrature'' then
            (case item dofblock i of
               Inl e \<Rightarrow> Inl e
             | Inr dofrange \<Rightarrow>
                 (case item ias i of
                    Inl e \<Rightarrow> Inl e
                  | Inr ia \<Rightarrow>
                      loop_nest ias tts dofblock is
                        (ForRange ia (LiteralInt (int (fst dofrange)))
                           (LiteralInt (int (snd dofrange))) [body])))
          else loop_nest ias tts dofblock is body)"

definition dofblock_contribution ::
  "generator \<Rightarrow> nat \<Rightarrow> expr_ir \<Rightarrow> (ufl_expr \<rightharpoonup> expr) \<Rightarrow> dofblock \<Rightarrow> contribution \<Rightarrow>
     error + stmt" where
  "dofblock_contribution self num_points expr_ir memo dofblock data =
     (let rank = length (unames data)
      in case item (V expr_ir) (factor_index data) of
           Inl e \<Rightarrow> Inl e
         | Inr v \<Rightarrow>
             (case (if \<not> ((case v of ModifiedTerminal mt \<Rightarrow> literal_value mt = Some 1
                                   | Operator _ _ _ \<Rightarrow> False))
                    then (case memo v of None \<Rightarrow> Inl KeyError | Some a \<Rightarrow> Inr [a])
                    else Inr []) of
                Inl e \<Rightarrow> Inl e
              | Inr facs0 \<Rightarrow>
                  (case A_indices self num_points (ttypes data) [0..<rank] of
                     Inl e \<Rightarrow> Inl e
                   | Inr ias \<Rightarrow>
                       (case table_factors self num_points expr_ir data [0..<rank] facs0 of
                          Inl e \<Rightarrow> Inl e
                        | Inr facs \<Rightarrow>
                            (let term = (if facs \<noteq> [] then Product facs
                                         else LiteralFloat 1);
                                 flat_index =
                                   FlattenedIndices ias (tensor_shape (gen_ir self));
                                 body =
                                   AssignAdd
                                     (ArrayAccess
                                        (Symbol (element_tensor (gen_backend self)))
                                        [flat_index]) term
                             in loop_nest ias (ttypes data) dofblock (rev [0..<rank])
                                  body)))))"

fun dofblock_contributions ::
  "generator \<Rightarrow> nat \<Rightarrow> expr_ir \<Rightarrow> (ufl_expr \<rightharpoonup> expr) \<Rightarrow> dofblock \<Rightarrow>
     contribution list \<Rightarrow> error + stmt list" where
  "dofblock_contributions self num_points expr_ir memo dofblock [] = Inr []"
| "dofblock_contributions self num_points expr_ir memo dofblock (data # rest) =
     (case dofblock_contribution self num_points expr_ir memo dofblock data of
        Inl e \<Rightarrow> Inl e
      | Inr body \<Rightarrow>
          (case dofblock_contributions self num_points expr_ir memo dofblock rest of
             Inl e \<Rightarrow> Inl e
           | Inr parts \<Rightarrow> Inr (body # parts)))"

fun dofblocks ::
  "generator \<Rightarrow> nat \<Rightarrow> expr_ir \<Rightarrow> (ufl_expr \<rightharpoonup> expr) \<Rightarrow>
     (dofblock \<times> contribution list) list \<Rightarrow> error + stmt list" where
  "dofblocks self num_points expr_ir memo [] = Inr []"
| "dofblocks self num_points expr_ir memo ((dofblock, contributions) # rest) =
     (case dofblock_contributions self num_points expr_ir memo dofblock contributions of
        Inl e \<Rightarrow> Inl e
      | Inr parts \<Rightarrow>
          (case dofblocks self num_points expr_ir memo rest of
             Inl e \<Rightarrow> Inl e
           | Inr parts' \<Rightarrow> Inr (parts @ parts')))"

definition generate_dofblock_partition ::
  "generator \<Rightarrow> nat \<Rightarrow> partition \<Rightarrow> gen_state \<Rightarrow> error + stmt list" where
  "generate_dofblock_partition self num_points p g =
     (case lookup (expr_irs (gen_ir self)) num_points of
        Inl e \<Rightarrow> Inl e
      | Inr expr_ir \<Rightarrow>
          (case vaccesses g num_points of
             None \<Rightarrow> Inl KeyError
           | Some memo \<Rightarrow>
               dofblocks self num_points expr_ir memo
                 (sorted_items (block_contributions expr_ir p))))"

section \<open>Quadrature code generation: quadrature loops and the whole body\<close>

definition generate_quadrature_loops ::
  "generator \<Rightarrow> nat \<Rightarrow> gen_state \<Rightarrow> error + (stmt list \<times> gen_state)" where
  "generate_quadrature_loops self num_points g =
     (case generate_unstructured_partition self num_points Varying g of
        Inl e \<Rightarrow> Inl e
      | Inr (unstructured, g') \<Rightarrow>
          (let body0 =
                 commented_code_list unstructured
                   [''Quadrature loop body setup (num_points='' @ str_nat num_points @ '')'']
           in case generate_dofblock_partition self num_points Varying g' of
                Inl e \<Rightarrow> Inl e
              | Inr blocks \<Rightarrow>
                  (let body = body0 @ blocks
                   in if body = [] then Inr ([], g')
                      else if num_points = 1 then
                        Inr (commented_code_list [Scope body]
                               [''Only 1 quadrature point, no loop''], g')
                      else
                        (let iq = quadrature_loop_index (gen_backend self) num_points;
                             np = num_quadrature_points (gen_backend self) num_points
                         in Inr ([ForRange iq (LiteralInt 0) np body], g')))))"

definition generate_finishing_statements :: "generator \<Rightarrow> error + stmt list" where
  "generate_finishing_statements self =
     (if integral_type (gen_ir self) = ''expression''
      then error ''Expression generation not implemented yet.''
      else Inr [])"

text \<open>
  The body of the loop of \<open>generate\<close> over \<open>all_num_points\<close> (lines 101-114), and the loop;
  \<open>multiple\<close> is \<open>len(all_num_points) > 1\<close>.
\<close>

definition generate_num_points ::
  "generator \<Rightarrow> bool \<Rightarrow> nat \<Rightarrow> gen_state \<Rightarrow> error + (stmt list \<times> gen_state)" where
  "generate_num_points self multiple num_points g =
     (case generate_unstructured_partition self num_points Piecewise g of
        Inl e \<Rightarrow> Inl e
      | Inr (b1, g1) \<Rightarrow>
          (case generate_dofblock_partition self num_points Piecewise g1 of
             Inl e \<Rightarrow> Inl e
           | Inr b2 \<Rightarrow>
               (case generate_quadrature_loops self num_points g1 of
                  Inl e \<Rightarrow> Inl e
                | Inr (b3, g3) \<Rightarrow>
                    (let body = b1 @ b2 @ b3
                     in Inr (if multiple then [Scope body] else body, g3)))))"

fun generate_loop ::
  "generator \<Rightarrow> bool \<Rightarrow> nat list \<Rightarrow> gen_state \<Rightarrow> error + (stmt list \<times> gen_state)" where
  "generate_loop self multiple [] g = Inr ([], g)"
| "generate_loop self multiple (num_points # rest) g =
     (case generate_num_points self multiple num_points g of
        Inl e \<Rightarrow> Inl e
      | Inr (parts, g') \<Rightarrow>
          (case generate_loop self multiple rest g' of
             Inl e \<Rightarrow> Inl e
           | Inr (parts', g'') \<Rightarrow> Inr (parts @ parts', g'')))"

text \<open>The memo as line 99 builds it: an empty dictionary for each number of points.\<close>

definition reset_vaccesses :: "nat list \<Rightarrow> gen_state \<Rightarrow> gen_state" where
  "reset_vaccesses all_num_points g =
     g\<lparr>vaccesses := (\<lambda>n. if n \<in> set all_num_points then Some Map.empty else None)\<rparr>"

definition generate :: "generator \<Rightarrow> gen_state \<Rightarrow> error + (stmt \<times> gen_state)" where
  "generate self g =
     (case generate_quadrature_tables self of
        Inl e \<Rightarrow> Inl e
      | Inr tables \<Rightarrow>
          (let parts = tables @ generate_element_tables self @ generate_tensor_reset self;
               all_num_points = sorted_keys (expr_irs (gen_ir self));
               g0 = reset_vaccesses all_num_points g
           in case generate_loop self (length all_num_points > 1) all_num_points g0 of
                Inl e \<Rightarrow> Inl e
              | Inr (bodies, g') \<Rightarrow>
                  (case generate_finishing_statements self of
                     Inl e \<Rightarrow> Inl e
                   | Inr finishing \<Rightarrow>
                       Inr (StatementList (parts @ bodies @ finishing), g'))))"

section \<open>Auxiliary notions for the proofs\<close>

text \<open>
  The role that lines 313-321 choose from the two counts (\<open>None\<close> where line 323 raises),
  and the state after lines 314-321 have given index \<open>j\<close> the role \<open>r\<close> and the next id
  of that role.
\<close>

definition role_of_counts :: "ref list \<Rightarrow> ref list \<Rightarrow> ref \<Rightarrow> role option" where
  "role_of_counts I E i =
     (if count_list I i = 1 \<and> count_list E i = 1 then Some SECONDARY
      else if count_list I i = 2 \<and> count_list E i = 0 then Some INTERNAL
      else if count_list I i = 0 \<and> count_list E i = 2 then Some EXTERNAL
      else None)"

definition assign_role :: "state \<Rightarrow> ref \<Rightarrow> role \<Rightarrow> state" where
  "assign_role s j r =
     (if r = SECONDARY then
        s\<lparr>heap := (heap s)(j := (heap s j)\<lparr>index_type := Some SECONDARY,
                    index_id := Some (current_secondary_index (globals s))\<rparr>),
          globals := (globals s)\<lparr>current_secondary_index :=
                                   current_secondary_index (globals s) + 1\<rparr>\<rparr>
      else if r = INTERNAL then
        s\<lparr>heap := (heap s)(j := (heap s j)\<lparr>index_type := Some INTERNAL,
                    index_id := Some (current_internal_index (globals s))\<rparr>),
          globals := (globals s)\<lparr>current_internal_index :=
                                   current_internal_index (globals s) + 1\<rparr>\<rparr>
      else
        s\<lparr>heap := (heap s)(j := (heap s j)\<lparr>index_type := Some EXTERNAL,
                    index_id := Some (current_external_index (globals s))\<rparr>),
          globals := (globals s)\<lparr>current_external_index :=
                                   current_external_index (globals s) + 1\<rparr>\<rparr>)"

text \<open>The counter that belongs to a role.\<close>

fun counter_of :: "role \<Rightarrow> globals \<Rightarrow> int" where
  "counter_of SECONDARY g = current_secondary_index g"
| "counter_of INTERNAL g = current_internal_index g"
| "counter_of EXTERNAL g = current_external_index g"
| "counter_of r g = 0"

text \<open>
  The component at which line 256 asks the element for the sub-element of a raw index:
  the first element of the range of the index it resolves to. The invariant of
  \<open>index_map\<close> that makes it so: a mapped index is allocated, and a non-empty range starts
  with that component.
\<close>

definition first_component :: "ufl_index \<Rightarrow> int" where
  "first_component c = (case c of FixedIndex v \<Rightarrow> v | Index _ \<Rightarrow> 0)"

definition map_inv :: "state \<Rightarrow> bool" where
  "map_inv s \<longleftrightarrow>
     (\<forall>c r. index_map s c = Some r \<longrightarrow>
        r < next_ref s \<and>
        (\<forall>x xs. index_range (heap s r) = x # xs \<longrightarrow> x = first_component c))"

text \<open>The number a string of decimal digits denotes.\<close>

definition decimal_value :: "string \<Rightarrow> nat" where
  "decimal_value s = foldl (\<lambda>a c. 10 * a + (of_char c - 48)) 0 s"


text \<open>
  A list of intermediates in which the assignment number \<open>k\<close> writes slot \<open>k\<close> of the
  array \<open>symbol\<close>.
\<close>

definition slots :: "expr \<Rightarrow> stmt list \<Rightarrow> bool" where
  "slots symbol ints \<longleftrightarrow>
     (\<forall>k<length ints. \<exists>e. ints ! k = Assign (ArrayAccess symbol [LiteralInt (int k)]) e)"

section \<open>Index evaluation\<close>

text \<open>
  C4. Evaluating an index whose role is PRIMARY, SECONDARY, INTERNAL or EXTERNAL without
  the binding array of that role raises an error whose message contains the name of the
  role, whatever the other bindings are; a FIXED index evaluates to the first element of
  its range whatever the bindings are.
\<close>

theorem call_without_binding:
  "(index_type self = Some PRIMARY \<longrightarrow>
      call self None s i e = Inl (Error ''Missing index values for primary indices.'') \<and>
      sublist (role_name PRIMARY) ''Missing index values for primary indices.'') \<and>
   (index_type self = Some SECONDARY \<longrightarrow>
      call self p None i e = Inl (Error ''Missing index values for secondary indices.'') \<and>
      sublist (role_name SECONDARY) ''Missing index values for secondary indices.'') \<and>
   (index_type self = Some INTERNAL \<longrightarrow>
      call self p s None e =
        Inl (Error ''Missing index values for internal auxiliary indices.'') \<and>
      sublist (role_name INTERNAL) ''Missing index values for internal auxiliary indices.'') \<and>
   (index_type self = Some EXTERNAL \<longrightarrow>
      call self p s i None =
        Inl (Error ''Missing index values for external auxiliary indices.'') \<and>
      sublist (role_name EXTERNAL) ''Missing index values for external auxiliary indices.'') \<and>
   (index_type self = Some FIXED \<and> index_range self = x # xs \<longrightarrow>
      call self p s i e = Inr x)"
proof -
  have n1: "sublist (role_name PRIMARY) ''Missing index values for primary indices.''"
    unfolding sublist_def
    by (rule exI [of _ "''Missing index values for ''"], rule exI [of _ "'' indices.''"]) simp
  have n2: "sublist (role_name SECONDARY) ''Missing index values for secondary indices.''"
    unfolding sublist_def
    by (rule exI [of _ "''Missing index values for ''"], rule exI [of _ "'' indices.''"]) simp
  have n3: "sublist (role_name INTERNAL) ''Missing index values for internal auxiliary indices.''"
    unfolding sublist_def
    by (rule exI [of _ "''Missing index values for ''"],
        rule exI [of _ "'' auxiliary indices.''"]) simp
  have n4: "sublist (role_name EXTERNAL) ''Missing index values for external auxiliary indices.''"
    unfolding sublist_def
    by (rule exI [of _ "''Missing index values for ''"],
        rule exI [of _ "'' auxiliary indices.''"]) simp
  show ?thesis
    using n1 n2 n3 n4 by (simp add: call_def error_def)
qed

theorem call_without_binding_witness:
  "call \<lparr>index_type = Some SECONDARY, index_range = [0, 1, 2], index_id = Some 0\<rparr>
       (Some [4]) None (Some [5]) (Some [6]) =
     Inl (Error ''Missing index values for secondary indices.'') \<and>
   call \<lparr>index_type = Some PRIMARY, index_range = [0, 1, 2], index_id = Some 0\<rparr>
       None (Some [4]) (Some [5]) (Some [6]) =
     Inl (Error ''Missing index values for primary indices.'') \<and>
   call \<lparr>index_type = Some INTERNAL, index_range = [0, 1, 2], index_id = Some 0\<rparr>
       (Some [4]) (Some [5]) None (Some [6]) =
     Inl (Error ''Missing index values for internal auxiliary indices.'') \<and>
   call \<lparr>index_type = Some EXTERNAL, index_range = [0, 1, 2], index_id = Some 0\<rparr>
       (Some [4]) (Some [5]) (Some [6]) None =
     Inl (Error ''Missing index values for external auxiliary indices.'') \<and>
   call \<lparr>index_type = Some FIXED, index_range = [7], index_id = None\<rparr>
       None None None None = Inr 7"
  using
    call_without_binding [where self = "\<lparr>index_type = Some SECONDARY, index_range = [0, 1, 2], index_id = Some 0\<rparr>"
      and p = "Some [4]" and i = "Some [5]" and e = "Some [6]"]
    call_without_binding [where self = "\<lparr>index_type = Some PRIMARY, index_range = [0, 1, 2], index_id = Some 0\<rparr>"
      and s = "Some [4]" and i = "Some [5]" and e = "Some [6]"]
    call_without_binding [where self = "\<lparr>index_type = Some INTERNAL, index_range = [0, 1, 2], index_id = Some 0\<rparr>"
      and p = "Some [4]" and s = "Some [5]" and e = "Some [6]"]
    call_without_binding [where self = "\<lparr>index_type = Some EXTERNAL, index_range = [0, 1, 2], index_id = Some 0\<rparr>"
      and p = "Some [4]" and s = "Some [5]" and i = "Some [6]"]
    call_without_binding [where self = "\<lparr>index_type = Some FIXED, index_range = [7], index_id = None\<rparr>"
      and p = None and s = None and i = None and e = None and x = 7 and xs = "[]"]
  by simp

text \<open>
  C10. For an index of role PRIMARY, SECONDARY, INTERNAL or EXTERNAL, evaluation with the
  binding array of its role present but empty raises the same missing-index-values error
  as evaluation with that binding absent.
\<close>

theorem call_empty_binding:
  "(index_type self = Some PRIMARY \<longrightarrow>
      call self (Some []) s i e =
        Inl (Error ''Missing index values for primary indices.'') \<and>
      call self None s i e =
        Inl (Error ''Missing index values for primary indices.'')) \<and>
   (index_type self = Some SECONDARY \<longrightarrow>
      call self p (Some []) i e =
        Inl (Error ''Missing index values for secondary indices.'') \<and>
      call self p None i e =
        Inl (Error ''Missing index values for secondary indices.'')) \<and>
   (index_type self = Some INTERNAL \<longrightarrow>
      call self p s (Some []) e =
        Inl (Error ''Missing index values for internal auxiliary indices.'') \<and>
      call self p s None e =
        Inl (Error ''Missing index values for internal auxiliary indices.'')) \<and>
   (index_type self = Some EXTERNAL \<longrightarrow>
      call self p s i (Some []) =
        Inl (Error ''Missing index values for external auxiliary indices.'') \<and>
      call self p s i None =
        Inl (Error ''Missing index values for external auxiliary indices.''))"
  by (simp add: call_def error_def)

theorem call_empty_binding_witness:
  "call \<lparr>index_type = Some PRIMARY, index_range = [0, 1, 2], index_id = Some 0\<rparr>
       (Some []) (Some [4]) (Some [5]) (Some [6]) =
     Inl (Error ''Missing index values for primary indices.'') \<and>
   call \<lparr>index_type = Some SECONDARY, index_range = [0, 1, 2], index_id = Some 0\<rparr>
       (Some [4]) (Some []) (Some [5]) (Some [6]) =
     Inl (Error ''Missing index values for secondary indices.'') \<and>
   call \<lparr>index_type = Some INTERNAL, index_range = [0, 1, 2], index_id = Some 0\<rparr>
       (Some [4]) (Some [5]) (Some []) (Some [6]) =
     Inl (Error ''Missing index values for internal auxiliary indices.'') \<and>
   call \<lparr>index_type = Some EXTERNAL, index_range = [0, 1, 2], index_id = Some 0\<rparr>
       (Some [4]) (Some [5]) (Some [6]) (Some []) =
     Inl (Error ''Missing index values for external auxiliary indices.'')"
  using
    call_empty_binding [where self = "\<lparr>index_type = Some PRIMARY, index_range = [0, 1, 2], index_id = Some 0\<rparr>"
      and s = "Some [4]" and i = "Some [5]" and e = "Some [6]"]
    call_empty_binding [where self = "\<lparr>index_type = Some SECONDARY, index_range = [0, 1, 2], index_id = Some 0\<rparr>"
      and p = "Some [4]" and i = "Some [5]" and e = "Some [6]"]
    call_empty_binding [where self = "\<lparr>index_type = Some INTERNAL, index_range = [0, 1, 2], index_id = Some 0\<rparr>"
      and p = "Some [4]" and s = "Some [5]" and e = "Some [6]"]
    call_empty_binding [where self = "\<lparr>index_type = Some EXTERNAL, index_range = [0, 1, 2], index_id = Some 0\<rparr>"
      and p = "Some [4]" and s = "Some [5]" and i = "Some [6]"]
  by simp

section \<open>Results in closed form\<close>

lemma InrE:
  "(case x of Inl e \<Rightarrow> False | Inr s \<Rightarrow> P s) \<Longrightarrow> \<exists>s. x = Inr s \<and> P s"
  by (cases x) simp_all

section \<open>The classification loop\<close>

lemma count_filter_eq: "length (filter (\<lambda>j. j = i) xs) = count_list xs i"
  by (induction xs) auto

lemma classify_append:
  "classify I E (xs @ ys) s =
     (case classify I E xs s of Inl e \<Rightarrow> Inl e | Inr s' \<Rightarrow> classify I E ys s')"
  by (induction xs arbitrary: s)
     (auto simp: Let_def error_def split: prod.splits sum.splits)

lemma classify_persist:
  "classify I E xs s = Inr s' \<Longrightarrow> index_type (heap s j) \<noteq> None \<Longrightarrow> heap s' j = heap s j"
  by (induction xs arbitrary: s)
     (auto simp: Let_def error_def split: prod.splits sum.splits if_splits)

lemma classify_frame:
  "classify I E xs s = Inr s' \<Longrightarrow> j \<notin> set xs \<Longrightarrow> heap s' j = heap s j"
  by (induction xs arbitrary: s)
     (auto simp: Let_def error_def split: prod.splits sum.splits if_splits)

lemma role_of_counts_cases:
  "role_of_counts I E i = Some r \<Longrightarrow> r = SECONDARY \<or> r = INTERNAL \<or> r = EXTERNAL"
  by (auto simp: role_of_counts_def split: if_splits)

lemma classify_Cons_typed:
  "index_type (heap s j) \<noteq> None \<Longrightarrow> classify I E (j # rest) s = classify I E rest s"
  by simp

lemma classify_Cons_untyped:
  assumes "index_type (heap s j) = None"
  shows "classify I E (j # rest) s =
     (case role_of_counts I E j of
        None \<Rightarrow> Inl (Error ''Summation index does not appear exactly twice: ?'')
      | Some r \<Rightarrow> classify I E rest (assign_role s j r))"
  using assms
  by (simp add: role_of_counts_def assign_role_def count_filter_eq Let_def
        next_secondary_index_def next_internal_index_def next_external_index_def
        str_index_def error_def)

lemma heap_assign_role:
  "role_of_counts I E j = Some r \<Longrightarrow>
   heap (assign_role s j r) = (heap s)(j := (heap s j)\<lparr>index_type := Some r,
      index_id := Some (if r = SECONDARY then current_secondary_index (globals s)
                        else if r = INTERNAL then current_internal_index (globals s)
                        else current_external_index (globals s))\<rparr>)"
  by (auto dest!: role_of_counts_cases simp: assign_role_def)

lemma classify_roles:
  "classify I E xs s = Inr s' \<Longrightarrow> i \<in> set xs \<Longrightarrow> index_type (heap s i) = None \<Longrightarrow>
   role_of_counts I E i \<noteq> None \<and> index_type (heap s' i) = role_of_counts I E i"
proof (induction xs arbitrary: s)
  case Nil
  then show ?case by simp
next
  case (Cons j rest)
  show ?case
  proof (cases "index_type (heap s j) = None")
    case False
    with Cons.prems have "classify I E rest s = Inr s'" "i \<in> set rest" by auto
    from Cons.IH [OF this Cons.prems(3)] show ?thesis .
  next
    case True
    from Cons.prems(1) obtain r where r: "role_of_counts I E j = Some r"
      by (cases "role_of_counts I E j") (simp_all add: classify_Cons_untyped [OF True] del: classify.simps)
    define s1 where "s1 = assign_role s j r"
    have c: "classify I E rest s1 = Inr s'"
      using Cons.prems(1) r by (simp add: classify_Cons_untyped [OF True] s1_def del: classify.simps)
    show ?thesis
    proof (cases "i = j")
      case True
      have "index_type (heap s1 j) \<noteq> None" by (simp add: s1_def heap_assign_role [OF r])
      from classify_persist [OF c this] have "heap s' j = heap s1 j" .
      then show ?thesis using r True by (simp add: s1_def heap_assign_role [OF r])
    next
      case False
      then have "i \<in> set rest" "index_type (heap s1 i) = None"
        using Cons.prems by (simp_all add: s1_def heap_assign_role [OF r])
      from Cons.IH [OF c this] show ?thesis .
    qed
  qed
qed

lemma classify_fails:
  "i \<in> set xs \<Longrightarrow> index_type (heap s i) = None \<Longrightarrow> role_of_counts I E i = None \<Longrightarrow>
   classify I E xs s = Inl (Error ''Summation index does not appear exactly twice: ?'')"
proof (induction xs arbitrary: s)
  case Nil
  then show ?case by simp
next
  case (Cons j rest)
  show ?case
  proof (cases "index_type (heap s j) = None")
    case False
    with Cons.prems have "i \<in> set rest" by auto
    from Cons.IH [OF this Cons.prems(2,3)] False show ?thesis by simp
  next
    case True
    show ?thesis
    proof (cases "role_of_counts I E j")
      case None
      then show ?thesis by (simp add: classify_Cons_untyped [OF True] del: classify.simps)
    next
      case (Some r)
      with Cons.prems have ij: "i \<noteq> j" by auto
      with Cons.prems have "i \<in> set rest" by simp
      then show ?thesis
        using Some ij Cons.prems(2,3)
        by (simp add: classify_Cons_untyped [OF True] Cons.IH heap_assign_role [OF Some]
              del: classify.simps)
    qed
  qed
qed

lemma classify_succeeds:
  "\<forall>i\<in>set xs. index_type (heap s i) = None \<longrightarrow> role_of_counts I E i \<noteq> None \<Longrightarrow>
   \<exists>s'. classify I E xs s = Inr s'"
proof (induction xs arbitrary: s)
  case Nil
  then show ?case by simp
next
  case (Cons j rest)
  show ?case
  proof (cases "index_type (heap s j) = None")
    case False
    then show ?thesis using Cons.IH [of s] Cons.prems by simp
  next
    case True
    with Cons.prems obtain r where r: "role_of_counts I E j = Some r" by auto
    show ?thesis
      using r Cons.prems
      by (simp add: classify_Cons_untyped [OF True] del: classify.simps)
         (rule Cons.IH, simp add: heap_assign_role [OF r])
  qed
qed

lemma classify_determinant:
  "classify I E xs s = Inr s' \<Longrightarrow> determinant s' = determinant s"
  by (induction xs arbitrary: s)
     (auto simp: Let_def error_def split: prod.splits sum.splits if_splits)

lemma assign_role_id:
  "role_of_counts I E j = Some r \<Longrightarrow>
   index_id (heap (assign_role s j r) j) = Some (counter_of r (globals s)) \<and>
   index_type (heap (assign_role s j r) j) = Some r"
  by (auto dest!: role_of_counts_cases simp: assign_role_def)

lemma assign_role_counter:
  "role_of_counts I E j = Some r \<Longrightarrow> r' \<noteq> r \<Longrightarrow>
   counter_of r' (globals (assign_role s j r)) = counter_of r' (globals s)"
  by (cases r') (auto dest!: role_of_counts_cases simp: assign_role_def)

lemma classify_counter:
  "classify I E xs s = Inr s' \<Longrightarrow> \<forall>j\<in>set xs. index_type (heap s' j) \<noteq> Some r \<Longrightarrow>
   counter_of r (globals s') = counter_of r (globals s)"
proof (induction xs arbitrary: s)
  case Nil
  then show ?case by simp
next
  case (Cons j rest)
  show ?case
  proof (cases "index_type (heap s j) = None")
    case False
    with Cons.prems Cons.IH [of s] show ?thesis by simp
  next
    case True
    from Cons.prems(1) obtain r' where r': "role_of_counts I E j = Some r'"
      by (cases "role_of_counts I E j")
         (simp_all add: classify_Cons_untyped [OF True] del: classify.simps)
    have c: "classify I E rest (assign_role s j r') = Inr s'"
      using Cons.prems(1) r' by (simp add: classify_Cons_untyped [OF True] del: classify.simps)
    have "index_type (heap (assign_role s j r') j) \<noteq> None"
      using assign_role_id [OF r'] by simp
    from classify_persist [OF c this] assign_role_id [OF r', of s]
    have "index_type (heap s' j) = Some r'" by simp
    with Cons.prems(2) have "r \<noteq> r'" by auto
    from assign_role_counter [OF r' this] Cons.IH [OF c] Cons.prems(2)
    show ?thesis by simp
  qed
qed

lemma classify_first_id:
  assumes "classify I E (pre @ i # post) s = Inr s'"
    and "index_type (heap s i) = None"
    and "index_type (heap s' i) = Some r"
    and "\<forall>j\<in>set pre. index_type (heap s' j) \<noteq> Some r"
  shows "index_id (heap s' i) = Some (counter_of r (globals s))"
proof -
  from assms(1) obtain s1 where
    pre: "classify I E pre s = Inr s1" and rest: "classify I E (i # post) s1 = Inr s'"
    by (auto simp: classify_append split: sum.splits)
  from assms(3,4) have "i \<notin> set pre" by auto
  from classify_frame [OF pre this] assms(2) have u: "index_type (heap s1 i) = None" by simp
  from rest obtain r' where r': "role_of_counts I E i = Some r'"
    by (cases "role_of_counts I E i")
       (simp_all add: classify_Cons_untyped [OF u] del: classify.simps)
  have c: "classify I E post (assign_role s1 i r') = Inr s'"
    using rest r' by (simp add: classify_Cons_untyped [OF u] del: classify.simps)
  have "index_type (heap (assign_role s1 i r') i) \<noteq> None"
    using assign_role_id [OF r'] by simp
  from classify_persist [OF c this] assign_role_id [OF r', of s1]
  have fin: "index_type (heap s' i) = Some r'" "index_id (heap s' i) = Some (counter_of r' (globals s1))"
    by simp_all
  with assms(3) have rr: "r' = r" by simp
  have "\<forall>j\<in>set pre. index_type (heap s1 j) \<noteq> Some r"
  proof
    fix j assume j: "j \<in> set pre"
    show "index_type (heap s1 j) \<noteq> Some r"
    proof
      assume t: "index_type (heap s1 j) = Some r"
      then have "index_type (heap s1 j) \<noteq> None" by simp
      from classify_persist [OF rest this] t assms(4) j show False by auto
    qed
  qed
  from classify_counter [OF pre this] fin rr show ?thesis by simp
qed

lemma count_list_filter:
  "count_list (filter P xs) i = (if P i then count_list xs i else 0)"
  by (induction xs) auto


section \<open>The loop over the factors\<close>

lemma py_range_first: "py_range n = x # xs \<Longrightarrow> x = 0"
  by (cases n) (auto simp: py_range_def upt_rec)

lemma new_index_fst [simp]: "fst (new_index idx s) = next_ref s"
  by (simp add: new_index_def)

lemma new_index_snd [simp]:
  "globals (snd (new_index idx s)) = globals s"
  "determinant (snd (new_index idx s)) = determinant s"
  "index_map (snd (new_index idx s)) = index_map s"
  "next_ref (snd (new_index idx s)) = Suc (next_ref s)"
  "heap (snd (new_index idx s)) = (heap s)(next_ref s := idx)"
  "coefficients (snd (new_index idx s)) = coefficients s"
  "transforms (snd (new_index idx s)) = transforms s"
  "basis_functions (snd (new_index idx s)) = basis_functions s"
  by (simp_all add: new_index_def)

lemma map_inv_new_index: "map_inv s \<Longrightarrow> map_inv (snd (new_index idx s))"
  by (auto simp: map_inv_def less_Suc_eq)

lemma map_inv_bind:
  "map_inv s \<Longrightarrow>
   (\<forall>x xs. index_range idx = x # xs \<longrightarrow> x = first_component c) \<Longrightarrow>
   map_inv ((snd (new_index idx s))\<lparr>index_map := (index_map s)(c \<mapsto> next_ref s)\<rparr>)"
  by (auto simp: map_inv_def less_Suc_eq)

lemma map_inv_rebind:
  "map_inv s \<Longrightarrow> index_map s c = Some i \<Longrightarrow> map_inv (s\<lparr>index_map := (index_map s)(c \<mapsto> i)\<rparr>)"
  by (auto simp: map_inv_def)

lemma MonomialTransform_init_snd [simp]:
  "globals (snd (MonomialTransform_init i0 i1 tt r off s)) = globals s"
  "determinant (snd (MonomialTransform_init i0 i1 tt r off s)) = determinant s"
  "index_map (snd (MonomialTransform_init i0 i1 tt r off s)) = index_map s"
  "coefficients (snd (MonomialTransform_init i0 i1 tt r off s)) = coefficients s"
  "transforms (snd (MonomialTransform_init i0 i1 tt r off s)) = transforms s"
  "basis_functions (snd (MonomialTransform_init i0 i1 tt r off s)) = basis_functions s"
  by (simp_all add: MonomialTransform_init_def Let_def case_prod_beta)

lemma map_inv_MonomialTransform_init:
  "map_inv s \<Longrightarrow> map_inv (snd (MonomialTransform_init i0 i1 tt r off s))"
  by (simp add: MonomialTransform_init_def Let_def case_prod_beta map_inv_new_index)

lemma map_inv_transforms_update:
  "map_inv (s\<lparr>transforms := t\<rparr>) = map_inv s"
  "map_inv (s\<lparr>determinant := d\<rparr>) = map_inv s"
  "map_inv (s\<lparr>coefficients := cf\<rparr>) = map_inv s"
  "map_inv (s\<lparr>basis_functions := b\<rparr>) = map_inv s"
  by (simp_all add: map_inv_def)

lemma extract_components_frame:
  "globals (snd (extract_components cs vdim s comps)) = globals s \<and>
   determinant (snd (extract_components cs vdim s comps)) = determinant s \<and>
   length (fst (extract_components cs vdim s comps)) = length comps + length cs"
  by (induction cs arbitrary: s comps)
     (auto simp: Let_def case_prod_beta split: option.splits ufl_index.splits)

lemma map_inv_extract_components:
  "map_inv s \<Longrightarrow> map_inv (snd (extract_components cs vdim s comps))"
proof (induction cs arbitrary: s comps)
  case Nil
  then show ?case by simp
next
  case (Cons c cs)
  show ?case
  proof (cases "index_map s c")
    case (Some i)
    then show ?thesis
      using Cons.prems by (simp add: Cons.IH map_inv_rebind Let_def case_prod_beta)
  next
    case None
    show ?thesis
    proof (cases c)
      case (Index k)
      have "map_inv ((snd (new_index \<lparr>index_type = None, index_range = py_range vdim, index_id = None\<rparr> s))
                        \<lparr>index_map := (index_map s)(c \<mapsto> next_ref s)\<rparr>)"
        using Cons.prems
        by (intro map_inv_bind) (auto simp: Index first_component_def dest: py_range_first)
      then show ?thesis using None Index by (simp add: Cons.IH Let_def case_prod_beta)
    next
      case (FixedIndex v)
      have "map_inv ((snd (new_index \<lparr>index_type = Some FIXED, index_range = [v], index_id = None\<rparr> s))
                        \<lparr>index_map := (index_map s)(c \<mapsto> next_ref s)\<rparr>)"
        using Cons.prems
        by (intro map_inv_bind) (simp_all add: FixedIndex first_component_def)
      then show ?thesis using None FixedIndex by (simp add: Cons.IH Let_def case_prod_beta)
    qed
  qed
qed

lemma extract_derivatives_frame:
  "globals (snd (extract_derivatives ds gdim r s derivs)) = globals s \<and>
   determinant (snd (extract_derivatives ds gdim r s derivs)) = determinant s"
  by (induction ds arbitrary: s derivs)
     (auto simp: Let_def case_prod_beta split: option.splits ufl_index.splits)

lemma map_inv_extract_derivatives:
  "map_inv s \<Longrightarrow> map_inv (snd (extract_derivatives ds gdim r s derivs))"
proof (induction ds arbitrary: s derivs)
  case Nil
  then show ?case by simp
next
  case (Cons d ds)
  define s1 where
    "s1 = snd (new_index \<lparr>index_type = None, index_range = py_range gdim, index_id = None\<rparr> s)"
  have s1: "map_inv s1"
    unfolding s1_def using Cons.prems by (rule map_inv_new_index)
  have m1: "index_map s1 = index_map s" by (simp add: s1_def)
  have step: "map_inv (s3\<lparr>transforms := t\<rparr>) \<Longrightarrow>
        map_inv (snd (extract_derivatives ds gdim r (s3\<lparr>transforms := t\<rparr>) dv))" for s3 t dv
    by (rule Cons.IH)
  show ?case
  proof (cases "index_map s1 d")
    case (Some i)
    have "map_inv (s1\<lparr>index_map := (index_map s1)(d \<mapsto> i)\<rparr>)"
      using s1 Some by (rule map_inv_rebind)
    then show ?thesis
      using Some
      by (simp add: Let_def case_prod_beta s1_def [symmetric] map_inv_transforms_update
            map_inv_MonomialTransform_init Cons.IH)
  next
    case None
    show ?thesis
    proof (cases d)
      case (Index k)
      have "map_inv ((snd (new_index \<lparr>index_type = None, index_range = py_range gdim, index_id = None\<rparr> s1))
                        \<lparr>index_map := (index_map s1)(d \<mapsto> next_ref s1)\<rparr>)"
        using s1
        by (intro map_inv_bind) (auto simp: Index first_component_def dest: py_range_first)
      then show ?thesis
        using None Index
        by (simp add: Let_def case_prod_beta s1_def [symmetric] map_inv_transforms_update
              map_inv_MonomialTransform_init Cons.IH)
    next
      case (FixedIndex v)
      have "map_inv ((snd (new_index \<lparr>index_type = Some FIXED, index_range = [v], index_id = Some v\<rparr> s1))
                        \<lparr>index_map := (index_map s1)(d \<mapsto> next_ref s1)\<rparr>)"
        using s1
        by (intro map_inv_bind) (simp_all add: FixedIndex first_component_def)
      then show ?thesis
        using None FixedIndex
        by (simp add: Let_def case_prod_beta s1_def [symmetric] map_inv_transforms_update
              map_inv_MonomialTransform_init Cons.IH)
    qed
  qed
qed

lemma extract_components_single:
  "extract_components [c] vdim s [] = (comps, s') \<Longrightarrow>
   \<exists>r. comps = [r] \<and> index_map s' c = Some r"
  by (auto simp: Let_def case_prod_beta split: option.splits ufl_index.splits)

lemma handle_mappings_frame:
  "handle_mappings el restr comps s = Inr (comps', s') \<Longrightarrow>
   globals s' = globals s \<and> (map_inv s \<longrightarrow> map_inv s')"
  by (auto simp: handle_mappings_def Let_def case_prod_beta map_inv_transforms_update
        map_inv_MonomialTransform_init map_inv_new_index
      split: list.splits sum.splits option.splits if_splits)

lemma handle_mappings_empty:
  "handle_mappings el restr [] s = Inr (comps', s') \<Longrightarrow> determinant s' = determinant s"
  by (simp add: handle_mappings_def)

lemma handle_mappings_power:
  assumes "map_inv s" and "index_map s c = Some r"
    and "handle_mappings el restr [r] s = Inr (comps', s')"
  shows "det_power (determinant s') =
           det_power (determinant s) -
           (if map_option fst (component_element el (first_component c)) = Some CONTRAVARIANT_PIOLA
            then 1 else 0)"
proof -
  from assms(3) obtain c0 rest where rng: "index_range (heap s r) = c0 # rest"
    by (cases "index_range (heap s r)")
       (auto simp: handle_mappings_def split: sum.splits)
  with assms(1,2) have c0: "c0 = first_component c"
    by (auto simp: map_inv_def)
  show ?thesis
    using assms(3) rng
    by (auto simp: handle_mappings_def c0 Let_def case_prod_beta
        split: sum.splits option.splits if_splits)
qed

lemma transform_factor_unfold:
  assumes "transform_factor f s = Inr s'"
  obtains s1 comps s2 comps' s3 where
    "globals s1 = globals s" "determinant s1 = determinant s" "map_inv s \<longrightarrow> map_inv s1"
    "extract_components (f_components f) (value_dimension (f_element f)) s1 [] = (comps, s2)"
    "length comps \<le> 1"
    "handle_mappings (f_element f) (f_restriction f) comps s2 = Inr (comps', s3)"
    "globals s' = globals s3" "determinant s' = determinant s3" "map_inv s3 \<longrightarrow> map_inv s'"
proof -
  define s1 where "s1 = snd (case f_function f of
               BasisFunction count \<Rightarrow>
                 new_index \<lparr>index_type = Some PRIMARY, index_range = py_range (space_dimension (f_element f)),
                            index_id = Some count\<rparr> s
             | Function count \<Rightarrow>
                 (let (v, s0) =
                        new_index \<lparr>index_type = None, index_range = py_range (space_dimension (f_element f)),
                                   index_id = None\<rparr> s
                  in (v, s0\<lparr>coefficients :=
                              coefficients s0 @ [\<lparr>c_index = v, number = count\<rparr>]\<rparr>)))"
  define cs2 where "cs2 = extract_components (f_components f) (value_dimension (f_element f)) s1 []"
  have a: "globals s1 = globals s" "determinant s1 = determinant s" "map_inv s \<longrightarrow> map_inv s1"
    by (auto simp: s1_def Let_def case_prod_beta map_inv_transforms_update map_inv_new_index
        split: ufl_function.splits)
  have b: "extract_components (f_components f) (value_dimension (f_element f)) s1 [] = (fst cs2, snd cs2)"
    by (simp add: cs2_def)
  from assms have len: "length (fst cs2) \<le> 1"
    by (auto simp: transform_factor_def Let_def case_prod_beta s1_def [symmetric] cs2_def [symmetric]
        split: if_splits)
  from assms len obtain comps' s3 where
    h: "handle_mappings (f_element f) (f_restriction f) (fst cs2) (snd cs2) = Inr (comps', s3)"
    by (auto simp: transform_factor_def Let_def case_prod_beta s1_def [symmetric] cs2_def [symmetric]
        split: if_splits sum.splits)
  from assms len h have s': "s' = (snd (extract_derivatives (f_derivatives f) (geometric_dimension (f_element f))
               (f_restriction f) s3 []))\<lparr>basis_functions :=
                 basis_functions (snd (extract_derivatives (f_derivatives f) (geometric_dimension (f_element f))
               (f_restriction f) s3 [])) @
                 [\<lparr>v_element = f_element f, v_index = fst (case f_function f of
               BasisFunction count \<Rightarrow>
                 new_index \<lparr>index_type = Some PRIMARY, index_range = py_range (space_dimension (f_element f)),
                            index_id = Some count\<rparr> s
             | Function count \<Rightarrow>
                 (let (v, s0) =
                        new_index \<lparr>index_type = None, index_range = py_range (space_dimension (f_element f)),
                                   index_id = None\<rparr> s
                  in (v, s0\<lparr>coefficients :=
                              coefficients s0 @ [\<lparr>c_index = v, number = count\<rparr>]\<rparr>))), components = comps',
                   derivatives = fst (extract_derivatives (f_derivatives f) (geometric_dimension (f_element f))
               (f_restriction f) s3 []), v_restriction = f_restriction f\<rparr>]\<rparr>"
    by (simp add: transform_factor_def Let_def case_prod_beta s1_def [symmetric] cs2_def [symmetric])
  have c: "globals s' = globals s3" "determinant s' = determinant s3" "map_inv s3 \<longrightarrow> map_inv s'"
    by (simp_all add: s' extract_derivatives_frame map_inv_transforms_update
          map_inv_extract_derivatives)
  from a b len h c show thesis by (rule that)
qed

lemma transform_factor_step:
  assumes "map_inv s" and "transform_factor f s = Inr s'"
  shows "map_inv s' \<and> globals s' = globals s \<and>
         det_power (determinant s') =
           det_power (determinant s) -
           (case f_components f of
              [c] \<Rightarrow>
                if map_option fst (component_element (f_element f) (first_component c)) =
                     Some CONTRAVARIANT_PIOLA
                then 1 else 0
            | _ \<Rightarrow> 0)"
proof -
  from assms(2) obtain s1 comps s2 comps' s3 where
    a: "globals s1 = globals s" "determinant s1 = determinant s" "map_inv s \<longrightarrow> map_inv s1" and
    b: "extract_components (f_components f) (value_dimension (f_element f)) s1 [] = (comps, s2)" and
    len: "length comps \<le> 1" and
    h: "handle_mappings (f_element f) (f_restriction f) comps s2 = Inr (comps', s3)" and
    c: "globals s' = globals s3" "determinant s' = determinant s3" "map_inv s3 \<longrightarrow> map_inv s'"
    by (rule transform_factor_unfold)
  have s2: "globals s2 = globals s1" "determinant s2 = determinant s1" "map_inv s2"
    "length comps = length (f_components f)"
    using extract_components_frame [of "f_components f" "value_dimension (f_element f)" s1 "[]"]
      map_inv_extract_components [of s1 "f_components f" "value_dimension (f_element f)" "[]"]
      a(3) assms(1) b
    by simp_all
  from handle_mappings_frame [OF h] s2 have s3: "globals s3 = globals s2" "map_inv s3" by simp_all
  have "det_power (determinant s3) = det_power (determinant s2) -
           (case f_components f of
              [c] \<Rightarrow>
                if map_option fst (component_element (f_element f) (first_component c)) =
                     Some CONTRAVARIANT_PIOLA
                then 1 else 0
            | _ \<Rightarrow> 0)"
  proof (cases "f_components f")
    case Nil
    with b have "comps = []" by simp
    with h Nil show ?thesis by (simp add: handle_mappings_empty)
  next
    case (Cons c cs)
    with len s2(4) have cs: "cs = []" by simp
    from b Cons cs have "extract_components [c] (value_dimension (f_element f)) s1 [] = (comps, s2)"
      by simp
    from extract_components_single [OF this] obtain r where
      r: "comps = [r]" "index_map s2 c = Some r" by blast
    from handle_mappings_power [OF s2(3) r(2) h [unfolded r(1)]] Cons cs
    show ?thesis by simp
  qed
  with a c s2 s3 show ?thesis by simp
qed

lemma transform_factors_steps:
  "map_inv s \<Longrightarrow> transform_factors fs s = Inr s' \<Longrightarrow>
   map_inv s' \<and> globals s' = globals s \<and>
   det_power (determinant s') =
     det_power (determinant s) -
     int (length (filter (\<lambda>f. case f_components f of
              [c] \<Rightarrow> map_option fst (component_element (f_element f) (first_component c)) =
                     Some CONTRAVARIANT_PIOLA
            | _ \<Rightarrow> False) fs))"
proof (induction fs arbitrary: s)
  case Nil
  then show ?case by simp
next
  case (Cons f fs)
  from Cons.prems(2) obtain s1 where
    f: "transform_factor f s = Inr s1" and fs: "transform_factors fs s1 = Inr s'"
    by (auto split: sum.splits)
  from transform_factor_step [OF Cons.prems(1) f] Cons.IH [OF _ fs]
  show ?case by (auto split: list.splits)
qed

lemma reset_indices_eq:
  "reset_indices g =
     \<lparr>current_secondary_index = 0, current_internal_index = 0, current_external_index = 0\<rparr>"
  by (cases g) (simp add: reset_indices_def)

lemma map_inv_initial: "map_inv (initial_state g m)"
  by (simp add: map_inv_def initial_state_def)

lemma mappings_error: "mappings el r = Inl e \<Longrightarrow> e = ProviderError"
  by (induction r arbitrary: e) (auto split: option.splits sum.splits)

lemma handle_mappings_error:
  "handle_mappings el restr comps s = Inl e \<Longrightarrow>
   e = ProviderError \<or> e = IndexError \<or>
   e = MonomialException ''Unable to handle different mappings for index range.''"
  by (auto simp: handle_mappings_def same_mapping_def Let_def case_prod_beta
      dest: mappings_error
      split: list.splits sum.splits option.splits if_splits)

lemma transform_factors_append:
  "transform_factors (xs @ ys) s =
     (case transform_factors xs s of Inl e \<Rightarrow> Inl e | Inr s' \<Rightarrow> transform_factors ys s')"
  by (induction xs arbitrary: s) (auto split: sum.splits)

lemma transform_factor_rank:
  "1 < length (f_components f) \<Longrightarrow>
   transform_factor f s = Inl (MonomialException ''Can only handle rank 0 or rank 1 tensors.'')"
  using extract_components_frame [of "f_components f" "value_dimension (f_element f)" _ "[]"]
  by (simp add: transform_factor_def Let_def case_prod_beta)

lemma transform_factors_rank:
  "\<exists>f\<in>set fs. 1 < length (f_components f) \<Longrightarrow> \<exists>e. transform_factors fs s = Inl e"
  by (induction fs arbitrary: s) (auto simp: transform_factor_rank split: sum.splits)

section \<open>The monomial transformer\<close>

text \<open>
  C1. After all factors of a monomial are processed, every index without role in the
  internal footprint (value, component and derivative indices of the basis functions) or
  the external footprint (value indices of the coefficients, both end points of every
  transform) is classified by its numbers of occurrences in the two footprints: (1, 1)
  gives SECONDARY, (2, 0) gives INTERNAL, (0, 2) gives EXTERNAL. If one such index has any
  other pair of counts, the construction raises the error ``Summation index does not
  appear exactly twice''.
\<close>

theorem classification_by_counts:
  assumes "transform_factors (factors m) (initial_state g m) = Inr self"
  shows
    "if \<forall>i\<in>set (internal_footprint self @ external_footprint self).
          index_type (heap self i) = None \<longrightarrow>
          (count_list (internal_footprint self) i = 1 \<and>
           count_list (external_footprint self) i = 1) \<or>
          (count_list (internal_footprint self) i = 2 \<and>
           count_list (external_footprint self) i = 0) \<or>
          (count_list (internal_footprint self) i = 0 \<and>
           count_list (external_footprint self) i = 2)
     then \<exists>self'. TransformedMonomial g m = Inr self' \<and>
            (\<forall>i\<in>set (internal_footprint self @ external_footprint self).
               index_type (heap self i) = None \<longrightarrow>
               (count_list (internal_footprint self) i = 1 \<and>
                count_list (external_footprint self) i = 1 \<longrightarrow>
                  index_type (heap self' i) = Some SECONDARY) \<and>
               (count_list (internal_footprint self) i = 2 \<and>
                count_list (external_footprint self) i = 0 \<longrightarrow>
                  index_type (heap self' i) = Some INTERNAL) \<and>
               (count_list (internal_footprint self) i = 0 \<and>
                count_list (external_footprint self) i = 2 \<longrightarrow>
                  index_type (heap self' i) = Some EXTERNAL))
     else TransformedMonomial g m =
            Inl (Error ''Summation index does not appear exactly twice: ?'')"
proof -
  define I where "I = extract_internal_indices self None"
  define E where "E = extract_external_indices self None"
  have tm: "TransformedMonomial g m = classify I E (I @ E) self"
    using assms by (simp add: TransformedMonomial_def I_def E_def Let_def)
  have mem: "i \<in> set (I @ E) \<longleftrightarrow>
      i \<in> set (internal_footprint self @ external_footprint self) \<and>
      index_type (heap self i) = None" for i
    by (auto simp: I_def E_def extract_internal_indices_def extract_external_indices_def)
  have cnt: "count_list I i = count_list (internal_footprint self) i \<and>
             count_list E i = count_list (external_footprint self) i"
    if "index_type (heap self i) = None" for i
    using that
    by (simp add: I_def E_def extract_internal_indices_def extract_external_indices_def
          count_list_filter)
  show ?thesis
  proof (cases "\<forall>i\<in>set (internal_footprint self @ external_footprint self).
          index_type (heap self i) = None \<longrightarrow>
          (count_list (internal_footprint self) i = 1 \<and>
           count_list (external_footprint self) i = 1) \<or>
          (count_list (internal_footprint self) i = 2 \<and>
           count_list (external_footprint self) i = 0) \<or>
          (count_list (internal_footprint self) i = 0 \<and>
           count_list (external_footprint self) i = 2)")
    case True
    have "\<forall>i\<in>set (I @ E). index_type (heap self i) = None \<longrightarrow> role_of_counts I E i \<noteq> None"
    proof (intro ballI impI)
      fix i assume i: "i \<in> set (I @ E)" and u: "index_type (heap self i) = None"
      from i mem have "i \<in> set (internal_footprint self @ external_footprint self)" by blast
      from True [rule_format, OF this u] cnt [OF u] show "role_of_counts I E i \<noteq> None"
        by (auto simp: role_of_counts_def)
    qed
    from classify_succeeds [OF this] obtain self' where
      s': "classify I E (I @ E) self = Inr self'" by blast
    have "(count_list (internal_footprint self) i = 1 \<and>
                count_list (external_footprint self) i = 1 \<longrightarrow>
                  index_type (heap self' i) = Some SECONDARY) \<and>
               (count_list (internal_footprint self) i = 2 \<and>
                count_list (external_footprint self) i = 0 \<longrightarrow>
                  index_type (heap self' i) = Some INTERNAL) \<and>
               (count_list (internal_footprint self) i = 0 \<and>
                count_list (external_footprint self) i = 2 \<longrightarrow>
                  index_type (heap self' i) = Some EXTERNAL)"
      if i: "i \<in> set (internal_footprint self @ external_footprint self)"
        and u: "index_type (heap self i) = None" for i
    proof -
      from i u mem have "i \<in> set (I @ E)" by blast
      from classify_roles [OF s' this u] cnt [OF u] show ?thesis
        by (auto simp: role_of_counts_def)
    qed
    with True s' tm show ?thesis by auto
  next
    case False
    then obtain i where i: "i \<in> set (internal_footprint self @ external_footprint self)"
      and u: "index_type (heap self i) = None"
      and bad: "\<not> ((count_list (internal_footprint self) i = 1 \<and>
           count_list (external_footprint self) i = 1) \<or>
          (count_list (internal_footprint self) i = 2 \<and>
           count_list (external_footprint self) i = 0) \<or>
          (count_list (internal_footprint self) i = 0 \<and>
           count_list (external_footprint self) i = 2))" by blast
    from i u mem have m: "i \<in> set (I @ E)" by blast
    from bad cnt [OF u] have "role_of_counts I E i = None"
      by (auto simp: role_of_counts_def)
    from classify_fails [OF m u this] tm False show ?thesis by simp
  qed
qed

theorem classification_by_counts_witness:
  "TransformedMonomial
     \<lparr>current_secondary_index = 5, current_internal_index = 6, current_external_index = 7\<rparr>
     \<lparr>m_float_value = 1, factors = [\<lparr>f_element = \<lparr>value_dimension = 2, space_dimension = 6, geometric_dimension = 2, num_sub_elements = 2, component_element = (\<lambda>c. if 0 \<le> c \<and> c < 2 then Some (AFFINE, c) else None)\<rparr>, f_function = BasisFunction 0, f_components = [Index 0], f_derivatives = [], f_restriction = None\<rparr>,
       \<lparr>f_element = \<lparr>value_dimension = 2, space_dimension = 6, geometric_dimension = 2, num_sub_elements = 2, component_element = (\<lambda>c. if 0 \<le> c \<and> c < 2 then Some (AFFINE, c) else None)\<rparr>, f_function = BasisFunction 1, f_components = [Index 0], f_derivatives = [], f_restriction = None\<rparr>,
       \<lparr>f_element = \<lparr>value_dimension = 2, space_dimension = 6, geometric_dimension = 2, num_sub_elements = 2, component_element = (\<lambda>c. if 0 \<le> c \<and> c < 2 then Some (AFFINE, c) else None)\<rparr>, f_function = Function 0, f_components = [Index 0], f_derivatives = [], f_restriction = None\<rparr>]\<rparr> =
   Inl (Error ''Summation index does not appear exactly twice: ?'') \<and>
   (\<exists>self'. TransformedMonomial
      \<lparr>current_secondary_index = 5, current_internal_index = 6, current_external_index = 7\<rparr>
      \<lparr>m_float_value = 1, factors = [\<lparr>f_element = \<lparr>value_dimension = 2, space_dimension = 3, geometric_dimension = 2, num_sub_elements = 0, component_element = (\<lambda>c. Some (CONTRAVARIANT_PIOLA, 0))\<rparr>, f_function = BasisFunction 0, f_components = [Index 0], f_derivatives = [], f_restriction = None\<rparr>,
       \<lparr>f_element = \<lparr>value_dimension = 2, space_dimension = 3, geometric_dimension = 2, num_sub_elements = 0, component_element = (\<lambda>c. Some (CONTRAVARIANT_PIOLA, 0))\<rparr>, f_function = BasisFunction 1, f_components = [Index 0], f_derivatives = [], f_restriction = None\<rparr>]\<rparr> = Inr self' \<and>
      index_type (heap self' 1) = Some EXTERNAL \<and>
      index_type (heap self' 2) = Some SECONDARY \<and>
      index_type (heap self' 4) = Some SECONDARY)"
proof -
  let ?g = "\<lparr>current_secondary_index = 5, current_internal_index = 6, current_external_index = 7\<rparr>"
  let ?m3 = "\<lparr>m_float_value = 1, factors = [\<lparr>f_element = \<lparr>value_dimension = 2, space_dimension = 6, geometric_dimension = 2, num_sub_elements = 2, component_element = (\<lambda>c. if 0 \<le> c \<and> c < 2 then Some (AFFINE, c) else None)\<rparr>, f_function = BasisFunction 0, f_components = [Index 0], f_derivatives = [], f_restriction = None\<rparr>,
       \<lparr>f_element = \<lparr>value_dimension = 2, space_dimension = 6, geometric_dimension = 2, num_sub_elements = 2, component_element = (\<lambda>c. if 0 \<le> c \<and> c < 2 then Some (AFFINE, c) else None)\<rparr>, f_function = BasisFunction 1, f_components = [Index 0], f_derivatives = [], f_restriction = None\<rparr>,
       \<lparr>f_element = \<lparr>value_dimension = 2, space_dimension = 6, geometric_dimension = 2, num_sub_elements = 2, component_element = (\<lambda>c. if 0 \<le> c \<and> c < 2 then Some (AFFINE, c) else None)\<rparr>, f_function = Function 0, f_components = [Index 0], f_derivatives = [], f_restriction = None\<rparr>]\<rparr>"
  let ?m2 = "\<lparr>m_float_value = 1, factors = [\<lparr>f_element = \<lparr>value_dimension = 2, space_dimension = 3, geometric_dimension = 2, num_sub_elements = 0, component_element = (\<lambda>c. Some (CONTRAVARIANT_PIOLA, 0))\<rparr>, f_function = BasisFunction 0, f_components = [Index 0], f_derivatives = [], f_restriction = None\<rparr>,
       \<lparr>f_element = \<lparr>value_dimension = 2, space_dimension = 3, geometric_dimension = 2, num_sub_elements = 0, component_element = (\<lambda>c. Some (CONTRAVARIANT_PIOLA, 0))\<rparr>, f_function = BasisFunction 1, f_components = [Index 0], f_derivatives = [], f_restriction = None\<rparr>]\<rparr>"
  have "case transform_factors (factors ?m3) (initial_state ?g ?m3) of
          Inl e \<Rightarrow> False
        | Inr self \<Rightarrow>
            internal_footprint self = [0, 1, 2, 1, 3, 1] \<and> external_footprint self = [3] \<and>
            index_type (heap self 1) = None"
    by code_simp
  from InrE [OF this] obtain s3 where
    s3: "transform_factors (factors ?m3) (initial_state ?g ?m3) = Inr s3"
      "internal_footprint s3 = [0, 1, 2, 1, 3, 1]" "external_footprint s3 = [3]"
      "index_type (heap s3 1) = None"
    by blast
  have a: "TransformedMonomial ?g ?m3 =
      Inl (Error ''Summation index does not appear exactly twice: ?'')"
    using classification_by_counts [OF s3(1)] s3(2-) by simp
  have "case transform_factors (factors ?m2) (initial_state ?g ?m2) of
          Inl e \<Rightarrow> False
        | Inr self \<Rightarrow>
            internal_footprint self = [0, 2, 3, 4] \<and> external_footprint self = [1, 1, 2, 4] \<and>
            index_type (heap self 0) = Some PRIMARY \<and> index_type (heap self 1) = None \<and>
            index_type (heap self 2) = None \<and> index_type (heap self 3) = Some PRIMARY \<and>
            index_type (heap self 4) = None"
    by code_simp
  from InrE [OF this] obtain s2 where
    s2: "transform_factors (factors ?m2) (initial_state ?g ?m2) = Inr s2"
      "internal_footprint s2 = [0, 2, 3, 4]" "external_footprint s2 = [1, 1, 2, 4]"
      "index_type (heap s2 0) = Some PRIMARY" "index_type (heap s2 1) = None"
      "index_type (heap s2 2) = None" "index_type (heap s2 3) = Some PRIMARY"
      "index_type (heap s2 4) = None"
    by blast
  have b: "\<exists>self'. TransformedMonomial ?g ?m2 = Inr self' \<and>
      index_type (heap self' 1) = Some EXTERNAL \<and>
      index_type (heap self' 2) = Some SECONDARY \<and>
      index_type (heap self' 4) = Some SECONDARY"
    using classification_by_counts [OF s2(1)] s2(2-) by auto
  from a b show ?thesis by blast
qed

text \<open>
  C2. The determinant starts with power 0, and a monomial that is transformed without
  error ends with power minus the number of its factors whose single component maps by the
  contravariant Piola map: each of them lowers the power by one, and every other factor
  (covariant Piola, affine, without component) leaves it unchanged. The mapping of a factor
  is the one the element gives for the first element of its component's range, which is
  the value of a fixed index and 0 otherwise.
\<close>

theorem determinant_power:
  assumes "TransformedMonomial g m = Inr self"
  shows "det_power (determinant (initial_state g m)) = 0 \<and>
         det_power (determinant self) =
           - int (length (filter
               (\<lambda>f. case f_components f of
                      [c] \<Rightarrow>
                        map_option fst
                          (component_element (f_element f)
                             (case c of FixedIndex v \<Rightarrow> v | Index _ \<Rightarrow> 0)) =
                        Some CONTRAVARIANT_PIOLA
                    | _ \<Rightarrow> False)
               (factors m)))"
proof -
  from assms obtain s where
    s: "transform_factors (factors m) (initial_state g m) = Inr s" and
    c: "classify (extract_internal_indices s None) (extract_external_indices s None)
          (extract_internal_indices s None @ extract_external_indices s None) s = Inr self"
    by (auto simp: TransformedMonomial_def Let_def split: sum.splits)
  have 0: "det_power (determinant (initial_state g m)) = 0"
    by (simp add: initial_state_def)
  from transform_factors_steps [OF map_inv_initial s] classify_determinant [OF c] 0
  show ?thesis unfolding first_component_def by simp
qed

theorem determinant_power_witness:
  "\<exists>self. TransformedMonomial
      \<lparr>current_secondary_index = 5, current_internal_index = 6, current_external_index = 7\<rparr>
      \<lparr>m_float_value = 1, factors = [\<lparr>f_element = \<lparr>value_dimension = 2, space_dimension = 3, geometric_dimension = 2, num_sub_elements = 0, component_element = (\<lambda>c. Some (CONTRAVARIANT_PIOLA, 0))\<rparr>, f_function = BasisFunction 0, f_components = [Index 0], f_derivatives = [], f_restriction = None\<rparr>,
       \<lparr>f_element = \<lparr>value_dimension = 2, space_dimension = 3, geometric_dimension = 2, num_sub_elements = 0, component_element = (\<lambda>c. Some (COVARIANT_PIOLA, 0))\<rparr>, f_function = Function 0, f_components = [Index 1], f_derivatives = [], f_restriction = None\<rparr>,
       \<lparr>f_element = \<lparr>value_dimension = 2, space_dimension = 3, geometric_dimension = 2, num_sub_elements = 0, component_element = (\<lambda>c. Some (CONTRAVARIANT_PIOLA, 0))\<rparr>, f_function = BasisFunction 1, f_components = [Index 0], f_derivatives = [], f_restriction = None\<rparr>,
       \<lparr>f_element = \<lparr>value_dimension = 2, space_dimension = 3, geometric_dimension = 2, num_sub_elements = 0, component_element = (\<lambda>c. Some (COVARIANT_PIOLA, 0))\<rparr>, f_function = Function 1, f_components = [Index 1], f_derivatives = [], f_restriction = None\<rparr>]\<rparr> = Inr self \<and>
      det_power (determinant self) = - 2"
proof -
  let ?g = "\<lparr>current_secondary_index = 5, current_internal_index = 6, current_external_index = 7\<rparr>"
  let ?m = "\<lparr>m_float_value = 1, factors = [\<lparr>f_element = \<lparr>value_dimension = 2, space_dimension = 3, geometric_dimension = 2, num_sub_elements = 0, component_element = (\<lambda>c. Some (CONTRAVARIANT_PIOLA, 0))\<rparr>, f_function = BasisFunction 0, f_components = [Index 0], f_derivatives = [], f_restriction = None\<rparr>,
       \<lparr>f_element = \<lparr>value_dimension = 2, space_dimension = 3, geometric_dimension = 2, num_sub_elements = 0, component_element = (\<lambda>c. Some (COVARIANT_PIOLA, 0))\<rparr>, f_function = Function 0, f_components = [Index 1], f_derivatives = [], f_restriction = None\<rparr>,
       \<lparr>f_element = \<lparr>value_dimension = 2, space_dimension = 3, geometric_dimension = 2, num_sub_elements = 0, component_element = (\<lambda>c. Some (CONTRAVARIANT_PIOLA, 0))\<rparr>, f_function = BasisFunction 1, f_components = [Index 0], f_derivatives = [], f_restriction = None\<rparr>,
       \<lparr>f_element = \<lparr>value_dimension = 2, space_dimension = 3, geometric_dimension = 2, num_sub_elements = 0, component_element = (\<lambda>c. Some (COVARIANT_PIOLA, 0))\<rparr>, f_function = Function 1, f_components = [Index 1], f_derivatives = [], f_restriction = None\<rparr>]\<rparr>"
  have "case TransformedMonomial ?g ?m of Inl e \<Rightarrow> False | Inr self \<Rightarrow> True"
    by code_simp
  from InrE [OF this] obtain self where s: "TransformedMonomial ?g ?m = Inr self" by blast
  from determinant_power [OF s] have "det_power (determinant self) = - 2" by simp
  with s show ?thesis by blast
qed

text \<open>
  C3. Whatever the counters were before, a construction starts from counters 0, with no
  index allocated yet, and the factors leave the counters alone. So among the indices in
  the order the classification visits them, the first one that receives a given role
  receives id 0, and the result of a construction does not depend on the counters an
  earlier construction left behind.
\<close>

theorem counters_reset:
  assumes "transform_factors (factors m) (initial_state g m) = Inr self"
    and "TransformedMonomial g m = Inr self'"
    and "extract_internal_indices self None @ extract_external_indices self None =
           pre @ i # post"
    and "index_type (heap self' i) = Some r"
    and "\<forall>j\<in>set pre. index_type (heap self' j) \<noteq> Some r"
  shows "globals (initial_state g m) =
           \<lparr>current_secondary_index = 0, current_internal_index = 0,
            current_external_index = 0\<rparr> \<and>
         next_ref (initial_state g m) = 0 \<and>
         globals self = globals (initial_state g m) \<and>
         index_id (heap self' i) = Some 0 \<and>
         TransformedMonomial g' m = TransformedMonomial g m"
proof -
  have g0: "globals (initial_state g m) =
           \<lparr>current_secondary_index = 0, current_internal_index = 0,
            current_external_index = 0\<rparr>"
    by (simp add: initial_state_def reset_indices_eq)
  have n0: "next_ref (initial_state g m) = 0" by (simp add: initial_state_def)
  from transform_factors_steps [OF map_inv_initial assms(1)]
  have gs: "globals self = globals (initial_state g m)" by simp
  have eq: "initial_state g' m = initial_state g m"
    by (simp add: initial_state_def reset_indices_eq)
  have tm: "TransformedMonomial g' m = TransformedMonomial g m"
    by (simp add: TransformedMonomial_def eq)
  from assms(1,2) have c: "classify (extract_internal_indices self None)
      (extract_external_indices self None) (pre @ i # post) self = Inr self'"
    by (simp add: TransformedMonomial_def Let_def assms(3))
  have "i \<in> set (extract_internal_indices self None @ extract_external_indices self None)"
    by (simp add: assms(3))
  then have u: "index_type (heap self i) = None"
    by (auto simp: extract_internal_indices_def extract_external_indices_def)
  from classify_first_id [OF c u assms(4,5)]
  have id: "index_id (heap self' i) = Some (counter_of r (globals self))" .
  have "counter_of r (globals self) = 0"
    by (cases r) (simp_all add: gs g0)
  with g0 n0 gs id tm show ?thesis by simp
qed

theorem counters_reset_witness:
  "\<exists>self'. TransformedMonomial
      \<lparr>current_secondary_index = 5, current_internal_index = 6, current_external_index = 7\<rparr>
      \<lparr>m_float_value = 1, factors = [\<lparr>f_element = \<lparr>value_dimension = 2, space_dimension = 3, geometric_dimension = 2, num_sub_elements = 0, component_element = (\<lambda>c. Some (CONTRAVARIANT_PIOLA, 0))\<rparr>, f_function = BasisFunction 0, f_components = [Index 0], f_derivatives = [], f_restriction = None\<rparr>,
       \<lparr>f_element = \<lparr>value_dimension = 2, space_dimension = 3, geometric_dimension = 2, num_sub_elements = 0, component_element = (\<lambda>c. Some (CONTRAVARIANT_PIOLA, 0))\<rparr>, f_function = BasisFunction 1, f_components = [Index 0], f_derivatives = [], f_restriction = None\<rparr>]\<rparr> = Inr self' \<and>
      index_id (heap self' 1) = Some 0 \<and>
      index_id (heap self' 2) = Some 0 \<and>
      TransformedMonomial
        \<lparr>current_secondary_index = 1, current_internal_index = 2, current_external_index = 3\<rparr>
        \<lparr>m_float_value = 1, factors = [\<lparr>f_element = \<lparr>value_dimension = 2, space_dimension = 3, geometric_dimension = 2, num_sub_elements = 0, component_element = (\<lambda>c. Some (CONTRAVARIANT_PIOLA, 0))\<rparr>, f_function = BasisFunction 0, f_components = [Index 0], f_derivatives = [], f_restriction = None\<rparr>,
       \<lparr>f_element = \<lparr>value_dimension = 2, space_dimension = 3, geometric_dimension = 2, num_sub_elements = 0, component_element = (\<lambda>c. Some (CONTRAVARIANT_PIOLA, 0))\<rparr>, f_function = BasisFunction 1, f_components = [Index 0], f_derivatives = [], f_restriction = None\<rparr>]\<rparr> =
      TransformedMonomial
        \<lparr>current_secondary_index = 5, current_internal_index = 6, current_external_index = 7\<rparr>
        \<lparr>m_float_value = 1, factors = [\<lparr>f_element = \<lparr>value_dimension = 2, space_dimension = 3, geometric_dimension = 2, num_sub_elements = 0, component_element = (\<lambda>c. Some (CONTRAVARIANT_PIOLA, 0))\<rparr>, f_function = BasisFunction 0, f_components = [Index 0], f_derivatives = [], f_restriction = None\<rparr>,
       \<lparr>f_element = \<lparr>value_dimension = 2, space_dimension = 3, geometric_dimension = 2, num_sub_elements = 0, component_element = (\<lambda>c. Some (CONTRAVARIANT_PIOLA, 0))\<rparr>, f_function = BasisFunction 1, f_components = [Index 0], f_derivatives = [], f_restriction = None\<rparr>]\<rparr>"
proof -
  let ?g = "\<lparr>current_secondary_index = 5, current_internal_index = 6, current_external_index = 7\<rparr>"
  let ?m = "\<lparr>m_float_value = 1, factors = [\<lparr>f_element = \<lparr>value_dimension = 2, space_dimension = 3, geometric_dimension = 2, num_sub_elements = 0, component_element = (\<lambda>c. Some (CONTRAVARIANT_PIOLA, 0))\<rparr>, f_function = BasisFunction 0, f_components = [Index 0], f_derivatives = [], f_restriction = None\<rparr>,
       \<lparr>f_element = \<lparr>value_dimension = 2, space_dimension = 3, geometric_dimension = 2, num_sub_elements = 0, component_element = (\<lambda>c. Some (CONTRAVARIANT_PIOLA, 0))\<rparr>, f_function = BasisFunction 1, f_components = [Index 0], f_derivatives = [], f_restriction = None\<rparr>]\<rparr>"
  have "case transform_factors (factors ?m) (initial_state ?g ?m) of
          Inl e \<Rightarrow> False
        | Inr self \<Rightarrow>
            extract_internal_indices self None @ extract_external_indices self None =
              [2, 4, 1, 1, 2, 4]"
    by code_simp
  from InrE [OF this] obtain s where
    s: "transform_factors (factors ?m) (initial_state ?g ?m) = Inr s"
      "extract_internal_indices s None @ extract_external_indices s None =
         [] @ 2 # [4, 1, 1, 2, 4]"
      "extract_internal_indices s None @ extract_external_indices s None =
         [2, 4] @ 1 # [1, 2, 4]"
    by auto
  have "case TransformedMonomial ?g ?m of
          Inl e \<Rightarrow> False
        | Inr self' \<Rightarrow>
            index_type (heap self' 1) = Some EXTERNAL \<and>
            index_type (heap self' 2) = Some SECONDARY \<and>
            index_type (heap self' 4) = Some SECONDARY"
    by code_simp
  from InrE [OF this] obtain s' where
    s': "TransformedMonomial ?g ?m = Inr s'"
      "index_type (heap s' 1) = Some EXTERNAL"
      "index_type (heap s' 2) = Some SECONDARY"
      "index_type (heap s' 4) = Some SECONDARY"
    by blast
  have e: "\<forall>j\<in>set [2, 4]. index_type (heap s' j) \<noteq> Some EXTERNAL"
    using s'(3,4) by simp
  have n: "\<forall>j\<in>set []. index_type (heap s' j) \<noteq> Some SECONDARY" by simp
  from counters_reset [OF s(1) s'(1) s(3) s'(2) e, of "\<lparr>current_secondary_index = 1, current_internal_index = 2, current_external_index = 3\<rparr>"]
    counters_reset [OF s(1) s'(1) s(2) s'(3) n, of "\<lparr>current_secondary_index = 1, current_internal_index = 2, current_external_index = 3\<rparr>"] s'(1)
  show ?thesis by simp
qed

text \<open>
  C5. A factor with more than one component index raises MonomialException ``Can only
  handle rank 0 or rank 1 tensors.'', and a factor with at most one does not raise it. In a
  monomial, the first such factor that is reached aborts the construction with that
  exception, and a monomial holding such a factor is never transformed.
\<close>

theorem rank_error:
  "(1 < length (f_components f) \<longrightarrow>
      transform_factor f self =
        Inl (MonomialException ''Can only handle rank 0 or rank 1 tensors.'')) \<and>
   (length (f_components f) \<le> 1 \<longrightarrow>
      transform_factor f self \<noteq>
        Inl (MonomialException ''Can only handle rank 0 or rank 1 tensors.'')) \<and>
   (1 < length (f_components f) \<and> factors m = pre @ f # post \<and>
    transform_factors pre (initial_state g m) = Inr self \<longrightarrow>
      TransformedMonomial g m =
        Inl (MonomialException ''Can only handle rank 0 or rank 1 tensors.'')) \<and>
   ((\<exists>f'\<in>set (factors m). 1 < length (f_components f')) \<longrightarrow>
      (\<exists>e. TransformedMonomial g m = Inl e))"
proof -
  have 2: "transform_factor f self \<noteq>
        Inl (MonomialException ''Can only handle rank 0 or rank 1 tensors.'')"
    if "length (f_components f) \<le> 1"
  proof
    assume e: "transform_factor f self =
        Inl (MonomialException ''Can only handle rank 0 or rank 1 tensors.'')"
    have len: "length (fst (extract_components (f_components f) (value_dimension (f_element f)) s1 [])) =
        length (f_components f)" for s1
      using extract_components_frame [of "f_components f" "value_dimension (f_element f)" s1 "[]"]
      by simp
    from e that show False
      by (auto simp: transform_factor_def Let_def case_prod_beta len
          dest!: handle_mappings_error split: sum.splits if_splits)
  qed
  have 4: "\<exists>e. TransformedMonomial g m = Inl e"
    if "\<exists>f'\<in>set (factors m). 1 < length (f_components f')"
    using transform_factors_rank [OF that, of "initial_state g m"]
    by (auto simp: TransformedMonomial_def)
  show ?thesis
    using 2 4
    by (auto simp: transform_factor_rank TransformedMonomial_def transform_factors_append)
qed

theorem rank_error_witness:
  "TransformedMonomial
     \<lparr>current_secondary_index = 5, current_internal_index = 6, current_external_index = 7\<rparr>
     \<lparr>m_float_value = 1, factors = [\<lparr>f_element = \<lparr>value_dimension = 2, space_dimension = 6, geometric_dimension = 2, num_sub_elements = 2, component_element = (\<lambda>c. if 0 \<le> c \<and> c < 2 then Some (AFFINE, c) else None)\<rparr>, f_function = BasisFunction 0, f_components = [Index 0], f_derivatives = [], f_restriction = None\<rparr>,
       \<lparr>f_element = \<lparr>value_dimension = 2, space_dimension = 6, geometric_dimension = 2, num_sub_elements = 2, component_element = (\<lambda>c. if 0 \<le> c \<and> c < 2 then Some (AFFINE, c) else None)\<rparr>, f_function = BasisFunction 1, f_components = [Index 0, Index 1], f_derivatives = [], f_restriction = None\<rparr>]\<rparr> =
   Inl (MonomialException ''Can only handle rank 0 or rank 1 tensors.'') \<and>
   transform_factor
     \<lparr>f_element = \<lparr>value_dimension = 2, space_dimension = 6, geometric_dimension = 2, num_sub_elements = 2, component_element = (\<lambda>c. if 0 \<le> c \<and> c < 2 then Some (AFFINE, c) else None)\<rparr>, f_function = BasisFunction 0, f_components = [Index 0], f_derivatives = [], f_restriction = None\<rparr>
     (initial_state \<lparr>current_secondary_index = 5, current_internal_index = 6, current_external_index = 7\<rparr>
        \<lparr>m_float_value = 1, factors = [\<lparr>f_element = \<lparr>value_dimension = 2, space_dimension = 6, geometric_dimension = 2, num_sub_elements = 2, component_element = (\<lambda>c. if 0 \<le> c \<and> c < 2 then Some (AFFINE, c) else None)\<rparr>, f_function = BasisFunction 0, f_components = [Index 0], f_derivatives = [], f_restriction = None\<rparr>,
       \<lparr>f_element = \<lparr>value_dimension = 2, space_dimension = 6, geometric_dimension = 2, num_sub_elements = 2, component_element = (\<lambda>c. if 0 \<le> c \<and> c < 2 then Some (AFFINE, c) else None)\<rparr>, f_function = BasisFunction 1, f_components = [Index 0, Index 1], f_derivatives = [], f_restriction = None\<rparr>]\<rparr>) \<noteq>
   Inl (MonomialException ''Can only handle rank 0 or rank 1 tensors.'')"
proof -
  let ?g = "\<lparr>current_secondary_index = 5, current_internal_index = 6, current_external_index = 7\<rparr>"
  let ?m = "\<lparr>m_float_value = 1, factors = [\<lparr>f_element = \<lparr>value_dimension = 2, space_dimension = 6, geometric_dimension = 2, num_sub_elements = 2, component_element = (\<lambda>c. if 0 \<le> c \<and> c < 2 then Some (AFFINE, c) else None)\<rparr>, f_function = BasisFunction 0, f_components = [Index 0], f_derivatives = [], f_restriction = None\<rparr>,
       \<lparr>f_element = \<lparr>value_dimension = 2, space_dimension = 6, geometric_dimension = 2, num_sub_elements = 2, component_element = (\<lambda>c. if 0 \<le> c \<and> c < 2 then Some (AFFINE, c) else None)\<rparr>, f_function = BasisFunction 1, f_components = [Index 0, Index 1], f_derivatives = [], f_restriction = None\<rparr>]\<rparr>"
  let ?f1 = "\<lparr>f_element = \<lparr>value_dimension = 2, space_dimension = 6, geometric_dimension = 2, num_sub_elements = 2, component_element = (\<lambda>c. if 0 \<le> c \<and> c < 2 then Some (AFFINE, c) else None)\<rparr>, f_function = BasisFunction 0, f_components = [Index 0], f_derivatives = [], f_restriction = None\<rparr>"
  let ?f2 = "\<lparr>f_element = \<lparr>value_dimension = 2, space_dimension = 6, geometric_dimension = 2, num_sub_elements = 2, component_element = (\<lambda>c. if 0 \<le> c \<and> c < 2 then Some (AFFINE, c) else None)\<rparr>, f_function = BasisFunction 1, f_components = [Index 0, Index 1], f_derivatives = [], f_restriction = None\<rparr>"
  have "case transform_factors [?f1] (initial_state ?g ?m) of
          Inl e \<Rightarrow> False | Inr self \<Rightarrow> True"
    by code_simp
  from InrE [OF this] obtain s where
    s: "transform_factors [?f1] (initial_state ?g ?m) = Inr s" by blast
  have l2: "1 < length (f_components ?f2)" by simp
  have l1: "length (f_components ?f1) \<le> 1" by simp
  have fs: "factors ?m = [?f1] @ ?f2 # []" by simp
  from rank_error [of ?f2 s ?m "[?f1]" "[]" ?g] l2 fs s
  have a: "TransformedMonomial ?g ?m = Inl (MonomialException ''Can only handle rank 0 or rank 1 tensors.'')"
    by blast
  from rank_error [of ?f1 "initial_state ?g ?m" ?m "[]" "[?f2]" ?g] l1
  have b: "transform_factor ?f1 (initial_state ?g ?m) \<noteq> Inl (MonomialException ''Can only handle rank 0 or rank 1 tensors.'')"
    by blast
  from a b show ?thesis by blast
qed

subsection \<open>Fixed indices\<close>
















section \<open>The quadrature code generator\<close>

lemma decimal_value_snoc:
  "decimal_value (s @ [c]) = 10 * decimal_value s + (of_char c - 48)"
  by (simp add: decimal_value_def)

lemma decimal_value_str_nat: "decimal_value (str_nat n) = n"
proof (induction n rule: str_nat.induct)
  case (1 n)
  show ?case
  proof (cases "n < 10")
    case True
    then show ?thesis
      by (subst str_nat.simps) (simp add: decimal_value_def)
  next
    case False
    have "n mod 10 < 10" by simp
    then have d: "of_char (char_of (48 + n mod 10) :: char) = 48 + n mod 10"
      by (simp add: of_char_of)
    from False 1 have "decimal_value (str_nat (n div 10)) = n div 10" by simp
    with False d show ?thesis
      by (subst str_nat.simps) (simp add: decimal_value_snoc)
  qed
qed

text \<open>
  C6. When the product of the tensor shape is 1, the reset is the comment followed by the
  assignment of 0.0 to entry 0 of the element tensor; when the product \<open>N\<close> is greater than
  1, it is the comment followed by exactly one \<open>memset\<close> statement over \<open>N\<close> entries, \<open>N\<close>
  written in decimal.
\<close>

theorem tensor_reset:
  "(prod_list (tensor_shape (gen_ir self)) = 1 \<longrightarrow>
      generate_tensor_reset self =
        [Comment ''Reset element tensor'',
         Assign (ArrayAccess (Symbol (element_tensor (gen_backend self))) [LiteralInt 0])
           (LiteralFloat 0)]) \<and>
   (1 < prod_list (tensor_shape (gen_ir self)) \<longrightarrow>
      generate_tensor_reset self =
        [Comment ''Reset element tensor'',
         VerbatimStatement
           (''memset('' @ element_tensor (gen_backend self) @ '', 0, '' @
            str_nat (prod_list (tensor_shape (gen_ir self))) @
            '' * sizeof(*'' @ element_tensor (gen_backend self) @ ''));'')] \<and>
      decimal_value (str_nat (prod_list (tensor_shape (gen_ir self)))) =
        prod_list (tensor_shape (gen_ir self)))"
  by (simp add: generate_tensor_reset_def memzero_def Let_def decimal_value_str_nat)

theorem tensor_reset_witness:
  "generate_tensor_reset \<lparr>gen_ir = \<lparr>integral_type = ''cell'', quadrature_rules = [], expr_irs = [], tensor_shape = [1, 1], alignas = 32\<rparr>, gen_backend = \<lparr>element_tensor = ''A'', weights_array = (\<lambda>n. Symbol ''W''), points_array = (\<lambda>n. Symbol ''P''), quadrature_loop_index = (\<lambda>n. Symbol ''iq''), num_quadrature_points = (\<lambda>n. LiteralInt (int n)), argument_loop_index = (\<lambda>i. Symbol ''ia''), access = (\<lambda>t mt tr n. Symbol t), definitions = (\<lambda>t mt tr n a. []), ufl_to_language = (\<lambda>v ops. Product ops)\<rparr>\<rparr> =
     [Comment ''Reset element tensor'',
      Assign (ArrayAccess (Symbol ''A'') [LiteralInt 0]) (LiteralFloat 0)] \<and>
   generate_tensor_reset \<lparr>gen_ir = \<lparr>integral_type = ''cell'', quadrature_rules = [], expr_irs = [], tensor_shape = [3, 3], alignas = 32\<rparr>, gen_backend = \<lparr>element_tensor = ''A'', weights_array = (\<lambda>n. Symbol ''W''), points_array = (\<lambda>n. Symbol ''P''), quadrature_loop_index = (\<lambda>n. Symbol ''iq''), num_quadrature_points = (\<lambda>n. LiteralInt (int n)), argument_loop_index = (\<lambda>i. Symbol ''ia''), access = (\<lambda>t mt tr n. Symbol t), definitions = (\<lambda>t mt tr n a. []), ufl_to_language = (\<lambda>v ops. Product ops)\<rparr>\<rparr> =
     [Comment ''Reset element tensor'',
      VerbatimStatement ''memset(A, 0, 9 * sizeof(*A));''] \<and>
   decimal_value ''9'' = 9"
proof -
  have s: "str_nat 9 = ''9''" by code_simp
  show ?thesis
    using tensor_reset [of "\<lparr>gen_ir = \<lparr>integral_type = ''cell'', quadrature_rules = [], expr_irs = [], tensor_shape = [1, 1], alignas = 32\<rparr>, gen_backend = \<lparr>element_tensor = ''A'', weights_array = (\<lambda>n. Symbol ''W''), points_array = (\<lambda>n. Symbol ''P''), quadrature_loop_index = (\<lambda>n. Symbol ''iq''), num_quadrature_points = (\<lambda>n. LiteralInt (int n)), argument_loop_index = (\<lambda>i. Symbol ''ia''), access = (\<lambda>t mt tr n. Symbol t), definitions = (\<lambda>t mt tr n a. []), ufl_to_language = (\<lambda>v ops. Product ops)\<rparr>\<rparr>"]
      tensor_reset [of "\<lparr>gen_ir = \<lparr>integral_type = ''cell'', quadrature_rules = [], expr_irs = [], tensor_shape = [3, 3], alignas = 32\<rparr>, gen_backend = \<lparr>element_tensor = ''A'', weights_array = (\<lambda>n. Symbol ''W''), points_array = (\<lambda>n. Symbol ''P''), quadrature_loop_index = (\<lambda>n. Symbol ''iq''), num_quadrature_points = (\<lambda>n. LiteralInt (int n)), argument_loop_index = (\<lambda>i. Symbol ''ia''), access = (\<lambda>t mt tr n. Symbol t), definitions = (\<lambda>t mt tr n a. []), ufl_to_language = (\<lambda>v ops. Product ops)\<rparr>\<rparr>"]
    by (simp add: s)
qed

text \<open>
  C7. With \<open>unstructured\<close> the statements of the varying unstructured partition and
  \<open>blocks\<close> those of the varying dof blocks: when both are empty nothing is emitted; when
  the number of points is 1 the body (a setup comment, the unstructured statements, the
  blocks) is emitted in one \<open>Scope\<close> after a comment, without loop; otherwise it is the body
  of one \<open>ForRange\<close> from 0 to the backend's number of quadrature points.
\<close>

theorem quadrature_loop_wrapping:
  assumes "generate_unstructured_partition self num_points Varying g = Inr (unstructured, g')"
    and "generate_dofblock_partition self num_points Varying g' = Inr blocks"
  shows "generate_quadrature_loops self num_points g =
           Inr (if unstructured = [] \<and> blocks = [] then []
                else if num_points = 1 then
                  [Comment ''Only 1 quadrature point, no loop'',
                   Scope
                     (commented_code_list unstructured
                        [''Quadrature loop body setup (num_points='' @ str_nat num_points @
                         '')''] @ blocks)]
                else
                  [ForRange (quadrature_loop_index (gen_backend self) num_points)
                     (LiteralInt 0) (num_quadrature_points (gen_backend self) num_points)
                     (commented_code_list unstructured
                        [''Quadrature loop body setup (num_points='' @ str_nat num_points @
                         '')''] @ blocks)],
                g')"
  using assms
  by (simp add: generate_quadrature_loops_def Let_def commented_code_list_def)

theorem quadrature_loop_wrapping_witness:
  "(\<exists>g'. generate_quadrature_loops \<lparr>gen_ir = \<lparr>integral_type = ''cell'', quadrature_rules = [], expr_irs = [(1, \<lparr>V = [ModifiedTerminal \<lparr>terminal = ''x'', modifiers = [], literal_value = None\<rparr>, Operator ''lt'' True [ModifiedTerminal \<lparr>terminal = ''x'', modifiers = [], literal_value = None\<rparr>], Operator ''sum'' False [ModifiedTerminal \<lparr>terminal = ''x'', modifiers = [], literal_value = None\<rparr>]], piecewise = [False, False, False], varying = [True, True, True], table_ranges = [(0, 1), (0, 1), (0, 1)], need_weights = False, need_points = False, unique_tables = [], modified_arguments = [], block_contributions = (\<lambda>p. [])\<rparr>), (2, \<lparr>V = [ModifiedTerminal \<lparr>terminal = ''x'', modifiers = [], literal_value = None\<rparr>, Operator ''lt'' True [ModifiedTerminal \<lparr>terminal = ''x'', modifiers = [], literal_value = None\<rparr>], Operator ''sum'' False [ModifiedTerminal \<lparr>terminal = ''x'', modifiers = [], literal_value = None\<rparr>]], piecewise = [False, False, False], varying = [True, True, True], table_ranges = [(0, 1), (0, 1), (0, 1)], need_weights = False, need_points = False, unique_tables = [], modified_arguments = [], block_contributions = (\<lambda>p. [])\<rparr>), (3, \<lparr>V = [ModifiedTerminal \<lparr>terminal = ''x'', modifiers = [], literal_value = None\<rparr>, Operator ''lt'' True [ModifiedTerminal \<lparr>terminal = ''x'', modifiers = [], literal_value = None\<rparr>], Operator ''sum'' False [ModifiedTerminal \<lparr>terminal = ''x'', modifiers = [], literal_value = None\<rparr>]], piecewise = [True, True, True], varying = [False, False, False], table_ranges = [(0, 1), (0, 1), (0, 1)], need_weights = False, need_points = False, unique_tables = [], modified_arguments = [], block_contributions = (\<lambda>p. [])\<rparr>)], tensor_shape = [3, 3], alignas = 32\<rparr>, gen_backend = \<lparr>element_tensor = ''A'', weights_array = (\<lambda>n. Symbol ''W''), points_array = (\<lambda>n. Symbol ''P''), quadrature_loop_index = (\<lambda>n. Symbol ''iq''), num_quadrature_points = (\<lambda>n. LiteralInt (int n)), argument_loop_index = (\<lambda>i. Symbol ''ia''), access = (\<lambda>t mt tr n. Symbol t), definitions = (\<lambda>t mt tr n a. []), ufl_to_language = (\<lambda>v ops. Product ops)\<rparr>\<rparr> 1
      \<lparr>vaccesses = (\<lambda>n. Some Map.empty), ufl_names = {}\<rparr> =
      Inr ([Comment ''Only 1 quadrature point, no loop'',
            Scope [Comment ''Quadrature loop body setup (num_points=1)'', Comment ''Unstructured varying computations'', ArrayDecl ''double'' (Symbol ''sv1'') [1] None 32, Assign (ArrayAccess (Symbol ''sv1'') [LiteralInt 0]) (Product [Symbol ''x''])]], g')) \<and>
   (\<exists>g'. generate_quadrature_loops \<lparr>gen_ir = \<lparr>integral_type = ''cell'', quadrature_rules = [], expr_irs = [(1, \<lparr>V = [ModifiedTerminal \<lparr>terminal = ''x'', modifiers = [], literal_value = None\<rparr>, Operator ''lt'' True [ModifiedTerminal \<lparr>terminal = ''x'', modifiers = [], literal_value = None\<rparr>], Operator ''sum'' False [ModifiedTerminal \<lparr>terminal = ''x'', modifiers = [], literal_value = None\<rparr>]], piecewise = [False, False, False], varying = [True, True, True], table_ranges = [(0, 1), (0, 1), (0, 1)], need_weights = False, need_points = False, unique_tables = [], modified_arguments = [], block_contributions = (\<lambda>p. [])\<rparr>), (2, \<lparr>V = [ModifiedTerminal \<lparr>terminal = ''x'', modifiers = [], literal_value = None\<rparr>, Operator ''lt'' True [ModifiedTerminal \<lparr>terminal = ''x'', modifiers = [], literal_value = None\<rparr>], Operator ''sum'' False [ModifiedTerminal \<lparr>terminal = ''x'', modifiers = [], literal_value = None\<rparr>]], piecewise = [False, False, False], varying = [True, True, True], table_ranges = [(0, 1), (0, 1), (0, 1)], need_weights = False, need_points = False, unique_tables = [], modified_arguments = [], block_contributions = (\<lambda>p. [])\<rparr>), (3, \<lparr>V = [ModifiedTerminal \<lparr>terminal = ''x'', modifiers = [], literal_value = None\<rparr>, Operator ''lt'' True [ModifiedTerminal \<lparr>terminal = ''x'', modifiers = [], literal_value = None\<rparr>], Operator ''sum'' False [ModifiedTerminal \<lparr>terminal = ''x'', modifiers = [], literal_value = None\<rparr>]], piecewise = [True, True, True], varying = [False, False, False], table_ranges = [(0, 1), (0, 1), (0, 1)], need_weights = False, need_points = False, unique_tables = [], modified_arguments = [], block_contributions = (\<lambda>p. [])\<rparr>)], tensor_shape = [3, 3], alignas = 32\<rparr>, gen_backend = \<lparr>element_tensor = ''A'', weights_array = (\<lambda>n. Symbol ''W''), points_array = (\<lambda>n. Symbol ''P''), quadrature_loop_index = (\<lambda>n. Symbol ''iq''), num_quadrature_points = (\<lambda>n. LiteralInt (int n)), argument_loop_index = (\<lambda>i. Symbol ''ia''), access = (\<lambda>t mt tr n. Symbol t), definitions = (\<lambda>t mt tr n a. []), ufl_to_language = (\<lambda>v ops. Product ops)\<rparr>\<rparr> 2
      \<lparr>vaccesses = (\<lambda>n. Some Map.empty), ufl_names = {}\<rparr> =
      Inr ([ForRange (Symbol ''iq'') (LiteralInt 0) (LiteralInt 2)
              [Comment ''Quadrature loop body setup (num_points=2)'', Comment ''Unstructured varying computations'', ArrayDecl ''double'' (Symbol ''sv2'') [1] None 32, Assign (ArrayAccess (Symbol ''sv2'') [LiteralInt 0]) (Product [Symbol ''x''])]], g')) \<and>
   (\<exists>g'. generate_quadrature_loops \<lparr>gen_ir = \<lparr>integral_type = ''cell'', quadrature_rules = [], expr_irs = [(1, \<lparr>V = [ModifiedTerminal \<lparr>terminal = ''x'', modifiers = [], literal_value = None\<rparr>, Operator ''lt'' True [ModifiedTerminal \<lparr>terminal = ''x'', modifiers = [], literal_value = None\<rparr>], Operator ''sum'' False [ModifiedTerminal \<lparr>terminal = ''x'', modifiers = [], literal_value = None\<rparr>]], piecewise = [False, False, False], varying = [True, True, True], table_ranges = [(0, 1), (0, 1), (0, 1)], need_weights = False, need_points = False, unique_tables = [], modified_arguments = [], block_contributions = (\<lambda>p. [])\<rparr>), (2, \<lparr>V = [ModifiedTerminal \<lparr>terminal = ''x'', modifiers = [], literal_value = None\<rparr>, Operator ''lt'' True [ModifiedTerminal \<lparr>terminal = ''x'', modifiers = [], literal_value = None\<rparr>], Operator ''sum'' False [ModifiedTerminal \<lparr>terminal = ''x'', modifiers = [], literal_value = None\<rparr>]], piecewise = [False, False, False], varying = [True, True, True], table_ranges = [(0, 1), (0, 1), (0, 1)], need_weights = False, need_points = False, unique_tables = [], modified_arguments = [], block_contributions = (\<lambda>p. [])\<rparr>), (3, \<lparr>V = [ModifiedTerminal \<lparr>terminal = ''x'', modifiers = [], literal_value = None\<rparr>, Operator ''lt'' True [ModifiedTerminal \<lparr>terminal = ''x'', modifiers = [], literal_value = None\<rparr>], Operator ''sum'' False [ModifiedTerminal \<lparr>terminal = ''x'', modifiers = [], literal_value = None\<rparr>]], piecewise = [True, True, True], varying = [False, False, False], table_ranges = [(0, 1), (0, 1), (0, 1)], need_weights = False, need_points = False, unique_tables = [], modified_arguments = [], block_contributions = (\<lambda>p. [])\<rparr>)], tensor_shape = [3, 3], alignas = 32\<rparr>, gen_backend = \<lparr>element_tensor = ''A'', weights_array = (\<lambda>n. Symbol ''W''), points_array = (\<lambda>n. Symbol ''P''), quadrature_loop_index = (\<lambda>n. Symbol ''iq''), num_quadrature_points = (\<lambda>n. LiteralInt (int n)), argument_loop_index = (\<lambda>i. Symbol ''ia''), access = (\<lambda>t mt tr n. Symbol t), definitions = (\<lambda>t mt tr n a. []), ufl_to_language = (\<lambda>v ops. Product ops)\<rparr>\<rparr> 3
      \<lparr>vaccesses = (\<lambda>n. Some Map.empty), ufl_names = {}\<rparr> = Inr ([], g'))"
proof -
  let ?G = "\<lparr>gen_ir = \<lparr>integral_type = ''cell'', quadrature_rules = [], expr_irs = [(1, \<lparr>V = [ModifiedTerminal \<lparr>terminal = ''x'', modifiers = [], literal_value = None\<rparr>, Operator ''lt'' True [ModifiedTerminal \<lparr>terminal = ''x'', modifiers = [], literal_value = None\<rparr>], Operator ''sum'' False [ModifiedTerminal \<lparr>terminal = ''x'', modifiers = [], literal_value = None\<rparr>]], piecewise = [False, False, False], varying = [True, True, True], table_ranges = [(0, 1), (0, 1), (0, 1)], need_weights = False, need_points = False, unique_tables = [], modified_arguments = [], block_contributions = (\<lambda>p. [])\<rparr>), (2, \<lparr>V = [ModifiedTerminal \<lparr>terminal = ''x'', modifiers = [], literal_value = None\<rparr>, Operator ''lt'' True [ModifiedTerminal \<lparr>terminal = ''x'', modifiers = [], literal_value = None\<rparr>], Operator ''sum'' False [ModifiedTerminal \<lparr>terminal = ''x'', modifiers = [], literal_value = None\<rparr>]], piecewise = [False, False, False], varying = [True, True, True], table_ranges = [(0, 1), (0, 1), (0, 1)], need_weights = False, need_points = False, unique_tables = [], modified_arguments = [], block_contributions = (\<lambda>p. [])\<rparr>), (3, \<lparr>V = [ModifiedTerminal \<lparr>terminal = ''x'', modifiers = [], literal_value = None\<rparr>, Operator ''lt'' True [ModifiedTerminal \<lparr>terminal = ''x'', modifiers = [], literal_value = None\<rparr>], Operator ''sum'' False [ModifiedTerminal \<lparr>terminal = ''x'', modifiers = [], literal_value = None\<rparr>]], piecewise = [True, True, True], varying = [False, False, False], table_ranges = [(0, 1), (0, 1), (0, 1)], need_weights = False, need_points = False, unique_tables = [], modified_arguments = [], block_contributions = (\<lambda>p. [])\<rparr>)], tensor_shape = [3, 3], alignas = 32\<rparr>, gen_backend = \<lparr>element_tensor = ''A'', weights_array = (\<lambda>n. Symbol ''W''), points_array = (\<lambda>n. Symbol ''P''), quadrature_loop_index = (\<lambda>n. Symbol ''iq''), num_quadrature_points = (\<lambda>n. LiteralInt (int n)), argument_loop_index = (\<lambda>i. Symbol ''ia''), access = (\<lambda>t mt tr n. Symbol t), definitions = (\<lambda>t mt tr n a. []), ufl_to_language = (\<lambda>v ops. Product ops)\<rparr>\<rparr>"
  let ?g = "\<lparr>vaccesses = (\<lambda>n. Some Map.empty), ufl_names = {}\<rparr>"
  have n1: "str_nat (Suc 0) = ''1''" and n2: "str_nat 2 = ''2''" by code_simp+
  have "case generate_unstructured_partition ?G 1 Varying ?g of
          Inl e \<Rightarrow> False
        | Inr r \<Rightarrow>
            fst r = [Comment ''Unstructured varying computations'', ArrayDecl ''double'' (Symbol ''sv1'') [1] None 32, Assign (ArrayAccess (Symbol ''sv1'') [LiteralInt 0]) (Product [Symbol ''x''])] \<and>
            generate_dofblock_partition ?G 1 Varying (snd r) = Inr []"
    by code_simp
  from InrE [OF this] obtain r1 where
    r1: "generate_unstructured_partition ?G 1 Varying ?g = Inr (fst r1, snd r1)"
      "fst r1 = [Comment ''Unstructured varying computations'', ArrayDecl ''double'' (Symbol ''sv1'') [1] None 32, Assign (ArrayAccess (Symbol ''sv1'') [LiteralInt 0]) (Product [Symbol ''x''])]"
      "generate_dofblock_partition ?G 1 Varying (snd r1) = Inr []"
    by auto
  have a: "\<exists>g'. generate_quadrature_loops ?G 1 ?g =
      Inr ([Comment ''Only 1 quadrature point, no loop'', Scope [Comment ''Quadrature loop body setup (num_points=1)'', Comment ''Unstructured varying computations'', ArrayDecl ''double'' (Symbol ''sv1'') [1] None 32, Assign (ArrayAccess (Symbol ''sv1'') [LiteralInt 0]) (Product [Symbol ''x''])]], g')"
    using quadrature_loop_wrapping [OF r1(1) r1(3)] r1(2)
    by (simp add: commented_code_list_def n1)
  have "case generate_unstructured_partition ?G 2 Varying ?g of
          Inl e \<Rightarrow> False
        | Inr r \<Rightarrow>
            fst r = [Comment ''Unstructured varying computations'', ArrayDecl ''double'' (Symbol ''sv2'') [1] None 32, Assign (ArrayAccess (Symbol ''sv2'') [LiteralInt 0]) (Product [Symbol ''x''])] \<and>
            generate_dofblock_partition ?G 2 Varying (snd r) = Inr []"
    by code_simp
  from InrE [OF this] obtain r2 where
    r2: "generate_unstructured_partition ?G 2 Varying ?g = Inr (fst r2, snd r2)"
      "fst r2 = [Comment ''Unstructured varying computations'', ArrayDecl ''double'' (Symbol ''sv2'') [1] None 32, Assign (ArrayAccess (Symbol ''sv2'') [LiteralInt 0]) (Product [Symbol ''x''])]"
      "generate_dofblock_partition ?G 2 Varying (snd r2) = Inr []"
    by auto
  have b: "\<exists>g'. generate_quadrature_loops ?G 2 ?g =
      Inr ([ForRange (Symbol ''iq'') (LiteralInt 0) (LiteralInt 2) [Comment ''Quadrature loop body setup (num_points=2)'', Comment ''Unstructured varying computations'', ArrayDecl ''double'' (Symbol ''sv2'') [1] None 32, Assign (ArrayAccess (Symbol ''sv2'') [LiteralInt 0]) (Product [Symbol ''x''])]], g')"
    using quadrature_loop_wrapping [OF r2(1) r2(3)] r2(2)
    by (simp add: commented_code_list_def n2)
  have "case generate_unstructured_partition ?G 3 Varying ?g of
          Inl e \<Rightarrow> False
        | Inr r \<Rightarrow>
            fst r = [] \<and> generate_dofblock_partition ?G 3 Varying (snd r) = Inr []"
    by code_simp
  from InrE [OF this] obtain r3 where
    r3: "generate_unstructured_partition ?G 3 Varying ?g = Inr (fst r3, snd r3)"
      "fst r3 = []"
      "generate_dofblock_partition ?G 3 Varying (snd r3) = Inr []"
    by auto
  have c: "\<exists>g'. generate_quadrature_loops ?G 3 ?g = Inr ([], g')"
    using quadrature_loop_wrapping [OF r3(1) r3(3)] r3(2)
    by simp
  from a b c show ?thesis by blast
qed

lemma partition_step_operator:
  assumes "item Vs i = Inr (Operator name c ops)"
    and "operand_accesses (p_vaccesses st) ops = Inr vops"
  shows "partition_step self symbol Vs ranges num_points i st =
     Inr (if c then
            st\<lparr>p_vaccesses := (p_vaccesses st)
                   (Operator name c ops \<mapsto>
                      ufl_to_language (gen_backend self) (Operator name c ops) vops),
               p_ufl_names := insert name (p_ufl_names st)\<rparr>
          else
            st\<lparr>p_intermediates := p_intermediates st @
                   [Assign (ArrayAccess symbol [LiteralInt (int (length (p_intermediates st)))])
                      (ufl_to_language (gen_backend self) (Operator name c ops) vops)],
               p_vaccesses := (p_vaccesses st)
                   (Operator name c ops \<mapsto>
                      ArrayAccess symbol [LiteralInt (int (length (p_intermediates st)))]),
               p_ufl_names := insert name (p_ufl_names st)\<rparr>)"
  using assms by (simp add: partition_step_def Let_def)

lemma partition_step_effect:
  assumes "partition_step self symbol Vs ranges num_points i st = Inr st'"
  shows "i < length Vs \<and>
         length (p_intermediates st') =
           length (p_intermediates st) +
           (case Vs ! i of Operator _ c _ \<Rightarrow> if c then 0 else 1 | ModifiedTerminal _ \<Rightarrow> 0) \<and>
         p_vaccesses st' (Vs ! i) \<noteq> None \<and>
         (\<forall>u. u \<noteq> Vs ! i \<longrightarrow> p_vaccesses st' u = p_vaccesses st u)"
  using assms
  by (auto simp: partition_step_def item_def Let_def
      split: sum.splits ufl_expr.splits if_splits)

lemma partition_loop_effect:
  "partition_loop self symbol Vs ranges num_points idxs st = Inr st' \<Longrightarrow>
   length (p_intermediates st') =
     length (p_intermediates st) +
     length (filter (\<lambda>i. case Vs ! i of Operator _ c _ \<Rightarrow> \<not> c | ModifiedTerminal _ \<Rightarrow> False)
               idxs) \<and>
   (\<forall>i\<in>set idxs. p_vaccesses st' (Vs ! i) \<noteq> None) \<and>
   (\<forall>u. u \<notin> (\<lambda>i. Vs ! i) ` set idxs \<longrightarrow> p_vaccesses st' u = p_vaccesses st u) \<and>
   dom (p_vaccesses st) \<subseteq> dom (p_vaccesses st')"
proof (induction idxs arbitrary: st)
  case Nil
  then show ?case by simp
next
  case (Cons i idxs)
  from Cons.prems obtain s1 where
    step: "partition_step self symbol Vs ranges num_points i st = Inr s1" and
    rest: "partition_loop self symbol Vs ranges num_points idxs s1 = Inr st'"
    by (auto split: sum.splits)
  note e = partition_step_effect [OF step]
  note ih = Cons.IH [OF rest]
  have len: "length (p_intermediates st') =
     length (p_intermediates st) +
     length (filter (\<lambda>i. case Vs ! i of Operator _ c _ \<Rightarrow> \<not> c | ModifiedTerminal _ \<Rightarrow> False)
               (i # idxs))"
    using e ih by (auto split: ufl_expr.splits)
  have d1: "dom (p_vaccesses st) \<subseteq> dom (p_vaccesses s1)"
  proof
    fix u assume "u \<in> dom (p_vaccesses st)"
    then show "u \<in> dom (p_vaccesses s1)"
      using e by (cases "u = Vs ! i") auto
  qed
  have memo: "\<forall>j\<in>set (i # idxs). p_vaccesses st' (Vs ! j) \<noteq> None"
  proof
    fix j assume "j \<in> set (i # idxs)"
    then consider "j \<in> set idxs" | "j = i" by auto
    then show "p_vaccesses st' (Vs ! j) \<noteq> None"
    proof cases
      case 1
      with ih show ?thesis by blast
    next
      case 2
      with e have "Vs ! j \<in> dom (p_vaccesses s1)" by auto
      with ih have "Vs ! j \<in> dom (p_vaccesses st')" by blast
      then show ?thesis by auto
    qed
  qed
  have keep: "\<forall>u. u \<notin> (\<lambda>i. Vs ! i) ` set (i # idxs) \<longrightarrow> p_vaccesses st' u = p_vaccesses st u"
    using e ih by auto
  from len memo keep d1 ih show ?case by blast
qed

lemma generate_partition_frame:
  assumes "generate_partition self symbol Vs flags ranges n g = Inr (parts, g')"
  shows "(\<forall>m. m \<noteq> n \<longrightarrow> vaccesses g' m = vaccesses g m) \<and>
         (\<exists>memo memo'. vaccesses g n = Some memo \<and> vaccesses g' n = Some memo' \<and>
            dom memo \<subseteq> dom memo')"
proof -
  from assms obtain memo where memo: "vaccesses g n = Some memo"
    by (auto simp: generate_partition_def split: option.splits)
  from assms memo obtain st where
    st: "partition_loop self symbol Vs ranges n (partition_indices flags)
           \<lparr>p_definitions = [], p_intermediates = [], p_vaccesses = memo,
            p_ufl_names = ufl_names g\<rparr> = Inr st"
    by (auto simp: generate_partition_def split: sum.splits)
  from assms memo st have g': "vaccesses g' = (vaccesses g)(n \<mapsto> p_vaccesses st)"
    by (auto simp: generate_partition_def Let_def)
  from partition_loop_effect [OF st] have "dom memo \<subseteq> dom (p_vaccesses st)" by simp
  with memo g' show ?thesis by simp
qed

lemma generate_unstructured_partition_frame:
  assumes "generate_unstructured_partition self n p g = Inr (parts, g')"
  shows "(\<forall>m. m \<noteq> n \<longrightarrow> vaccesses g' m = vaccesses g m) \<and>
         (\<exists>memo memo'. vaccesses g n = Some memo \<and> vaccesses g' n = Some memo' \<and>
            dom memo \<subseteq> dom memo')"
  using assms
  by (auto simp: generate_unstructured_partition_def Let_def
      split: sum.splits prod.splits dest!: generate_partition_frame)

lemma generate_quadrature_loops_frame:
  assumes "generate_quadrature_loops self n g = Inr (parts, g')"
  shows "(\<forall>m. m \<noteq> n \<longrightarrow> vaccesses g' m = vaccesses g m) \<and>
         (\<exists>memo memo'. vaccesses g n = Some memo \<and> vaccesses g' n = Some memo' \<and>
            dom memo \<subseteq> dom memo')"
proof -
  from assms obtain u where
    "generate_unstructured_partition self n Varying g = Inr (u, g')"
    by (auto simp: generate_quadrature_loops_def Let_def split: sum.splits prod.splits if_splits)
  then show ?thesis by (rule generate_unstructured_partition_frame)
qed

lemma generate_num_points_frame:
  assumes "generate_num_points self multiple n g = Inr (parts, g')"
  shows "(\<forall>m. m \<noteq> n \<longrightarrow> vaccesses g' m = vaccesses g m) \<and>
         (\<exists>memo memo'. vaccesses g n = Some memo \<and> vaccesses g' n = Some memo' \<and>
            dom memo \<subseteq> dom memo')"
proof -
  from assms obtain b1 g1 b3 where
    1: "generate_unstructured_partition self n Piecewise g = Inr (b1, g1)" and
    3: "generate_quadrature_loops self n g1 = Inr (b3, g')"
    by (auto simp: generate_num_points_def Let_def split: sum.splits prod.splits)
  from generate_unstructured_partition_frame [OF 1] generate_quadrature_loops_frame [OF 3]
  show ?thesis by (auto; force)
qed

lemma generate_loop_frame:
  "generate_loop self multiple nps g = Inr (parts, g') \<Longrightarrow> m \<notin> set nps \<Longrightarrow>
   vaccesses g' m = vaccesses g m"
proof (induction nps arbitrary: g parts)
  case Nil
  then show ?case by simp
next
  case (Cons n nps)
  from Cons.prems(1) obtain p1 g1 p2 where
    1: "generate_num_points self multiple n g = Inr (p1, g1)" and
    2: "generate_loop self multiple nps g1 = Inr (p2, g')"
    by (auto split: sum.splits prod.splits)
  from generate_num_points_frame [OF 1] Cons.IH [OF 2] Cons.prems(2)
  show ?case by simp
qed

lemma memo_reset:
  assumes "sorted_keys (expr_irs (gen_ir self)) = pre @ n # post"
    and "distinct (map fst (expr_irs (gen_ir self)))"
    and "generate_loop self multiple pre
           (reset_vaccesses (sorted_keys (expr_irs (gen_ir self))) g) = Inr (parts, g1)"
  shows "vaccesses g1 n = Some Map.empty"
proof -
  from assms(2) have "distinct (sorted_keys (expr_irs (gen_ir self)))"
    by (simp add: sorted_keys_def)
  with assms(1) have "n \<notin> set pre" by simp
  from generate_loop_frame [OF assms(3) this] assms(1) show ?thesis
    by (simp add: reset_vaccesses_def)
qed

subsection \<open>Partitions, numbers of points and the whole body\<close>

lemma partition_loop_append:
  "partition_loop self symbol Vs ranges n (xs @ ys) st =
     (case partition_loop self symbol Vs ranges n xs st of
        Inl e \<Rightarrow> Inl e
      | Inr st' \<Rightarrow> partition_loop self symbol Vs ranges n ys st')"
  by (induction xs arbitrary: st) (auto split: sum.splits)

lemma slots_snoc:
  "slots symbol ints \<Longrightarrow>
   slots symbol (ints @ [Assign (ArrayAccess symbol [LiteralInt (int (length ints))]) e])"
  by (auto simp: slots_def nth_append less_Suc_eq)

lemma partition_step_operator_inv:
  assumes "partition_step self symbol Vs ranges n i st = Inr st'"
    and "Vs ! i = Operator name c ops"
  shows "\<exists>vops. operand_accesses (p_vaccesses st) ops = Inr vops \<and>
           st' = (if c then
            st\<lparr>p_vaccesses := (p_vaccesses st)
                   (Operator name c ops \<mapsto>
                      ufl_to_language (gen_backend self) (Operator name c ops) vops),
               p_ufl_names := insert name (p_ufl_names st)\<rparr>
          else
            st\<lparr>p_intermediates := p_intermediates st @
                   [Assign (ArrayAccess symbol [LiteralInt (int (length (p_intermediates st)))])
                      (ufl_to_language (gen_backend self) (Operator name c ops) vops)],
               p_vaccesses := (p_vaccesses st)
                   (Operator name c ops \<mapsto>
                      ArrayAccess symbol [LiteralInt (int (length (p_intermediates st)))]),
               p_ufl_names := insert name (p_ufl_names st)\<rparr>)"
proof -
  from partition_step_effect [OF assms(1)] assms(2)
  have it: "item Vs i = Inr (Operator name c ops)" by (simp add: item_def)
  show ?thesis
  proof (cases "operand_accesses (p_vaccesses st) ops")
    case (Inl e)
    with assms(1) it show ?thesis by (simp add: partition_step_def)
  next
    case (Inr vops)
    from partition_step_operator [OF it Inr, of self symbol ranges n] assms(1) Inr
    show ?thesis by auto
  qed
qed

lemma partition_step_slots:
  assumes "partition_step self symbol Vs ranges n i st = Inr st'"
    and "slots symbol (p_intermediates st)"
  shows "slots symbol (p_intermediates st') \<and>
         prefix (p_intermediates st) (p_intermediates st')"
  using assms
  by (auto simp: partition_step_def item_def Let_def slots_snoc
      split: sum.splits ufl_expr.splits if_splits)

lemma partition_loop_slots:
  "partition_loop self symbol Vs ranges n idxs st = Inr st' \<Longrightarrow>
   slots symbol (p_intermediates st) \<Longrightarrow>
   slots symbol (p_intermediates st') \<and> prefix (p_intermediates st) (p_intermediates st')"
proof (induction idxs arbitrary: st)
  case Nil
  then show ?case by simp
next
  case (Cons i idxs)
  from Cons.prems(1) obtain s1 where
    step: "partition_step self symbol Vs ranges n i st = Inr s1" and
    rest: "partition_loop self symbol Vs ranges n idxs s1 = Inr st'"
    by (auto split: sum.splits)
  from partition_step_slots [OF step Cons.prems(2)] Cons.IH [OF rest]
  show ?case by (auto intro: prefix_order.trans)
qed

lemma partition_loop_node:
  assumes "partition_loop self symbol Vs ranges n (pre @ i # post) st0 = Inr st'"
    and "Vs ! i = Operator name c ops"
    and "slots symbol (p_intermediates st0)"
  shows "\<exists>st vops.
           partition_loop self symbol Vs ranges n pre st0 = Inr st \<and>
           operand_accesses (p_vaccesses st) ops = Inr vops \<and>
           length (p_intermediates st) =
             length (p_intermediates st0) +
             length (filter (\<lambda>i. case Vs ! i of Operator _ c _ \<Rightarrow> \<not> c
                                  | ModifiedTerminal _ \<Rightarrow> False) pre) \<and>
           (c \<longrightarrow>
              (Vs ! i \<notin> (\<lambda>i. Vs ! i) ` set post \<longrightarrow>
                 p_vaccesses st' (Vs ! i) =
                   Some (ufl_to_language (gen_backend self) (Vs ! i) vops))) \<and>
           (\<not> c \<longrightarrow>
              p_intermediates st' ! length (p_intermediates st) =
                Assign (ArrayAccess symbol [LiteralInt (int (length (p_intermediates st)))])
                  (ufl_to_language (gen_backend self) (Vs ! i) vops) \<and>
              (Vs ! i \<notin> (\<lambda>i. Vs ! i) ` set post \<longrightarrow>
                 p_vaccesses st' (Vs ! i) =
                   Some (ArrayAccess symbol
                           [LiteralInt (int (length (p_intermediates st)))])))"
proof -
  from assms(1) obtain st st1 where
    pre: "partition_loop self symbol Vs ranges n pre st0 = Inr st" and
    step: "partition_step self symbol Vs ranges n i st = Inr st1" and
    post: "partition_loop self symbol Vs ranges n post st1 = Inr st'"
    by (auto simp: partition_loop_append split: sum.splits)
  from partition_step_operator_inv [OF step assms(2)] obtain vops where
    vops: "operand_accesses (p_vaccesses st) ops = Inr vops" and
    st1: "st1 = (if c then
            st\<lparr>p_vaccesses := (p_vaccesses st)
                   (Operator name c ops \<mapsto>
                      ufl_to_language (gen_backend self) (Operator name c ops) vops),
               p_ufl_names := insert name (p_ufl_names st)\<rparr>
          else
            st\<lparr>p_intermediates := p_intermediates st @
                   [Assign (ArrayAccess symbol [LiteralInt (int (length (p_intermediates st)))])
                      (ufl_to_language (gen_backend self) (Operator name c ops) vops)],
               p_vaccesses := (p_vaccesses st)
                   (Operator name c ops \<mapsto>
                      ArrayAccess symbol [LiteralInt (int (length (p_intermediates st)))]),
               p_ufl_names := insert name (p_ufl_names st)\<rparr>)"
    by blast
  from partition_loop_effect [OF pre] have len:
    "length (p_intermediates st) =
       length (p_intermediates st0) +
       length (filter (\<lambda>i. case Vs ! i of Operator _ c _ \<Rightarrow> \<not> c
                            | ModifiedTerminal _ \<Rightarrow> False) pre)" by simp
  from partition_loop_slots [OF pre assms(3)] have sl: "slots symbol (p_intermediates st)"
    by simp
  from partition_step_slots [OF step sl] have sl1: "slots symbol (p_intermediates st1)"
    by simp
  from partition_loop_slots [OF post sl1] have pf: "prefix (p_intermediates st1) (p_intermediates st')"
    by simp
  from partition_loop_effect [OF post] have keep:
    "Vs ! i \<notin> (\<lambda>i. Vs ! i) ` set post \<Longrightarrow> p_vaccesses st' (Vs ! i) = p_vaccesses st1 (Vs ! i)"
    by simp
  have c1: "p_vaccesses st' (Vs ! i) = Some (ufl_to_language (gen_backend self) (Vs ! i) vops)"
    if "c" "Vs ! i \<notin> (\<lambda>i. Vs ! i) ` set post"
    using keep [OF that(2)] that(1) st1 assms(2) by simp
  have c2: "p_intermediates st' ! length (p_intermediates st) =
                Assign (ArrayAccess symbol [LiteralInt (int (length (p_intermediates st)))])
                  (ufl_to_language (gen_backend self) (Vs ! i) vops)"
    if "\<not> c"
  proof -
    from pf obtain more where m: "p_intermediates st' = p_intermediates st1 @ more"
      by (auto simp: prefix_def)
    show ?thesis using that st1 assms(2) by (simp add: m nth_append)
  qed
  have c3: "p_vaccesses st' (Vs ! i) =
              Some (ArrayAccess symbol [LiteralInt (int (length (p_intermediates st)))])"
    if "\<not> c" "Vs ! i \<notin> (\<lambda>i. Vs ! i) ` set post"
    using keep [OF that(2)] that(1) st1 assms(2) by simp
  from pre vops len c1 c2 c3 show ?thesis by blast
qed

lemma generate_partition_unfold:
  assumes "generate_partition self symbol Vs flags ranges n g = Inr (parts, g')"
  obtains memo st where
    "vaccesses g n = Some memo"
    "partition_loop self symbol Vs ranges n (partition_indices flags)
       \<lparr>p_definitions = [], p_intermediates = [], p_vaccesses = memo,
        p_ufl_names = ufl_names g\<rparr> = Inr st"
    "g' = g\<lparr>vaccesses := (vaccesses g)(n \<mapsto> p_vaccesses st), ufl_names := p_ufl_names st\<rparr>"
    "parts = p_definitions st @
       (if p_intermediates st = [] then []
        else ArrayDecl ''double'' symbol [length (p_intermediates st)] None
               (alignas (gen_ir self)) # p_intermediates st)"
proof -
  from assms obtain memo where memo: "vaccesses g n = Some memo"
    by (auto simp: generate_partition_def split: option.splits)
  from assms memo obtain st where
    st: "partition_loop self symbol Vs ranges n (partition_indices flags)
           \<lparr>p_definitions = [], p_intermediates = [], p_vaccesses = memo,
            p_ufl_names = ufl_names g\<rparr> = Inr st"
    by (auto simp: generate_partition_def split: sum.splits)
  from assms memo st have
    "g' = g\<lparr>vaccesses := (vaccesses g)(n \<mapsto> p_vaccesses st), ufl_names := p_ufl_names st\<rparr>"
    "parts = p_definitions st @
       (if p_intermediates st = [] then []
        else ArrayDecl ''double'' symbol [length (p_intermediates st)] None
               (alignas (gen_ir self)) # p_intermediates st)"
    by (auto simp: generate_partition_def Let_def)
  with memo st show thesis by (rule that)
qed

lemma generate_partition_effect:
  assumes "generate_partition self symbol Vs flags ranges n g = Inr (parts, g')"
  shows "\<exists>memo memo' defs ints.
      vaccesses g n = Some memo \<and> vaccesses g' n = Some memo' \<and>
      (\<forall>m. m \<noteq> n \<longrightarrow> vaccesses g' m = vaccesses g m) \<and>
      parts = defs @
        (if ints = [] then []
         else ArrayDecl ''double'' symbol [length ints] None (alignas (gen_ir self)) # ints) \<and>
      length ints =
        length (filter (\<lambda>i. case Vs ! i of Operator _ c _ \<Rightarrow> \<not> c
                             | ModifiedTerminal _ \<Rightarrow> False) (partition_indices flags)) \<and>
      (\<forall>k<length ints. \<exists>e. ints ! k = Assign (ArrayAccess symbol [LiteralInt (int k)]) e) \<and>
      (\<forall>i\<in>set (partition_indices flags). memo' (Vs ! i) \<noteq> None) \<and>
      (\<forall>u. u \<notin> (\<lambda>i. Vs ! i) ` set (partition_indices flags) \<longrightarrow> memo' u = memo u) \<and>
      dom memo \<subseteq> dom memo' \<and>
      (\<forall>pre i post name c ops.
         partition_indices flags = pre @ i # post \<and> Vs ! i = Operator name c ops \<longrightarrow>
         (\<exists>st vops.
            partition_loop self symbol Vs ranges n pre
              \<lparr>p_definitions = [], p_intermediates = [], p_vaccesses = memo,
               p_ufl_names = ufl_names g\<rparr> = Inr st \<and>
            operand_accesses (p_vaccesses st) ops = Inr vops \<and>
            (c \<longrightarrow>
               (Vs ! i \<notin> (\<lambda>i. Vs ! i) ` set post \<longrightarrow>
                  memo' (Vs ! i) = Some (ufl_to_language (gen_backend self) (Vs ! i) vops))) \<and>
            (\<not> c \<longrightarrow>
               ints ! length (filter (\<lambda>i. case Vs ! i of Operator _ c _ \<Rightarrow> \<not> c
                                          | ModifiedTerminal _ \<Rightarrow> False) pre) =
                 Assign
                   (ArrayAccess symbol
                      [LiteralInt (int (length (filter
                         (\<lambda>i. case Vs ! i of Operator _ c _ \<Rightarrow> \<not> c
                               | ModifiedTerminal _ \<Rightarrow> False) pre)))])
                   (ufl_to_language (gen_backend self) (Vs ! i) vops) \<and>
               (Vs ! i \<notin> (\<lambda>i. Vs ! i) ` set post \<longrightarrow>
                  memo' (Vs ! i) =
                    Some (ArrayAccess symbol
                      [LiteralInt (int (length (filter
                         (\<lambda>i. case Vs ! i of Operator _ c _ \<Rightarrow> \<not> c
                               | ModifiedTerminal _ \<Rightarrow> False) pre)))])))))"
proof -
  from assms obtain memo st where
    memo: "vaccesses g n = Some memo" and
    st: "partition_loop self symbol Vs ranges n (partition_indices flags)
       \<lparr>p_definitions = [], p_intermediates = [], p_vaccesses = memo,
        p_ufl_names = ufl_names g\<rparr> = Inr st" and
    g': "g' = g\<lparr>vaccesses := (vaccesses g)(n \<mapsto> p_vaccesses st), ufl_names := p_ufl_names st\<rparr>" and
    parts: "parts = p_definitions st @
       (if p_intermediates st = [] then []
        else ArrayDecl ''double'' symbol [length (p_intermediates st)] None
               (alignas (gen_ir self)) # p_intermediates st)"
    by (rule generate_partition_unfold)
  let ?st0 = "\<lparr>p_definitions = [], p_intermediates = [], p_vaccesses = memo,
        p_ufl_names = ufl_names g\<rparr>"
  have s0: "slots symbol (p_intermediates ?st0)" by (simp add: slots_def)
  note eff = partition_loop_effect [OF st]
  from partition_loop_slots [OF st s0] have sl: "slots symbol (p_intermediates st)" by simp
  have 1: "vaccesses g' n = Some (p_vaccesses st)" by (simp add: g')
  have 2: "\<forall>m. m \<noteq> n \<longrightarrow> vaccesses g' m = vaccesses g m" by (simp add: g')
  have 3: "length (p_intermediates st) =
        length (filter (\<lambda>i. case Vs ! i of Operator _ c _ \<Rightarrow> \<not> c
                             | ModifiedTerminal _ \<Rightarrow> False) (partition_indices flags))"
    using eff by simp
  have 4: "\<forall>k<length (p_intermediates st).
             \<exists>e. p_intermediates st ! k = Assign (ArrayAccess symbol [LiteralInt (int k)]) e"
    using sl by (simp add: slots_def)
  have 5: "\<forall>i\<in>set (partition_indices flags). p_vaccesses st (Vs ! i) \<noteq> None"
    using eff by blast
  have 6: "\<forall>u. u \<notin> (\<lambda>i. Vs ! i) ` set (partition_indices flags) \<longrightarrow> p_vaccesses st u = memo u"
    using eff by simp
  have 7: "dom memo \<subseteq> dom (p_vaccesses st)" using eff by simp
  have 8: "\<exists>sk vops.
            partition_loop self symbol Vs ranges n pre ?st0 = Inr sk \<and>
            operand_accesses (p_vaccesses sk) ops = Inr vops \<and>
            (c \<longrightarrow>
               (Vs ! i \<notin> (\<lambda>i. Vs ! i) ` set post \<longrightarrow>
                  p_vaccesses st (Vs ! i) =
                    Some (ufl_to_language (gen_backend self) (Vs ! i) vops))) \<and>
            (\<not> c \<longrightarrow>
               p_intermediates st !
                 length (filter (\<lambda>i. case Vs ! i of Operator _ c _ \<Rightarrow> \<not> c
                                          | ModifiedTerminal _ \<Rightarrow> False) pre) =
                 Assign
                   (ArrayAccess symbol
                      [LiteralInt (int (length (filter
                         (\<lambda>i. case Vs ! i of Operator _ c _ \<Rightarrow> \<not> c
                               | ModifiedTerminal _ \<Rightarrow> False) pre)))])
                   (ufl_to_language (gen_backend self) (Vs ! i) vops) \<and>
               (Vs ! i \<notin> (\<lambda>i. Vs ! i) ` set post \<longrightarrow>
                  p_vaccesses st (Vs ! i) =
                    Some (ArrayAccess symbol
                      [LiteralInt (int (length (filter
                         (\<lambda>i. case Vs ! i of Operator _ c _ \<Rightarrow> \<not> c
                               | ModifiedTerminal _ \<Rightarrow> False) pre)))])))"
    if "partition_indices flags = pre @ i # post" "Vs ! i = Operator name c ops"
    for pre i post name c ops
  proof -
    from st that(1) have
      "partition_loop self symbol Vs ranges n (pre @ i # post) ?st0 = Inr st" by simp
    from partition_loop_node [OF this that(2) s0] obtain sk vops where
      all: "partition_loop self symbol Vs ranges n pre ?st0 = Inr sk \<and>
           operand_accesses (p_vaccesses sk) ops = Inr vops \<and>
           length (p_intermediates sk) =
             length (p_intermediates ?st0) +
             length (filter (\<lambda>i. case Vs ! i of Operator _ c _ \<Rightarrow> \<not> c
                                  | ModifiedTerminal _ \<Rightarrow> False) pre) \<and>
           (c \<longrightarrow>
              (Vs ! i \<notin> (\<lambda>i. Vs ! i) ` set post \<longrightarrow>
                 p_vaccesses st (Vs ! i) =
                   Some (ufl_to_language (gen_backend self) (Vs ! i) vops))) \<and>
           (\<not> c \<longrightarrow>
              p_intermediates st ! length (p_intermediates sk) =
                Assign (ArrayAccess symbol [LiteralInt (int (length (p_intermediates sk)))])
                  (ufl_to_language (gen_backend self) (Vs ! i) vops) \<and>
              (Vs ! i \<notin> (\<lambda>i. Vs ! i) ` set post \<longrightarrow>
                 p_vaccesses st (Vs ! i) =
                   Some (ArrayAccess symbol
                           [LiteralInt (int (length (p_intermediates sk)))])))"
      by (elim exE) (rule that, assumption)
    from all have
      a: "partition_loop self symbol Vs ranges n pre ?st0 = Inr sk"
         "operand_accesses (p_vaccesses sk) ops = Inr vops"
         "length (p_intermediates sk) =
            length (filter (\<lambda>i. case Vs ! i of Operator _ c _ \<Rightarrow> \<not> c
                                  | ModifiedTerminal _ \<Rightarrow> False) pre)"
      by simp_all
    from all have
      b: "c \<longrightarrow>
              (Vs ! i \<notin> (\<lambda>i. Vs ! i) ` set post \<longrightarrow>
                 p_vaccesses st (Vs ! i) =
                   Some (ufl_to_language (gen_backend self) (Vs ! i) vops))"
      by (elim conjE)
    from all have
      d: "\<not> c \<longrightarrow>
              p_intermediates st ! length (p_intermediates sk) =
                Assign (ArrayAccess symbol [LiteralInt (int (length (p_intermediates sk)))])
                  (ufl_to_language (gen_backend self) (Vs ! i) vops) \<and>
              (Vs ! i \<notin> (\<lambda>i. Vs ! i) ` set post \<longrightarrow>
                 p_vaccesses st (Vs ! i) =
                   Some (ArrayAccess symbol
                           [LiteralInt (int (length (p_intermediates sk)))]))"
      by (elim conjE)
    from d have d': "\<not> c \<longrightarrow>
               p_intermediates st !
                 length (filter (\<lambda>i. case Vs ! i of Operator _ c _ \<Rightarrow> \<not> c
                                          | ModifiedTerminal _ \<Rightarrow> False) pre) =
                 Assign
                   (ArrayAccess symbol
                      [LiteralInt (int (length (filter
                         (\<lambda>i. case Vs ! i of Operator _ c _ \<Rightarrow> \<not> c
                               | ModifiedTerminal _ \<Rightarrow> False) pre)))])
                   (ufl_to_language (gen_backend self) (Vs ! i) vops) \<and>
               (Vs ! i \<notin> (\<lambda>i. Vs ! i) ` set post \<longrightarrow>
                  p_vaccesses st (Vs ! i) =
                    Some (ArrayAccess symbol
                      [LiteralInt (int (length (filter
                         (\<lambda>i. case Vs ! i of Operator _ c _ \<Rightarrow> \<not> c
                               | ModifiedTerminal _ \<Rightarrow> False) pre)))]))"
      unfolding a(3) .
    from a(1,2) b d' show ?thesis by blast
  qed
  show ?thesis
    apply (rule exI [of _ memo], rule exI [of _ "p_vaccesses st"],
           rule exI [of _ "p_definitions st"], rule exI [of _ "p_intermediates st"])
    apply (intro conjI)
             apply (rule memo)
            apply (rule 1)
           apply (rule 2)
          apply (rule parts)
         apply (rule 3)
        apply (rule 4)
       apply (rule 5)
      apply (rule 6)
     apply (rule 7)
    apply (intro allI impI)
    apply (erule conjE)
    apply (rule 8)
     apply assumption+
    done
qed

lemma generate_unstructured_partition_unfold:
  assumes "generate_unstructured_partition self n p g = Inr (parts, g')"
  obtains e parts0 where
    "lookup (expr_irs (gen_ir self)) n = Inr e"
    "generate_partition self
       (Symbol ((case p of Piecewise \<Rightarrow> ''sp'' | Varying \<Rightarrow> ''sv'') @ str_nat n))
       (V e) (expr_ir_partition e p) (table_ranges e) n g = Inr (parts0, g')"
    "parts = commented_code_list parts0
               [''Unstructured '' @ partition_name p @ '' computations'']"
  using assms
  by (auto simp: generate_unstructured_partition_def Let_def split: sum.splits prod.splits)

lemma generate_unstructured_partition_effect:
  assumes "generate_unstructured_partition self n p g = Inr (parts, g')"
  shows "\<exists>e memo memo'.
      lookup (expr_irs (gen_ir self)) n = Inr e \<and>
      vaccesses g n = Some memo \<and> vaccesses g' n = Some memo' \<and>
      (\<forall>m. m \<noteq> n \<longrightarrow> vaccesses g' m = vaccesses g m) \<and>
      (\<forall>i\<in>set (partition_indices (expr_ir_partition e p)). memo' (V e ! i) \<noteq> None) \<and>
      (\<forall>u. u \<notin> (\<lambda>i. V e ! i) ` set (partition_indices (expr_ir_partition e p)) \<longrightarrow>
           memo' u = memo u) \<and>
      dom memo \<subseteq> dom memo'"
proof -
  from assms obtain e parts0 where
    e: "lookup (expr_irs (gen_ir self)) n = Inr e" and
    gp: "generate_partition self
       (Symbol ((case p of Piecewise \<Rightarrow> ''sp'' | Varying \<Rightarrow> ''sv'') @ str_nat n))
       (V e) (expr_ir_partition e p) (table_ranges e) n g = Inr (parts0, g')"
    by (rule generate_unstructured_partition_unfold)
  from gp obtain memo st where
    memo: "vaccesses g n = Some memo" and
    st: "partition_loop self
       (Symbol ((case p of Piecewise \<Rightarrow> ''sp'' | Varying \<Rightarrow> ''sv'') @ str_nat n))
       (V e) (table_ranges e) n (partition_indices (expr_ir_partition e p))
       \<lparr>p_definitions = [], p_intermediates = [], p_vaccesses = memo,
        p_ufl_names = ufl_names g\<rparr> = Inr st" and
    g': "g' = g\<lparr>vaccesses := (vaccesses g)(n \<mapsto> p_vaccesses st), ufl_names := p_ufl_names st\<rparr>"
    by (rule generate_partition_unfold)
  note eff = partition_loop_effect [OF st]
  have "vaccesses g' n = Some (p_vaccesses st)"
    "\<forall>m. m \<noteq> n \<longrightarrow> vaccesses g' m = vaccesses g m"
    by (simp_all add: g')
  moreover have "\<forall>i\<in>set (partition_indices (expr_ir_partition e p)).
      p_vaccesses st (V e ! i) \<noteq> None" using eff by blast
  moreover have "\<forall>u. u \<notin> (\<lambda>i. V e ! i) ` set (partition_indices (expr_ir_partition e p)) \<longrightarrow>
      p_vaccesses st u = memo u" using eff by simp
  moreover have "dom memo \<subseteq> dom (p_vaccesses st)" using eff by simp
  ultimately show ?thesis using e memo by blast
qed

lemma generate_num_points_unfold:
  assumes "generate_num_points self multiple n g = Inr (parts, g')"
  obtains b1 g1 b2 u blocks b3 where
    "generate_unstructured_partition self n Piecewise g = Inr (b1, g1)"
    "generate_dofblock_partition self n Piecewise g1 = Inr b2"
    "generate_unstructured_partition self n Varying g1 = Inr (u, g')"
    "generate_dofblock_partition self n Varying g' = Inr blocks"
    "generate_quadrature_loops self n g1 = Inr (b3, g')"
    "parts = (if multiple then [Scope (b1 @ b2 @ b3)] else b1 @ b2 @ b3)"
proof -
  from assms obtain b1 g1 b2 b3 where
    1: "generate_unstructured_partition self n Piecewise g = Inr (b1, g1)" and
    2: "generate_dofblock_partition self n Piecewise g1 = Inr b2" and
    3: "generate_quadrature_loops self n g1 = Inr (b3, g')" and
    4: "parts = (if multiple then [Scope (b1 @ b2 @ b3)] else b1 @ b2 @ b3)"
    by (auto simp: generate_num_points_def Let_def split: sum.splits prod.splits)
  from 3 obtain u blocks where
    5: "generate_unstructured_partition self n Varying g1 = Inr (u, g')" and
    6: "generate_dofblock_partition self n Varying g' = Inr blocks"
    by (auto simp: generate_quadrature_loops_def Let_def
        split: sum.splits prod.splits if_splits)
  from 1 2 5 6 3 4 show thesis by (rule that)
qed

lemma generate_num_points_effect:
  assumes "generate_num_points self multiple n g = Inr (parts, g')"
  shows "\<exists>e memo memo1 memo' b g1 u.
      lookup (expr_irs (gen_ir self)) n = Inr e \<and>
      vaccesses g n = Some memo \<and>
      generate_unstructured_partition self n Piecewise g = Inr (b, g1) \<and>
      vaccesses g1 n = Some memo1 \<and>
      generate_unstructured_partition self n Varying g1 = Inr (u, g') \<and>
      vaccesses g' n = Some memo' \<and>
      (\<forall>m. m \<noteq> n \<longrightarrow> vaccesses g' m = vaccesses g m) \<and>
      dom memo \<subseteq> dom memo1 \<and> dom memo1 \<subseteq> dom memo' \<and>
      (\<forall>i\<in>set (partition_indices (piecewise e)) \<union> set (partition_indices (varying e)).
         memo' (V e ! i) \<noteq> None) \<and>
      (\<forall>x. x \<notin> (\<lambda>i. V e ! i) ` set (partition_indices (varying e)) \<longrightarrow>
           memo' x = memo1 x)"
proof -
  from assms obtain b1 g1 u where
    1: "generate_unstructured_partition self n Piecewise g = Inr (b1, g1)" and
    5: "generate_unstructured_partition self n Varying g1 = Inr (u, g')"
    by (rule generate_num_points_unfold)
  from generate_unstructured_partition_effect [OF 1] obtain e memo memo1 where
    a: "lookup (expr_irs (gen_ir self)) n = Inr e"
       "vaccesses g n = Some memo" "vaccesses g1 n = Some memo1"
       "\<forall>m. m \<noteq> n \<longrightarrow> vaccesses g1 m = vaccesses g m"
       "\<forall>i\<in>set (partition_indices (piecewise e)). memo1 (V e ! i) \<noteq> None"
       "dom memo \<subseteq> dom memo1"
    by (auto simp: expr_ir_partition_def)
  from generate_unstructured_partition_effect [OF 5] a(1,3) obtain memo' where
    b: "vaccesses g' n = Some memo'"
       "\<forall>m. m \<noteq> n \<longrightarrow> vaccesses g' m = vaccesses g1 m"
       "\<forall>i\<in>set (partition_indices (varying e)). memo' (V e ! i) \<noteq> None"
       "\<forall>x. x \<notin> (\<lambda>i. V e ! i) ` set (partition_indices (varying e)) \<longrightarrow> memo' x = memo1 x"
       "dom memo1 \<subseteq> dom memo'"
    by (auto simp: expr_ir_partition_def)
  have c: "\<forall>i\<in>set (partition_indices (piecewise e)) \<union> set (partition_indices (varying e)).
         memo' (V e ! i) \<noteq> None"
  proof
    fix i assume "i \<in> set (partition_indices (piecewise e)) \<union> set (partition_indices (varying e))"
    then consider "i \<in> set (partition_indices (varying e))"
      | "i \<in> set (partition_indices (piecewise e))" by auto
    then show "memo' (V e ! i) \<noteq> None"
    proof cases
      case 1
      with b(3) show ?thesis by blast
    next
      case 2
      with a(5) have "V e ! i \<in> dom memo1" by auto
      with b(5) have "V e ! i \<in> dom memo'" by blast
      then show ?thesis by auto
    qed
  qed
  have d: "\<forall>m. m \<noteq> n \<longrightarrow> vaccesses g' m = vaccesses g m"
    using a(4) b(2) by simp
  from a(1,2) 1 a(3) 5 b(1) d a(6) b(5) c b(4) show ?thesis by blast
qed

lemma partition_step_local:
  assumes "partition_step self symbol Vs ranges n i st = Inr st'"
    and "p_definitions st2 = p_definitions st" "p_intermediates st2 = p_intermediates st"
    and "p_vaccesses st2 = p_vaccesses st"
  shows "\<exists>st2'. partition_step self symbol Vs ranges n i st2 = Inr st2' \<and>
           p_definitions st2' = p_definitions st' \<and>
           p_intermediates st2' = p_intermediates st' \<and>
           p_vaccesses st2' = p_vaccesses st'"
  using assms
  by (auto simp: partition_step_def Let_def
      split: sum.splits ufl_expr.splits if_splits)

lemma partition_loop_local:
  "partition_loop self symbol Vs ranges n idxs st = Inr st' \<Longrightarrow>
   p_definitions st2 = p_definitions st \<Longrightarrow> p_intermediates st2 = p_intermediates st \<Longrightarrow>
   p_vaccesses st2 = p_vaccesses st \<Longrightarrow>
   \<exists>st2'. partition_loop self symbol Vs ranges n idxs st2 = Inr st2' \<and>
           p_definitions st2' = p_definitions st' \<and>
           p_intermediates st2' = p_intermediates st' \<and>
           p_vaccesses st2' = p_vaccesses st'"
proof (induction idxs arbitrary: st st2)
  case Nil
  then show ?case by simp
next
  case (Cons i idxs)
  from Cons.prems(1) obtain s1 where
    step: "partition_step self symbol Vs ranges n i st = Inr s1" and
    rest: "partition_loop self symbol Vs ranges n idxs s1 = Inr st'"
    by (auto split: sum.splits)
  from partition_step_local [OF step Cons.prems(2-4)] obtain t1 where
    t1: "partition_step self symbol Vs ranges n i st2 = Inr t1"
      "p_definitions t1 = p_definitions s1" "p_intermediates t1 = p_intermediates s1"
      "p_vaccesses t1 = p_vaccesses s1"
    by blast
  from Cons.IH [OF rest t1(2-4)] t1(1) show ?case by simp
qed

lemma generate_partition_local:
  assumes "generate_partition self symbol Vs flags ranges n g = Inr (parts, g')"
    and "vaccesses h n = vaccesses g n"
  shows "\<exists>h'. generate_partition self symbol Vs flags ranges n h = Inr (parts, h') \<and>
           vaccesses h' n = vaccesses g' n"
proof -
  from assms(1) obtain memo st where
    memo: "vaccesses g n = Some memo" and
    st: "partition_loop self symbol Vs ranges n (partition_indices flags)
       \<lparr>p_definitions = [], p_intermediates = [], p_vaccesses = memo,
        p_ufl_names = ufl_names g\<rparr> = Inr st" and
    g': "g' = g\<lparr>vaccesses := (vaccesses g)(n \<mapsto> p_vaccesses st), ufl_names := p_ufl_names st\<rparr>" and
    parts: "parts = p_definitions st @
       (if p_intermediates st = [] then []
        else ArrayDecl ''double'' symbol [length (p_intermediates st)] None
               (alignas (gen_ir self)) # p_intermediates st)"
    by (rule generate_partition_unfold)
  from partition_loop_local [OF st, of "\<lparr>p_definitions = [], p_intermediates = [],
        p_vaccesses = memo, p_ufl_names = ufl_names h\<rparr>"]
  obtain st2 where
    st2: "partition_loop self symbol Vs ranges n (partition_indices flags)
       \<lparr>p_definitions = [], p_intermediates = [], p_vaccesses = memo,
        p_ufl_names = ufl_names h\<rparr> = Inr st2"
      "p_definitions st2 = p_definitions st" "p_intermediates st2 = p_intermediates st"
      "p_vaccesses st2 = p_vaccesses st"
    by auto
  show ?thesis
    using assms(2) memo st2 parts g'
    by (simp add: generate_partition_def Let_def)
qed

lemma generate_unstructured_partition_local:
  assumes "generate_unstructured_partition self n p g = Inr (parts, g')"
    and "vaccesses h n = vaccesses g n"
  shows "\<exists>h'. generate_unstructured_partition self n p h = Inr (parts, h') \<and>
           vaccesses h' n = vaccesses g' n"
proof -
  from assms(1) obtain e parts0 where
    e: "lookup (expr_irs (gen_ir self)) n = Inr e" and
    gp: "generate_partition self
       (Symbol ((case p of Piecewise \<Rightarrow> ''sp'' | Varying \<Rightarrow> ''sv'') @ str_nat n))
       (V e) (expr_ir_partition e p) (table_ranges e) n g = Inr (parts0, g')" and
    parts: "parts = commented_code_list parts0
               [''Unstructured '' @ partition_name p @ '' computations'']"
    by (rule generate_unstructured_partition_unfold)
  from generate_partition_local [OF gp assms(2)] obtain h' where
    "generate_partition self
       (Symbol ((case p of Piecewise \<Rightarrow> ''sp'' | Varying \<Rightarrow> ''sv'') @ str_nat n))
       (V e) (expr_ir_partition e p) (table_ranges e) n h = Inr (parts0, h')"
    "vaccesses h' n = vaccesses g' n" by blast
  with e parts show ?thesis
    by (simp add: generate_unstructured_partition_def Let_def)
qed

lemma generate_dofblock_partition_local:
  "vaccesses h n = vaccesses g n \<Longrightarrow>
   generate_dofblock_partition self n p h = generate_dofblock_partition self n p g"
  unfolding generate_dofblock_partition_def by (simp split: sum.split)

lemma generate_num_points_local:
  assumes "generate_num_points self multiple n g = Inr (parts, g')"
    and "vaccesses h n = vaccesses g n"
  shows "\<exists>h'. generate_num_points self multiple n h = Inr (parts, h') \<and>
           vaccesses h' n = vaccesses g' n"
proof -
  from assms(1) obtain b1 g1 b2 u blocks b3 where
    1: "generate_unstructured_partition self n Piecewise g = Inr (b1, g1)" and
    2: "generate_dofblock_partition self n Piecewise g1 = Inr b2" and
    3: "generate_unstructured_partition self n Varying g1 = Inr (u, g')" and
    4: "generate_dofblock_partition self n Varying g' = Inr blocks" and
    5: "generate_quadrature_loops self n g1 = Inr (b3, g')" and
    6: "parts = (if multiple then [Scope (b1 @ b2 @ b3)] else b1 @ b2 @ b3)"
    by (rule generate_num_points_unfold)
  from generate_unstructured_partition_local [OF 1 assms(2)] obtain h1 where
    h1: "generate_unstructured_partition self n Piecewise h = Inr (b1, h1)"
        "vaccesses h1 n = vaccesses g1 n" by blast
  from generate_unstructured_partition_local [OF 3 h1(2)] obtain h' where
    h': "generate_unstructured_partition self n Varying h1 = Inr (u, h')"
        "vaccesses h' n = vaccesses g' n" by blast
  have d1: "generate_dofblock_partition self n Piecewise h1 = Inr b2"
    using 2 generate_dofblock_partition_local [OF h1(2)] by simp
  have d2: "generate_dofblock_partition self n Varying h' = Inr blocks"
    using 4 generate_dofblock_partition_local [OF h'(2)] by simp
  have q: "generate_quadrature_loops self n h1 = Inr (b3, h')"
    using 5 3 4 h'(1) d2
    by (auto simp: generate_quadrature_loops_def Let_def split: if_splits)
  show ?thesis
    using h1(1) d1 q 6 h'(2) by (simp add: generate_num_points_def Let_def)
qed

lemma distinct_nth_notin_take:
  "distinct xs \<Longrightarrow> k < length xs \<Longrightarrow> xs ! k \<notin> set (take k xs)"
  by (auto simp: in_set_conv_nth nth_eq_iff_index_eq)

lemma generate_loop_chain:
  "generate_loop self multiple nps g = Inr (parts, g') \<Longrightarrow>
   \<exists>bodies gs. parts = concat bodies \<and> length bodies = length nps \<and>
     length gs = Suc (length nps) \<and> gs ! 0 = g \<and> gs ! length nps = g' \<and>
     (\<forall>k<length nps. generate_num_points self multiple (nps ! k) (gs ! k) =
                        Inr (bodies ! k, gs ! Suc k)) \<and>
     (\<forall>k\<le>length nps. \<forall>m. m \<notin> set (take k nps) \<longrightarrow> vaccesses (gs ! k) m = vaccesses g m)"
proof (induction nps arbitrary: g parts)
  case Nil
  then show ?case
    by (intro exI [of _ "[]"] exI [of _ "[g]"]) simp
next
  case (Cons n nps)
  from Cons.prems(1) obtain p1 g1 p2 where
    1: "generate_num_points self multiple n g = Inr (p1, g1)" and
    2: "generate_loop self multiple nps g1 = Inr (p2, g')" and
    p: "parts = p1 @ p2"
    by (auto split: sum.splits prod.splits)
  from generate_num_points_frame [OF 1]
  have fr: "\<forall>m. m \<noteq> n \<longrightarrow> vaccesses g1 m = vaccesses g m" by simp
  from Cons.IH [OF 2] obtain bodies gs where
    b: "p2 = concat bodies" "length bodies = length nps" "length gs = Suc (length nps)"
       "gs ! 0 = g1" "gs ! length nps = g'"
       "\<forall>k<length nps. generate_num_points self multiple (nps ! k) (gs ! k) =
                        Inr (bodies ! k, gs ! Suc k)"
       "\<forall>k\<le>length nps. \<forall>m. m \<notin> set (take k nps) \<longrightarrow> vaccesses (gs ! k) m = vaccesses g1 m"
    by blast
  have c1: "parts = concat (p1 # bodies)" "length (p1 # bodies) = length (n # nps)"
    "length (g # gs) = Suc (length (n # nps))" "(g # gs) ! 0 = g"
    "(g # gs) ! length (n # nps) = g'"
    using p b(1,2,3,5) by simp_all
  have c2: "\<forall>k<length (n # nps).
      generate_num_points self multiple ((n # nps) ! k) ((g # gs) ! k) =
        Inr ((p1 # bodies) ! k, (g # gs) ! Suc k)"
  proof (intro allI impI)
    fix k assume k: "k < length (n # nps)"
    show "generate_num_points self multiple ((n # nps) ! k) ((g # gs) ! k) =
        Inr ((p1 # bodies) ! k, (g # gs) ! Suc k)"
    proof (cases k)
      case 0
      with 1 b(4) show ?thesis by simp
    next
      case (Suc j)
      with k b(6) show ?thesis by simp
    qed
  qed
  have c3: "\<forall>k\<le>length (n # nps). \<forall>m. m \<notin> set (take k (n # nps)) \<longrightarrow>
      vaccesses ((g # gs) ! k) m = vaccesses g m"
  proof (intro allI impI)
    fix k m assume k: "k \<le> length (n # nps)" and m: "m \<notin> set (take k (n # nps))"
    show "vaccesses ((g # gs) ! k) m = vaccesses g m"
    proof (cases k)
      case 0
      then show ?thesis by simp
    next
      case (Suc j)
      with k m have "j \<le> length nps" "m \<noteq> n" "m \<notin> set (take j nps)" by simp_all
      with b(7) fr Suc show ?thesis by simp
    qed
  qed
  from c1 c2 c3 show ?case by blast
qed

lemma generate_effect:
  assumes "generate self ginit = Inr (code, gfin)"
    and "distinct (map fst (expr_irs (gen_ir self)))"
  shows "\<exists>tables bodies gs.
      generate_quadrature_tables self = Inr tables \<and>
      code = StatementList
            (tables @ generate_element_tables self @ generate_tensor_reset self @
             concat bodies) \<and>
      length bodies = length (sorted_keys (expr_irs (gen_ir self))) \<and>
      length gs = Suc (length (sorted_keys (expr_irs (gen_ir self)))) \<and>
      gs ! 0 = reset_vaccesses (sorted_keys (expr_irs (gen_ir self))) ginit \<and>
      gs ! length (sorted_keys (expr_irs (gen_ir self))) = gfin \<and>
      (\<forall>k<length (sorted_keys (expr_irs (gen_ir self))).
         vaccesses (gs ! k) (sorted_keys (expr_irs (gen_ir self)) ! k) = Some Map.empty \<and>
         generate_num_points self (1 < length (sorted_keys (expr_irs (gen_ir self))))
           (sorted_keys (expr_irs (gen_ir self)) ! k) (gs ! k) =
             Inr (bodies ! k, gs ! Suc k) \<and>
         (\<forall>h. vaccesses h (sorted_keys (expr_irs (gen_ir self)) ! k) = Some Map.empty \<longrightarrow>
           (\<exists>hk. generate_num_points self
                    (1 < length (sorted_keys (expr_irs (gen_ir self))))
                    (sorted_keys (expr_irs (gen_ir self)) ! k) h = Inr (bodies ! k, hk))))"
proof -
  let ?nps = "sorted_keys (expr_irs (gen_ir self))"
  from assms(1) obtain tables bs where
    t: "generate_quadrature_tables self = Inr tables" and
    l: "generate_loop self (1 < length ?nps) ?nps (reset_vaccesses ?nps ginit) = Inr (bs, gfin)" and
    s: "code = StatementList
            (tables @ generate_element_tables self @ generate_tensor_reset self @ bs)"
    by (auto simp: generate_def Let_def generate_finishing_statements_def error_def
        split: sum.splits prod.splits if_splits)
  from assms(2) have d: "distinct ?nps" by (simp add: sorted_keys_def)
  from generate_loop_chain [OF l] obtain bodies gs where
    b: "bs = concat bodies" "length bodies = length ?nps" "length gs = Suc (length ?nps)"
       "gs ! 0 = reset_vaccesses ?nps ginit" "gs ! length ?nps = gfin"
       "\<forall>k<length ?nps. generate_num_points self (1 < length ?nps) (?nps ! k) (gs ! k) =
                        Inr (bodies ! k, gs ! Suc k)"
       "\<forall>k\<le>length ?nps. \<forall>m. m \<notin> set (take k ?nps) \<longrightarrow>
           vaccesses (gs ! k) m = vaccesses (reset_vaccesses ?nps ginit) m"
    by blast
  have e: "vaccesses (gs ! k) (?nps ! k) = Some Map.empty" if "k < length ?nps" for k
  proof -
    from distinct_nth_notin_take [OF d that] b(7) that
    have "vaccesses (gs ! k) (?nps ! k) = vaccesses (reset_vaccesses ?nps ginit) (?nps ! k)"
      by simp
    with that show ?thesis by (simp add: reset_vaccesses_def)
  qed
  have f: "\<exists>hk. generate_num_points self (1 < length ?nps) (?nps ! k) h = Inr (bodies ! k, hk)"
    if "k < length ?nps" "vaccesses h (?nps ! k) = Some Map.empty" for k h
  proof -
    from that b(6) have r: "generate_num_points self (1 < length ?nps) (?nps ! k) (gs ! k) =
        Inr (bodies ! k, gs ! Suc k)" by simp
    from e [OF that(1)] that(2) have "vaccesses h (?nps ! k) = vaccesses (gs ! k) (?nps ! k)"
      by simp
    from generate_num_points_local [OF r this] show ?thesis by blast
  qed
  have g: "\<forall>k<length ?nps.
         vaccesses (gs ! k) (?nps ! k) = Some Map.empty \<and>
         generate_num_points self (1 < length ?nps) (?nps ! k) (gs ! k) =
             Inr (bodies ! k, gs ! Suc k) \<and>
         (\<forall>h. vaccesses h (?nps ! k) = Some Map.empty \<longrightarrow>
           (\<exists>hk. generate_num_points self (1 < length ?nps) (?nps ! k) h =
                    Inr (bodies ! k, hk)))"
    using e f b(6) by blast
  from t s b(1-5) g show ?thesis by blast
qed

text \<open>
  C8. At an active operator node whose operands have memoized accesses, the translation
  is applied to those accesses. A condition is inlined: no intermediate is added, and the
  memo maps the node to the translated expression. Any other operator is assigned to the
  next slot of the intermediate array, and the memo maps the node to that slot. Over a
  whole partition the number of new slots is the number of active operators that are not
  conditions, every visited node ends memoized, and the other entries of the memo are
  kept.

  A successful \<open>generate_partition\<close> starts from the memo of its number of points and
  stores the extended memo back under that number, leaving the other numbers alone. Its
  code is the definitions followed, when there are intermediates, by the declaration of
  the array and the assignments; there is one assignment for each active operator that is
  not a condition, and the assignment number \<open>k\<close> writes slot \<open>k\<close>. For an active operator
  at a position of the partition, the operands are read from the memo as the preceding
  positions left it; a condition gets no assignment and is memoized as its translated
  expression, any other operator is assigned to the slot that counts the preceding
  operators that are not conditions and is memoized as that slot (the memo entry is
  stated for a node that is not visited again later in the partition).

  Processing one number of quadrature points runs the piecewise partition and then the
  varying partition on the same memo: what the piecewise partition memoized is still
  there for the varying partition, every node active in either ends memoized, and the
  memos of the other numbers are untouched.

  \<open>generate\<close> starts from one empty memo per number of points, so (the numbers being
  distinct, as the keys of a dictionary are) the memo of a number is empty when its
  processing begins, and the code generated for it is the code generated from any state
  whose memo for that number is empty.
\<close>

theorem partition_intermediates_and_memo:
  "(item Vs i = Inr (Operator name True ops) \<and>
    operand_accesses (p_vaccesses st) ops = Inr vops \<longrightarrow>
      partition_step self symbol Vs ranges num_points i st =
        Inr (st\<lparr>p_vaccesses := (p_vaccesses st)
                    (Operator name True ops \<mapsto>
                       ufl_to_language (gen_backend self) (Operator name True ops) vops),
                p_ufl_names := insert name (p_ufl_names st)\<rparr>)) \<and>
   (item Vs i = Inr (Operator name False ops) \<and>
    operand_accesses (p_vaccesses st) ops = Inr vops \<longrightarrow>
      partition_step self symbol Vs ranges num_points i st =
        Inr (st\<lparr>p_intermediates := p_intermediates st @
                    [Assign
                       (ArrayAccess symbol [LiteralInt (int (length (p_intermediates st)))])
                       (ufl_to_language (gen_backend self) (Operator name False ops) vops)],
                p_vaccesses := (p_vaccesses st)
                    (Operator name False ops \<mapsto>
                       ArrayAccess symbol [LiteralInt (int (length (p_intermediates st)))]),
                p_ufl_names := insert name (p_ufl_names st)\<rparr>)) \<and>
   (partition_loop self symbol Vs ranges num_points idxs st = Inr st' \<longrightarrow>
      length (p_intermediates st') =
        length (p_intermediates st) +
        length (filter
                  (\<lambda>i. case Vs ! i of Operator _ c _ \<Rightarrow> \<not> c | ModifiedTerminal _ \<Rightarrow> False)
                  idxs) \<and>
      (\<forall>i\<in>set idxs. p_vaccesses st' (Vs ! i) \<noteq> None) \<and>
      (\<forall>u. u \<notin> (\<lambda>i. Vs ! i) ` set idxs \<longrightarrow> p_vaccesses st' u = p_vaccesses st u)) \<and>
   (generate_partition self symbol Vs flags ranges num_points gp = Inr (pparts, gp') \<longrightarrow>
      (\<exists>memo memo' defs ints.
      vaccesses gp num_points = Some memo \<and> vaccesses gp' num_points = Some memo' \<and>
      (\<forall>m. m \<noteq> num_points \<longrightarrow> vaccesses gp' m = vaccesses gp m) \<and>
      pparts = defs @
        (if ints = [] then []
         else ArrayDecl ''double'' symbol [length ints] None (alignas (gen_ir self)) # ints) \<and>
      length ints =
        length (filter (\<lambda>i. case Vs ! i of Operator _ c _ \<Rightarrow> \<not> c
                             | ModifiedTerminal _ \<Rightarrow> False) (partition_indices flags)) \<and>
      (\<forall>k<length ints. \<exists>e. ints ! k = Assign (ArrayAccess symbol [LiteralInt (int k)]) e) \<and>
      (\<forall>i\<in>set (partition_indices flags). memo' (Vs ! i) \<noteq> None) \<and>
      (\<forall>u. u \<notin> (\<lambda>i. Vs ! i) ` set (partition_indices flags) \<longrightarrow> memo' u = memo u) \<and>
      dom memo \<subseteq> dom memo' \<and>
      (\<forall>pre i post name c ops.
         partition_indices flags = pre @ i # post \<and> Vs ! i = Operator name c ops \<longrightarrow>
         (\<exists>st vops.
            partition_loop self symbol Vs ranges num_points pre
              \<lparr>p_definitions = [], p_intermediates = [], p_vaccesses = memo,
               p_ufl_names = ufl_names gp\<rparr> = Inr st \<and>
            operand_accesses (p_vaccesses st) ops = Inr vops \<and>
            (c \<longrightarrow>
               (Vs ! i \<notin> (\<lambda>i. Vs ! i) ` set post \<longrightarrow>
                  memo' (Vs ! i) = Some (ufl_to_language (gen_backend self) (Vs ! i) vops))) \<and>
            (\<not> c \<longrightarrow>
               ints ! length (filter (\<lambda>i. case Vs ! i of Operator _ c _ \<Rightarrow> \<not> c
                                          | ModifiedTerminal _ \<Rightarrow> False) pre) =
                 Assign
                   (ArrayAccess symbol
                      [LiteralInt (int (length (filter
                         (\<lambda>i. case Vs ! i of Operator _ c _ \<Rightarrow> \<not> c
                               | ModifiedTerminal _ \<Rightarrow> False) pre)))])
                   (ufl_to_language (gen_backend self) (Vs ! i) vops) \<and>
               (Vs ! i \<notin> (\<lambda>i. Vs ! i) ` set post \<longrightarrow>
                  memo' (Vs ! i) =
                    Some (ArrayAccess symbol
                      [LiteralInt (int (length (filter
                         (\<lambda>i. case Vs ! i of Operator _ c _ \<Rightarrow> \<not> c
                               | ModifiedTerminal _ \<Rightarrow> False) pre)))]))))))) \<and>
   (generate_num_points self multiple n g = Inr (parts, g') \<longrightarrow>
      (\<exists>e memo memo1 memo' b g1 u.
      lookup (expr_irs (gen_ir self)) n = Inr e \<and>
      vaccesses g n = Some memo \<and>
      generate_unstructured_partition self n Piecewise g = Inr (b, g1) \<and>
      vaccesses g1 n = Some memo1 \<and>
      generate_unstructured_partition self n Varying g1 = Inr (u, g') \<and>
      vaccesses g' n = Some memo' \<and>
      (\<forall>m. m \<noteq> n \<longrightarrow> vaccesses g' m = vaccesses g m) \<and>
      dom memo \<subseteq> dom memo1 \<and> dom memo1 \<subseteq> dom memo' \<and>
      (\<forall>i\<in>set (partition_indices (piecewise e)) \<union> set (partition_indices (varying e)).
         memo' (V e ! i) \<noteq> None) \<and>
      (\<forall>x. x \<notin> (\<lambda>i. V e ! i) ` set (partition_indices (varying e)) \<longrightarrow>
           memo' x = memo1 x))) \<and>
   (generate self ginit = Inr (code, gfin) \<and>
    distinct (map fst (expr_irs (gen_ir self))) \<longrightarrow>
      (\<exists>tables bodies gs.
      generate_quadrature_tables self = Inr tables \<and>
      code = StatementList
            (tables @ generate_element_tables self @ generate_tensor_reset self @
             concat bodies) \<and>
      length bodies = length (sorted_keys (expr_irs (gen_ir self))) \<and>
      length gs = Suc (length (sorted_keys (expr_irs (gen_ir self)))) \<and>
      gs ! 0 = reset_vaccesses (sorted_keys (expr_irs (gen_ir self))) ginit \<and>
      gs ! length (sorted_keys (expr_irs (gen_ir self))) = gfin \<and>
      (\<forall>k<length (sorted_keys (expr_irs (gen_ir self))).
         vaccesses (gs ! k) (sorted_keys (expr_irs (gen_ir self)) ! k) = Some Map.empty \<and>
         generate_num_points self (1 < length (sorted_keys (expr_irs (gen_ir self))))
           (sorted_keys (expr_irs (gen_ir self)) ! k) (gs ! k) =
             Inr (bodies ! k, gs ! Suc k) \<and>
         (\<forall>h. vaccesses h (sorted_keys (expr_irs (gen_ir self)) ! k) = Some Map.empty \<longrightarrow>
           (\<exists>hk. generate_num_points self
                    (1 < length (sorted_keys (expr_irs (gen_ir self))))
                    (sorted_keys (expr_irs (gen_ir self)) ! k) h = Inr (bodies ! k, hk))))))"
proof -
  have 1: "partition_step self symbol Vs ranges num_points i st =
        Inr (st\<lparr>p_vaccesses := (p_vaccesses st)
                    (Operator name True ops \<mapsto>
                       ufl_to_language (gen_backend self) (Operator name True ops) vops),
                p_ufl_names := insert name (p_ufl_names st)\<rparr>)"
    if "item Vs i = Inr (Operator name True ops)"
      and "operand_accesses (p_vaccesses st) ops = Inr vops"
    using partition_step_operator [OF that] by simp
  have 2: "partition_step self symbol Vs ranges num_points i st =
        Inr (st\<lparr>p_intermediates := p_intermediates st @
                    [Assign
                       (ArrayAccess symbol [LiteralInt (int (length (p_intermediates st)))])
                       (ufl_to_language (gen_backend self) (Operator name False ops) vops)],
                p_vaccesses := (p_vaccesses st)
                    (Operator name False ops \<mapsto>
                       ArrayAccess symbol [LiteralInt (int (length (p_intermediates st)))]),
                p_ufl_names := insert name (p_ufl_names st)\<rparr>)"
    if "item Vs i = Inr (Operator name False ops)"
      and "operand_accesses (p_vaccesses st) ops = Inr vops"
    using partition_step_operator [OF that] by simp
  note 3 = partition_loop_effect [of self symbol Vs ranges num_points idxs st st']
  show ?thesis
    apply (rule conjI)
    subgoal by (rule impI, erule conjE) (rule 1)
    apply (rule conjI)
    subgoal by (rule impI, erule conjE) (rule 2)
    apply (rule conjI)
    subgoal using 3 by blast
    apply (rule conjI)
    subgoal by (rule impI) (erule generate_partition_effect)
    apply (rule conjI)
    subgoal by (rule impI) (erule generate_num_points_effect)
    subgoal by (rule impI, erule conjE) (rule generate_effect)
    done
qed

theorem partition_intermediates_and_memo_witness:
  "partition_step \<lparr>gen_ir = \<lparr>integral_type = ''cell'', quadrature_rules = [], expr_irs = [(2, \<lparr>V = [ModifiedTerminal \<lparr>terminal = ''x'', modifiers = [], literal_value = None\<rparr>, Operator ''lt'' True [ModifiedTerminal \<lparr>terminal = ''x'', modifiers = [], literal_value = None\<rparr>], Operator ''sum'' False [ModifiedTerminal \<lparr>terminal = ''x'', modifiers = [], literal_value = None\<rparr>]], piecewise = [True, False, False], varying = [False, True, True], table_ranges = [(0, 1), (0, 1), (0, 1)], need_weights = False, need_points = False, unique_tables = [], modified_arguments = [], block_contributions = (\<lambda>p. [])\<rparr>), (1, \<lparr>V = [ModifiedTerminal \<lparr>terminal = ''x'', modifiers = [], literal_value = None\<rparr>, Operator ''lt'' True [ModifiedTerminal \<lparr>terminal = ''x'', modifiers = [], literal_value = None\<rparr>], Operator ''sum'' False [ModifiedTerminal \<lparr>terminal = ''x'', modifiers = [], literal_value = None\<rparr>]], piecewise = [True, False, False], varying = [False, True, True], table_ranges = [(0, 1), (0, 1), (0, 1)], need_weights = False, need_points = False, unique_tables = [], modified_arguments = [], block_contributions = (\<lambda>p. [])\<rparr>), (3, \<lparr>V = [ModifiedTerminal \<lparr>terminal = ''x'', modifiers = [], literal_value = None\<rparr>, Operator ''lt'' True [ModifiedTerminal \<lparr>terminal = ''x'', modifiers = [], literal_value = None\<rparr>], Operator ''sum'' False [ModifiedTerminal \<lparr>terminal = ''x'', modifiers = [], literal_value = None\<rparr>]], piecewise = [True, True, True], varying = [False, False, False], table_ranges = [(0, 1), (0, 1), (0, 1)], need_weights = False, need_points = False, unique_tables = [], modified_arguments = [], block_contributions = (\<lambda>p. [])\<rparr>)], tensor_shape = [3, 3], alignas = 32\<rparr>, gen_backend = \<lparr>element_tensor = ''A'', weights_array = (\<lambda>n. Symbol ''W''), points_array = (\<lambda>n. Symbol ''P''), quadrature_loop_index = (\<lambda>n. Symbol ''iq''), num_quadrature_points = (\<lambda>n. LiteralInt (int n)), argument_loop_index = (\<lambda>i. Symbol ''ia''), access = (\<lambda>t mt tr n. Symbol t), definitions = (\<lambda>t mt tr n a. []), ufl_to_language = (\<lambda>v ops. Product ops)\<rparr>\<rparr>
     (Symbol ''sv2'') [ModifiedTerminal \<lparr>terminal = ''x'', modifiers = [], literal_value = None\<rparr>, Operator ''lt'' True [ModifiedTerminal \<lparr>terminal = ''x'', modifiers = [], literal_value = None\<rparr>], Operator ''sum'' False [ModifiedTerminal \<lparr>terminal = ''x'', modifiers = [], literal_value = None\<rparr>]] [(0, 1), (0, 1), (0, 1)] 2 1
     \<lparr>p_definitions = [], p_intermediates = [], p_vaccesses = [ModifiedTerminal \<lparr>terminal = ''x'', modifiers = [], literal_value = None\<rparr> \<mapsto> Symbol ''x''], p_ufl_names = {}\<rparr> =
   Inr (\<lparr>p_definitions = [], p_intermediates = [], p_vaccesses = [ModifiedTerminal \<lparr>terminal = ''x'', modifiers = [], literal_value = None\<rparr> \<mapsto> Symbol ''x''], p_ufl_names = {}\<rparr>
          \<lparr>p_vaccesses := [ModifiedTerminal \<lparr>terminal = ''x'', modifiers = [], literal_value = None\<rparr> \<mapsto> Symbol ''x'']
              (Operator ''lt'' True [ModifiedTerminal \<lparr>terminal = ''x'', modifiers = [], literal_value = None\<rparr>] \<mapsto> Product [Symbol ''x'']),
           p_ufl_names := {''lt''}\<rparr>) \<and>
   partition_step \<lparr>gen_ir = \<lparr>integral_type = ''cell'', quadrature_rules = [], expr_irs = [(2, \<lparr>V = [ModifiedTerminal \<lparr>terminal = ''x'', modifiers = [], literal_value = None\<rparr>, Operator ''lt'' True [ModifiedTerminal \<lparr>terminal = ''x'', modifiers = [], literal_value = None\<rparr>], Operator ''sum'' False [ModifiedTerminal \<lparr>terminal = ''x'', modifiers = [], literal_value = None\<rparr>]], piecewise = [True, False, False], varying = [False, True, True], table_ranges = [(0, 1), (0, 1), (0, 1)], need_weights = False, need_points = False, unique_tables = [], modified_arguments = [], block_contributions = (\<lambda>p. [])\<rparr>), (1, \<lparr>V = [ModifiedTerminal \<lparr>terminal = ''x'', modifiers = [], literal_value = None\<rparr>, Operator ''lt'' True [ModifiedTerminal \<lparr>terminal = ''x'', modifiers = [], literal_value = None\<rparr>], Operator ''sum'' False [ModifiedTerminal \<lparr>terminal = ''x'', modifiers = [], literal_value = None\<rparr>]], piecewise = [True, False, False], varying = [False, True, True], table_ranges = [(0, 1), (0, 1), (0, 1)], need_weights = False, need_points = False, unique_tables = [], modified_arguments = [], block_contributions = (\<lambda>p. [])\<rparr>), (3, \<lparr>V = [ModifiedTerminal \<lparr>terminal = ''x'', modifiers = [], literal_value = None\<rparr>, Operator ''lt'' True [ModifiedTerminal \<lparr>terminal = ''x'', modifiers = [], literal_value = None\<rparr>], Operator ''sum'' False [ModifiedTerminal \<lparr>terminal = ''x'', modifiers = [], literal_value = None\<rparr>]], piecewise = [True, True, True], varying = [False, False, False], table_ranges = [(0, 1), (0, 1), (0, 1)], need_weights = False, need_points = False, unique_tables = [], modified_arguments = [], block_contributions = (\<lambda>p. [])\<rparr>)], tensor_shape = [3, 3], alignas = 32\<rparr>, gen_backend = \<lparr>element_tensor = ''A'', weights_array = (\<lambda>n. Symbol ''W''), points_array = (\<lambda>n. Symbol ''P''), quadrature_loop_index = (\<lambda>n. Symbol ''iq''), num_quadrature_points = (\<lambda>n. LiteralInt (int n)), argument_loop_index = (\<lambda>i. Symbol ''ia''), access = (\<lambda>t mt tr n. Symbol t), definitions = (\<lambda>t mt tr n a. []), ufl_to_language = (\<lambda>v ops. Product ops)\<rparr>\<rparr>
     (Symbol ''sv2'') [ModifiedTerminal \<lparr>terminal = ''x'', modifiers = [], literal_value = None\<rparr>, Operator ''lt'' True [ModifiedTerminal \<lparr>terminal = ''x'', modifiers = [], literal_value = None\<rparr>], Operator ''sum'' False [ModifiedTerminal \<lparr>terminal = ''x'', modifiers = [], literal_value = None\<rparr>]] [(0, 1), (0, 1), (0, 1)] 2 2
     \<lparr>p_definitions = [], p_intermediates = [], p_vaccesses = [ModifiedTerminal \<lparr>terminal = ''x'', modifiers = [], literal_value = None\<rparr> \<mapsto> Symbol ''x''], p_ufl_names = {}\<rparr> =
   Inr (\<lparr>p_definitions = [], p_intermediates = [], p_vaccesses = [ModifiedTerminal \<lparr>terminal = ''x'', modifiers = [], literal_value = None\<rparr> \<mapsto> Symbol ''x''], p_ufl_names = {}\<rparr>
          \<lparr>p_intermediates := [Assign (ArrayAccess (Symbol ''sv2'') [LiteralInt 0]) (Product [Symbol ''x''])],
           p_vaccesses := [ModifiedTerminal \<lparr>terminal = ''x'', modifiers = [], literal_value = None\<rparr> \<mapsto> Symbol ''x'']
              (Operator ''sum'' False [ModifiedTerminal \<lparr>terminal = ''x'', modifiers = [], literal_value = None\<rparr>] \<mapsto> ArrayAccess (Symbol ''sv2'') [LiteralInt 0]),
           p_ufl_names := {''sum''}\<rparr>) \<and>
   (\<exists>st'. partition_loop \<lparr>gen_ir = \<lparr>integral_type = ''cell'', quadrature_rules = [], expr_irs = [(2, \<lparr>V = [ModifiedTerminal \<lparr>terminal = ''x'', modifiers = [], literal_value = None\<rparr>, Operator ''lt'' True [ModifiedTerminal \<lparr>terminal = ''x'', modifiers = [], literal_value = None\<rparr>], Operator ''sum'' False [ModifiedTerminal \<lparr>terminal = ''x'', modifiers = [], literal_value = None\<rparr>]], piecewise = [True, False, False], varying = [False, True, True], table_ranges = [(0, 1), (0, 1), (0, 1)], need_weights = False, need_points = False, unique_tables = [], modified_arguments = [], block_contributions = (\<lambda>p. [])\<rparr>), (1, \<lparr>V = [ModifiedTerminal \<lparr>terminal = ''x'', modifiers = [], literal_value = None\<rparr>, Operator ''lt'' True [ModifiedTerminal \<lparr>terminal = ''x'', modifiers = [], literal_value = None\<rparr>], Operator ''sum'' False [ModifiedTerminal \<lparr>terminal = ''x'', modifiers = [], literal_value = None\<rparr>]], piecewise = [True, False, False], varying = [False, True, True], table_ranges = [(0, 1), (0, 1), (0, 1)], need_weights = False, need_points = False, unique_tables = [], modified_arguments = [], block_contributions = (\<lambda>p. [])\<rparr>), (3, \<lparr>V = [ModifiedTerminal \<lparr>terminal = ''x'', modifiers = [], literal_value = None\<rparr>, Operator ''lt'' True [ModifiedTerminal \<lparr>terminal = ''x'', modifiers = [], literal_value = None\<rparr>], Operator ''sum'' False [ModifiedTerminal \<lparr>terminal = ''x'', modifiers = [], literal_value = None\<rparr>]], piecewise = [True, True, True], varying = [False, False, False], table_ranges = [(0, 1), (0, 1), (0, 1)], need_weights = False, need_points = False, unique_tables = [], modified_arguments = [], block_contributions = (\<lambda>p. [])\<rparr>)], tensor_shape = [3, 3], alignas = 32\<rparr>, gen_backend = \<lparr>element_tensor = ''A'', weights_array = (\<lambda>n. Symbol ''W''), points_array = (\<lambda>n. Symbol ''P''), quadrature_loop_index = (\<lambda>n. Symbol ''iq''), num_quadrature_points = (\<lambda>n. LiteralInt (int n)), argument_loop_index = (\<lambda>i. Symbol ''ia''), access = (\<lambda>t mt tr n. Symbol t), definitions = (\<lambda>t mt tr n a. []), ufl_to_language = (\<lambda>v ops. Product ops)\<rparr>\<rparr>
      (Symbol ''sv2'') [ModifiedTerminal \<lparr>terminal = ''x'', modifiers = [], literal_value = None\<rparr>, Operator ''lt'' True [ModifiedTerminal \<lparr>terminal = ''x'', modifiers = [], literal_value = None\<rparr>], Operator ''sum'' False [ModifiedTerminal \<lparr>terminal = ''x'', modifiers = [], literal_value = None\<rparr>]] [(0, 1), (0, 1), (0, 1)] 2 [0, 1, 2]
      \<lparr>p_definitions = [], p_intermediates = [], p_vaccesses = Map.empty, p_ufl_names = {}\<rparr> = Inr st' \<and>
      length (p_intermediates st') = 1 \<and>
      p_vaccesses st' (Operator ''lt'' True [ModifiedTerminal \<lparr>terminal = ''x'', modifiers = [], literal_value = None\<rparr>]) \<noteq> None) \<and>
   (\<exists>pparts gp' memo'. generate_partition \<lparr>gen_ir = \<lparr>integral_type = ''cell'', quadrature_rules = [], expr_irs = [(2, \<lparr>V = [ModifiedTerminal \<lparr>terminal = ''x'', modifiers = [], literal_value = None\<rparr>, Operator ''lt'' True [ModifiedTerminal \<lparr>terminal = ''x'', modifiers = [], literal_value = None\<rparr>], Operator ''sum'' False [ModifiedTerminal \<lparr>terminal = ''x'', modifiers = [], literal_value = None\<rparr>]], piecewise = [True, False, False], varying = [False, True, True], table_ranges = [(0, 1), (0, 1), (0, 1)], need_weights = False, need_points = False, unique_tables = [], modified_arguments = [], block_contributions = (\<lambda>p. [])\<rparr>), (1, \<lparr>V = [ModifiedTerminal \<lparr>terminal = ''x'', modifiers = [], literal_value = None\<rparr>, Operator ''lt'' True [ModifiedTerminal \<lparr>terminal = ''x'', modifiers = [], literal_value = None\<rparr>], Operator ''sum'' False [ModifiedTerminal \<lparr>terminal = ''x'', modifiers = [], literal_value = None\<rparr>]], piecewise = [True, False, False], varying = [False, True, True], table_ranges = [(0, 1), (0, 1), (0, 1)], need_weights = False, need_points = False, unique_tables = [], modified_arguments = [], block_contributions = (\<lambda>p. [])\<rparr>), (3, \<lparr>V = [ModifiedTerminal \<lparr>terminal = ''x'', modifiers = [], literal_value = None\<rparr>, Operator ''lt'' True [ModifiedTerminal \<lparr>terminal = ''x'', modifiers = [], literal_value = None\<rparr>], Operator ''sum'' False [ModifiedTerminal \<lparr>terminal = ''x'', modifiers = [], literal_value = None\<rparr>]], piecewise = [True, True, True], varying = [False, False, False], table_ranges = [(0, 1), (0, 1), (0, 1)], need_weights = False, need_points = False, unique_tables = [], modified_arguments = [], block_contributions = (\<lambda>p. [])\<rparr>)], tensor_shape = [3, 3], alignas = 32\<rparr>, gen_backend = \<lparr>element_tensor = ''A'', weights_array = (\<lambda>n. Symbol ''W''), points_array = (\<lambda>n. Symbol ''P''), quadrature_loop_index = (\<lambda>n. Symbol ''iq''), num_quadrature_points = (\<lambda>n. LiteralInt (int n)), argument_loop_index = (\<lambda>i. Symbol ''ia''), access = (\<lambda>t mt tr n. Symbol t), definitions = (\<lambda>t mt tr n a. []), ufl_to_language = (\<lambda>v ops. Product ops)\<rparr>\<rparr>
      (Symbol ''sp3'') [ModifiedTerminal \<lparr>terminal = ''x'', modifiers = [], literal_value = None\<rparr>, Operator ''lt'' True [ModifiedTerminal \<lparr>terminal = ''x'', modifiers = [], literal_value = None\<rparr>], Operator ''sum'' False [ModifiedTerminal \<lparr>terminal = ''x'', modifiers = [], literal_value = None\<rparr>]] [True, True, True] [(0, 1), (0, 1), (0, 1)] 3
      (reset_vaccesses [1, 2, 3] \<lparr>vaccesses = Map.empty, ufl_names = {}\<rparr>) = Inr (pparts, gp') \<and>
      vaccesses gp' 3 = Some memo' \<and>
      memo' (Operator ''lt'' True [ModifiedTerminal \<lparr>terminal = ''x'', modifiers = [], literal_value = None\<rparr>]) = Some (Product [Symbol ''x'']) \<and>
      memo' (Operator ''sum'' False [ModifiedTerminal \<lparr>terminal = ''x'', modifiers = [], literal_value = None\<rparr>]) = Some (ArrayAccess (Symbol ''sp3'') [LiteralInt 0]) \<and>
      vaccesses gp' 2 = Some Map.empty) \<and>
   (\<exists>parts g' memo'. generate_num_points \<lparr>gen_ir = \<lparr>integral_type = ''cell'', quadrature_rules = [], expr_irs = [(2, \<lparr>V = [ModifiedTerminal \<lparr>terminal = ''x'', modifiers = [], literal_value = None\<rparr>, Operator ''lt'' True [ModifiedTerminal \<lparr>terminal = ''x'', modifiers = [], literal_value = None\<rparr>], Operator ''sum'' False [ModifiedTerminal \<lparr>terminal = ''x'', modifiers = [], literal_value = None\<rparr>]], piecewise = [True, False, False], varying = [False, True, True], table_ranges = [(0, 1), (0, 1), (0, 1)], need_weights = False, need_points = False, unique_tables = [], modified_arguments = [], block_contributions = (\<lambda>p. [])\<rparr>), (1, \<lparr>V = [ModifiedTerminal \<lparr>terminal = ''x'', modifiers = [], literal_value = None\<rparr>, Operator ''lt'' True [ModifiedTerminal \<lparr>terminal = ''x'', modifiers = [], literal_value = None\<rparr>], Operator ''sum'' False [ModifiedTerminal \<lparr>terminal = ''x'', modifiers = [], literal_value = None\<rparr>]], piecewise = [True, False, False], varying = [False, True, True], table_ranges = [(0, 1), (0, 1), (0, 1)], need_weights = False, need_points = False, unique_tables = [], modified_arguments = [], block_contributions = (\<lambda>p. [])\<rparr>), (3, \<lparr>V = [ModifiedTerminal \<lparr>terminal = ''x'', modifiers = [], literal_value = None\<rparr>, Operator ''lt'' True [ModifiedTerminal \<lparr>terminal = ''x'', modifiers = [], literal_value = None\<rparr>], Operator ''sum'' False [ModifiedTerminal \<lparr>terminal = ''x'', modifiers = [], literal_value = None\<rparr>]], piecewise = [True, True, True], varying = [False, False, False], table_ranges = [(0, 1), (0, 1), (0, 1)], need_weights = False, need_points = False, unique_tables = [], modified_arguments = [], block_contributions = (\<lambda>p. [])\<rparr>)], tensor_shape = [3, 3], alignas = 32\<rparr>, gen_backend = \<lparr>element_tensor = ''A'', weights_array = (\<lambda>n. Symbol ''W''), points_array = (\<lambda>n. Symbol ''P''), quadrature_loop_index = (\<lambda>n. Symbol ''iq''), num_quadrature_points = (\<lambda>n. LiteralInt (int n)), argument_loop_index = (\<lambda>i. Symbol ''ia''), access = (\<lambda>t mt tr n. Symbol t), definitions = (\<lambda>t mt tr n a. []), ufl_to_language = (\<lambda>v ops. Product ops)\<rparr>\<rparr> True 1
      (reset_vaccesses [1, 2, 3] \<lparr>vaccesses = Map.empty, ufl_names = {}\<rparr>) = Inr (parts, g') \<and>
      vaccesses g' 1 = Some memo' \<and>
      memo' (ModifiedTerminal \<lparr>terminal = ''x'', modifiers = [], literal_value = None\<rparr>) \<noteq> None \<and> memo' (Operator ''lt'' True [ModifiedTerminal \<lparr>terminal = ''x'', modifiers = [], literal_value = None\<rparr>]) \<noteq> None \<and> memo' (Operator ''sum'' False [ModifiedTerminal \<lparr>terminal = ''x'', modifiers = [], literal_value = None\<rparr>]) \<noteq> None \<and>
      vaccesses g' 2 = Some Map.empty) \<and>
   (\<exists>code gfin bodies gs. generate \<lparr>gen_ir = \<lparr>integral_type = ''cell'', quadrature_rules = [], expr_irs = [(2, \<lparr>V = [ModifiedTerminal \<lparr>terminal = ''x'', modifiers = [], literal_value = None\<rparr>, Operator ''lt'' True [ModifiedTerminal \<lparr>terminal = ''x'', modifiers = [], literal_value = None\<rparr>], Operator ''sum'' False [ModifiedTerminal \<lparr>terminal = ''x'', modifiers = [], literal_value = None\<rparr>]], piecewise = [True, False, False], varying = [False, True, True], table_ranges = [(0, 1), (0, 1), (0, 1)], need_weights = False, need_points = False, unique_tables = [], modified_arguments = [], block_contributions = (\<lambda>p. [])\<rparr>), (1, \<lparr>V = [ModifiedTerminal \<lparr>terminal = ''x'', modifiers = [], literal_value = None\<rparr>, Operator ''lt'' True [ModifiedTerminal \<lparr>terminal = ''x'', modifiers = [], literal_value = None\<rparr>], Operator ''sum'' False [ModifiedTerminal \<lparr>terminal = ''x'', modifiers = [], literal_value = None\<rparr>]], piecewise = [True, False, False], varying = [False, True, True], table_ranges = [(0, 1), (0, 1), (0, 1)], need_weights = False, need_points = False, unique_tables = [], modified_arguments = [], block_contributions = (\<lambda>p. [])\<rparr>), (3, \<lparr>V = [ModifiedTerminal \<lparr>terminal = ''x'', modifiers = [], literal_value = None\<rparr>, Operator ''lt'' True [ModifiedTerminal \<lparr>terminal = ''x'', modifiers = [], literal_value = None\<rparr>], Operator ''sum'' False [ModifiedTerminal \<lparr>terminal = ''x'', modifiers = [], literal_value = None\<rparr>]], piecewise = [True, True, True], varying = [False, False, False], table_ranges = [(0, 1), (0, 1), (0, 1)], need_weights = False, need_points = False, unique_tables = [], modified_arguments = [], block_contributions = (\<lambda>p. [])\<rparr>)], tensor_shape = [3, 3], alignas = 32\<rparr>, gen_backend = \<lparr>element_tensor = ''A'', weights_array = (\<lambda>n. Symbol ''W''), points_array = (\<lambda>n. Symbol ''P''), quadrature_loop_index = (\<lambda>n. Symbol ''iq''), num_quadrature_points = (\<lambda>n. LiteralInt (int n)), argument_loop_index = (\<lambda>i. Symbol ''ia''), access = (\<lambda>t mt tr n. Symbol t), definitions = (\<lambda>t mt tr n a. []), ufl_to_language = (\<lambda>v ops. Product ops)\<rparr>\<rparr>
      \<lparr>vaccesses = Map.empty, ufl_names = {}\<rparr> = Inr (code, gfin) \<and>
      length bodies = 3 \<and>
      vaccesses (gs ! 1) 2 = Some Map.empty \<and>
      generate_num_points \<lparr>gen_ir = \<lparr>integral_type = ''cell'', quadrature_rules = [], expr_irs = [(2, \<lparr>V = [ModifiedTerminal \<lparr>terminal = ''x'', modifiers = [], literal_value = None\<rparr>, Operator ''lt'' True [ModifiedTerminal \<lparr>terminal = ''x'', modifiers = [], literal_value = None\<rparr>], Operator ''sum'' False [ModifiedTerminal \<lparr>terminal = ''x'', modifiers = [], literal_value = None\<rparr>]], piecewise = [True, False, False], varying = [False, True, True], table_ranges = [(0, 1), (0, 1), (0, 1)], need_weights = False, need_points = False, unique_tables = [], modified_arguments = [], block_contributions = (\<lambda>p. [])\<rparr>), (1, \<lparr>V = [ModifiedTerminal \<lparr>terminal = ''x'', modifiers = [], literal_value = None\<rparr>, Operator ''lt'' True [ModifiedTerminal \<lparr>terminal = ''x'', modifiers = [], literal_value = None\<rparr>], Operator ''sum'' False [ModifiedTerminal \<lparr>terminal = ''x'', modifiers = [], literal_value = None\<rparr>]], piecewise = [True, False, False], varying = [False, True, True], table_ranges = [(0, 1), (0, 1), (0, 1)], need_weights = False, need_points = False, unique_tables = [], modified_arguments = [], block_contributions = (\<lambda>p. [])\<rparr>), (3, \<lparr>V = [ModifiedTerminal \<lparr>terminal = ''x'', modifiers = [], literal_value = None\<rparr>, Operator ''lt'' True [ModifiedTerminal \<lparr>terminal = ''x'', modifiers = [], literal_value = None\<rparr>], Operator ''sum'' False [ModifiedTerminal \<lparr>terminal = ''x'', modifiers = [], literal_value = None\<rparr>]], piecewise = [True, True, True], varying = [False, False, False], table_ranges = [(0, 1), (0, 1), (0, 1)], need_weights = False, need_points = False, unique_tables = [], modified_arguments = [], block_contributions = (\<lambda>p. [])\<rparr>)], tensor_shape = [3, 3], alignas = 32\<rparr>, gen_backend = \<lparr>element_tensor = ''A'', weights_array = (\<lambda>n. Symbol ''W''), points_array = (\<lambda>n. Symbol ''P''), quadrature_loop_index = (\<lambda>n. Symbol ''iq''), num_quadrature_points = (\<lambda>n. LiteralInt (int n)), argument_loop_index = (\<lambda>i. Symbol ''ia''), access = (\<lambda>t mt tr n. Symbol t), definitions = (\<lambda>t mt tr n a. []), ufl_to_language = (\<lambda>v ops. Product ops)\<rparr>\<rparr> True 2 (gs ! 1) = Inr (bodies ! 1, gs ! 2))"
proof -
  let ?G = "\<lparr>gen_ir = \<lparr>integral_type = ''cell'', quadrature_rules = [], expr_irs = [(2, \<lparr>V = [ModifiedTerminal \<lparr>terminal = ''x'', modifiers = [], literal_value = None\<rparr>, Operator ''lt'' True [ModifiedTerminal \<lparr>terminal = ''x'', modifiers = [], literal_value = None\<rparr>], Operator ''sum'' False [ModifiedTerminal \<lparr>terminal = ''x'', modifiers = [], literal_value = None\<rparr>]], piecewise = [True, False, False], varying = [False, True, True], table_ranges = [(0, 1), (0, 1), (0, 1)], need_weights = False, need_points = False, unique_tables = [], modified_arguments = [], block_contributions = (\<lambda>p. [])\<rparr>), (1, \<lparr>V = [ModifiedTerminal \<lparr>terminal = ''x'', modifiers = [], literal_value = None\<rparr>, Operator ''lt'' True [ModifiedTerminal \<lparr>terminal = ''x'', modifiers = [], literal_value = None\<rparr>], Operator ''sum'' False [ModifiedTerminal \<lparr>terminal = ''x'', modifiers = [], literal_value = None\<rparr>]], piecewise = [True, False, False], varying = [False, True, True], table_ranges = [(0, 1), (0, 1), (0, 1)], need_weights = False, need_points = False, unique_tables = [], modified_arguments = [], block_contributions = (\<lambda>p. [])\<rparr>), (3, \<lparr>V = [ModifiedTerminal \<lparr>terminal = ''x'', modifiers = [], literal_value = None\<rparr>, Operator ''lt'' True [ModifiedTerminal \<lparr>terminal = ''x'', modifiers = [], literal_value = None\<rparr>], Operator ''sum'' False [ModifiedTerminal \<lparr>terminal = ''x'', modifiers = [], literal_value = None\<rparr>]], piecewise = [True, True, True], varying = [False, False, False], table_ranges = [(0, 1), (0, 1), (0, 1)], need_weights = False, need_points = False, unique_tables = [], modified_arguments = [], block_contributions = (\<lambda>p. [])\<rparr>)], tensor_shape = [3, 3], alignas = 32\<rparr>, gen_backend = \<lparr>element_tensor = ''A'', weights_array = (\<lambda>n. Symbol ''W''), points_array = (\<lambda>n. Symbol ''P''), quadrature_loop_index = (\<lambda>n. Symbol ''iq''), num_quadrature_points = (\<lambda>n. LiteralInt (int n)), argument_loop_index = (\<lambda>i. Symbol ''ia''), access = (\<lambda>t mt tr n. Symbol t), definitions = (\<lambda>t mt tr n a. []), ufl_to_language = (\<lambda>v ops. Product ops)\<rparr>\<rparr>"
  let ?V = "[ModifiedTerminal \<lparr>terminal = ''x'', modifiers = [], literal_value = None\<rparr>, Operator ''lt'' True [ModifiedTerminal \<lparr>terminal = ''x'', modifiers = [], literal_value = None\<rparr>], Operator ''sum'' False [ModifiedTerminal \<lparr>terminal = ''x'', modifiers = [], literal_value = None\<rparr>]]"
  let ?EA = "\<lparr>V = [ModifiedTerminal \<lparr>terminal = ''x'', modifiers = [], literal_value = None\<rparr>, Operator ''lt'' True [ModifiedTerminal \<lparr>terminal = ''x'', modifiers = [], literal_value = None\<rparr>], Operator ''sum'' False [ModifiedTerminal \<lparr>terminal = ''x'', modifiers = [], literal_value = None\<rparr>]], piecewise = [True, False, False], varying = [False, True, True], table_ranges = [(0, 1), (0, 1), (0, 1)], need_weights = False, need_points = False, unique_tables = [], modified_arguments = [], block_contributions = (\<lambda>p. [])\<rparr>"
  let ?st1 = "\<lparr>p_definitions = [], p_intermediates = [], p_vaccesses = [ModifiedTerminal \<lparr>terminal = ''x'', modifiers = [], literal_value = None\<rparr> \<mapsto> Symbol ''x''], p_ufl_names = {}\<rparr>"
  let ?st0 = "\<lparr>p_definitions = [], p_intermediates = [], p_vaccesses = Map.empty, p_ufl_names = {}\<rparr>"
  let ?g0 = "\<lparr>vaccesses = Map.empty, ufl_names = {}\<rparr>"
  let ?gr = "reset_vaccesses [1, 2, 3] ?g0"
  have i1: "item ?V 1 = Inr (Operator ''lt'' True [ModifiedTerminal \<lparr>terminal = ''x'', modifiers = [], literal_value = None\<rparr>])"
    and i2: "item ?V 2 = Inr (Operator ''sum'' False [ModifiedTerminal \<lparr>terminal = ''x'', modifiers = [], literal_value = None\<rparr>])"
    and o: "operand_accesses (p_vaccesses ?st1) [ModifiedTerminal \<lparr>terminal = ''x'', modifiers = [], literal_value = None\<rparr>] = Inr [Symbol ''x'']"
    by (simp_all add: item_def)
  have a: "partition_step ?G (Symbol ''sv2'') ?V [(0, 1), (0, 1), (0, 1)] 2 1 ?st1 =
      Inr (?st1\<lparr>p_vaccesses := [ModifiedTerminal \<lparr>terminal = ''x'', modifiers = [], literal_value = None\<rparr> \<mapsto> Symbol ''x''](Operator ''lt'' True [ModifiedTerminal \<lparr>terminal = ''x'', modifiers = [], literal_value = None\<rparr>] \<mapsto> Product [Symbol ''x'']),
                p_ufl_names := {''lt''}\<rparr>)"
    using partition_intermediates_and_memo [where Vs = ?V and i = 1 and name = "''lt''"
        and ops = "[ModifiedTerminal \<lparr>terminal = ''x'', modifiers = [], literal_value = None\<rparr>]" and st = ?st1 and vops = "[Symbol ''x'']"
        and self = ?G and symbol = "Symbol ''sv2''" and ranges = "[(0, 1), (0, 1), (0, 1)]" and num_points = 2] i1 o
    by simp
  have b: "partition_step ?G (Symbol ''sv2'') ?V [(0, 1), (0, 1), (0, 1)] 2 2 ?st1 =
      Inr (?st1\<lparr>p_intermediates := [Assign (ArrayAccess (Symbol ''sv2'') [LiteralInt 0]) (Product [Symbol ''x''])],
                p_vaccesses := [ModifiedTerminal \<lparr>terminal = ''x'', modifiers = [], literal_value = None\<rparr> \<mapsto> Symbol ''x''](Operator ''sum'' False [ModifiedTerminal \<lparr>terminal = ''x'', modifiers = [], literal_value = None\<rparr>] \<mapsto> ArrayAccess (Symbol ''sv2'') [LiteralInt 0]),
                p_ufl_names := {''sum''}\<rparr>)"
    using partition_intermediates_and_memo [where Vs = ?V and i = 2 and name = "''sum''"
        and ops = "[ModifiedTerminal \<lparr>terminal = ''x'', modifiers = [], literal_value = None\<rparr>]" and st = ?st1 and vops = "[Symbol ''x'']"
        and self = ?G and symbol = "Symbol ''sv2''" and ranges = "[(0, 1), (0, 1), (0, 1)]" and num_points = 2] i2 o
    by simp
  have "case partition_loop ?G (Symbol ''sv2'') ?V [(0, 1), (0, 1), (0, 1)] 2 [0, 1, 2] ?st0 of
          Inl e \<Rightarrow> False | Inr st' \<Rightarrow> True"
    by code_simp
  from InrE [OF this] obtain st' where
    l: "partition_loop ?G (Symbol ''sv2'') ?V [(0, 1), (0, 1), (0, 1)] 2 [0, 1, 2] ?st0 = Inr st'" by blast
  have c: "\<exists>st'. partition_loop ?G (Symbol ''sv2'') ?V [(0, 1), (0, 1), (0, 1)] 2 [0, 1, 2] ?st0 = Inr st' \<and>
      length (p_intermediates st') = 1 \<and> p_vaccesses st' (Operator ''lt'' True [ModifiedTerminal \<lparr>terminal = ''x'', modifiers = [], literal_value = None\<rparr>]) \<noteq> None"
    using partition_intermediates_and_memo [where self = ?G and symbol = "Symbol ''sv2''" and Vs = ?V
        and ranges = "[(0, 1), (0, 1), (0, 1)]" and num_points = 2 and idxs = "[0, 1, 2]" and st = ?st0
        and st' = st'] l
    by simp
  have pi: "partition_indices [True, True, True] = [0, 1] @ 2 # []"
    "partition_indices [True, True, True] = [0] @ 1 # [2]"
    by (simp_all add: partition_indices_def upt_rec)
  have "case generate_partition ?G (Symbol ''sp3'') ?V [True, True, True] [(0, 1), (0, 1), (0, 1)] 3 ?gr of
          Inl e \<Rightarrow> False | Inr r \<Rightarrow> True"
    by code_simp
  from InrE [OF this] obtain pparts gp' where
    gp: "generate_partition ?G (Symbol ''sp3'') ?V [True, True, True] [(0, 1), (0, 1), (0, 1)] 3 ?gr =
           Inr (pparts, gp')"
    by (cases "generate_partition ?G (Symbol ''sp3'') ?V [True, True, True] [(0, 1), (0, 1), (0, 1)] 3 ?gr") auto
  note t4 = partition_intermediates_and_memo [where self = ?G and symbol = "Symbol ''sp3''"
        and Vs = ?V and flags = "[True, True, True]" and ranges = "[(0, 1), (0, 1), (0, 1)]" and num_points = 3
        and gp = ?gr and pparts = pparts and gp' = gp',
        THEN conjunct2, THEN conjunct2, THEN conjunct2, THEN conjunct1, THEN mp, OF gp]
  from t4 obtain memo memo' defs ints where
    d1: "vaccesses gp' 3 = Some memo'" and
    d2: "\<forall>m. m \<noteq> 3 \<longrightarrow> vaccesses gp' m = vaccesses ?gr m" and
    d3: "\<forall>pre i post name c ops.
         partition_indices [True, True, True] = pre @ i # post \<and> ?V ! i = Operator name c ops \<longrightarrow>
         (\<exists>st vops.
            partition_loop ?G (Symbol ''sp3'') ?V [(0, 1), (0, 1), (0, 1)] 3 pre
              \<lparr>p_definitions = [], p_intermediates = [], p_vaccesses = memo,
               p_ufl_names = ufl_names ?gr\<rparr> = Inr st \<and>
            operand_accesses (p_vaccesses st) ops = Inr vops \<and>
            (c \<longrightarrow>
               (?V ! i \<notin> (\<lambda>i. ?V ! i) ` set post \<longrightarrow>
                  memo' (?V ! i) = Some (ufl_to_language (gen_backend ?G) (?V ! i) vops))) \<and>
            (\<not> c \<longrightarrow>
               ints ! length (filter (\<lambda>i. case ?V ! i of Operator _ c _ \<Rightarrow> \<not> c
                                          | ModifiedTerminal _ \<Rightarrow> False) pre) =
                 Assign
                   (ArrayAccess (Symbol ''sp3'')
                      [LiteralInt (int (length (filter
                         (\<lambda>i. case ?V ! i of Operator _ c _ \<Rightarrow> \<not> c
                               | ModifiedTerminal _ \<Rightarrow> False) pre)))])
                   (ufl_to_language (gen_backend ?G) (?V ! i) vops) \<and>
               (?V ! i \<notin> (\<lambda>i. ?V ! i) ` set post \<longrightarrow>
                  memo' (?V ! i) =
                    Some (ArrayAccess (Symbol ''sp3'')
                      [LiteralInt (int (length (filter
                         (\<lambda>i. case ?V ! i of Operator _ c _ \<Rightarrow> \<not> c
                               | ModifiedTerminal _ \<Rightarrow> False) pre)))]))))" and
    d4: "vaccesses ?gr 3 = Some memo"
    by (elim conjE exE) (rule that, assumption+)
  from d4 have memo: "memo = Map.empty" by (simp add: reset_vaccesses_def)
  from d3 [rule_format, of "[0, 1]" 2 "[]" "''sum''" False "[ModifiedTerminal \<lparr>terminal = ''x'', modifiers = [], literal_value = None\<rparr>]"] pi(1)
  have d5: "memo' (Operator ''sum'' False [ModifiedTerminal \<lparr>terminal = ''x'', modifiers = [], literal_value = None\<rparr>]) = Some (ArrayAccess (Symbol ''sp3'') [LiteralInt 0])"
    by auto
  from d3 [rule_format, of "[0]" 1 "[2]" "''lt''" True "[ModifiedTerminal \<lparr>terminal = ''x'', modifiers = [], literal_value = None\<rparr>]"] pi(2)
  obtain stx vops where
    d6: "partition_loop ?G (Symbol ''sp3'') ?V [(0, 1), (0, 1), (0, 1)] 3 [0]
              \<lparr>p_definitions = [], p_intermediates = [], p_vaccesses = memo,
               p_ufl_names = ufl_names ?gr\<rparr> = Inr stx"
      "operand_accesses (p_vaccesses stx) [ModifiedTerminal \<lparr>terminal = ''x'', modifiers = [], literal_value = None\<rparr>] = Inr vops"
      "memo' (Operator ''lt'' True [ModifiedTerminal \<lparr>terminal = ''x'', modifiers = [], literal_value = None\<rparr>]) = Some (ufl_to_language (gen_backend ?G) (Operator ''lt'' True [ModifiedTerminal \<lparr>terminal = ''x'', modifiers = [], literal_value = None\<rparr>]) vops)"
    by auto
  from d6(1,2) memo have "vops = [Symbol ''x'']"
    by (auto simp: partition_step_def item_def)
  with d6(3) have d7: "memo' (Operator ''lt'' True [ModifiedTerminal \<lparr>terminal = ''x'', modifiers = [], literal_value = None\<rparr>]) = Some (Product [Symbol ''x''])" by simp
  from d2 have d8: "vaccesses gp' 2 = Some Map.empty" by (simp add: reset_vaccesses_def)
  from gp d1 d7 d5 d8
  have d: "\<exists>pparts gp' memo'. generate_partition ?G (Symbol ''sp3'') ?V [True, True, True] [(0, 1), (0, 1), (0, 1)] 3 ?gr =
      Inr (pparts, gp') \<and> vaccesses gp' 3 = Some memo' \<and>
      memo' (Operator ''lt'' True [ModifiedTerminal \<lparr>terminal = ''x'', modifiers = [], literal_value = None\<rparr>]) = Some (Product [Symbol ''x'']) \<and>
      memo' (Operator ''sum'' False [ModifiedTerminal \<lparr>terminal = ''x'', modifiers = [], literal_value = None\<rparr>]) = Some (ArrayAccess (Symbol ''sp3'') [LiteralInt 0]) \<and>
      vaccesses gp' 2 = Some Map.empty"
    by blast
  have "case generate_num_points ?G True 1 ?gr of
          Inl e \<Rightarrow> False | Inr r \<Rightarrow> True"
    by code_simp
  from InrE [OF this] obtain parts g' where
    n: "generate_num_points ?G True 1 ?gr = Inr (parts, g')"
    by (cases "generate_num_points ?G True 1 ?gr") auto
  have lk: "lookup (expr_irs (gen_ir ?G)) 1 = Inr ?EA"
    by (simp add: lookup_def)
  note t5 = partition_intermediates_and_memo [where self = ?G and multiple = True and n = 1
        and g = ?gr and parts = parts and g' = g',
        THEN conjunct2, THEN conjunct2, THEN conjunct2, THEN conjunct2, THEN conjunct1,
        THEN mp, OF n]
  from t5 obtain e memo2 where
    e1: "lookup (expr_irs (gen_ir ?G)) 1 = Inr e" and
    e2: "vaccesses g' 1 = Some memo2" and
    e3: "\<forall>m. m \<noteq> 1 \<longrightarrow> vaccesses g' m = vaccesses ?gr m" and
    e4: "\<forall>i\<in>set (partition_indices (piecewise e)) \<union> set (partition_indices (varying e)).
           memo2 (V e ! i) \<noteq> None"
    by (elim conjE exE) (rule that, assumption+)
  from e1 lk have ee: "e = ?EA" by simp
  have pe: "partition_indices (piecewise ?EA) = [0]" "partition_indices (varying ?EA) = [1, 2]"
    by (simp_all add: partition_indices_def upt_rec)
  from e4 [unfolded ee pe]
  have e5: "memo2 (ModifiedTerminal \<lparr>terminal = ''x'', modifiers = [], literal_value = None\<rparr>) \<noteq> None" "memo2 (Operator ''lt'' True [ModifiedTerminal \<lparr>terminal = ''x'', modifiers = [], literal_value = None\<rparr>]) \<noteq> None" "memo2 (Operator ''sum'' False [ModifiedTerminal \<lparr>terminal = ''x'', modifiers = [], literal_value = None\<rparr>]) \<noteq> None"
    by simp_all
  from e3 have e6: "vaccesses g' 2 = Some Map.empty" by (simp add: reset_vaccesses_def)
  from n e2 e5 e6
  have e: "\<exists>parts g' memo'. generate_num_points ?G True 1 ?gr = Inr (parts, g') \<and>
      vaccesses g' 1 = Some memo' \<and>
      memo' (ModifiedTerminal \<lparr>terminal = ''x'', modifiers = [], literal_value = None\<rparr>) \<noteq> None \<and> memo' (Operator ''lt'' True [ModifiedTerminal \<lparr>terminal = ''x'', modifiers = [], literal_value = None\<rparr>]) \<noteq> None \<and> memo' (Operator ''sum'' False [ModifiedTerminal \<lparr>terminal = ''x'', modifiers = [], literal_value = None\<rparr>]) \<noteq> None \<and>
      vaccesses g' 2 = Some Map.empty"
    by blast
  have k: "sorted_keys (expr_irs (gen_ir ?G)) = [1, 2, 3]"
    by (simp add: sorted_keys_def)
  have dk: "distinct (map fst (expr_irs (gen_ir ?G)))" by simp
  have "case generate ?G ?g0 of Inl e \<Rightarrow> False | Inr r \<Rightarrow> True"
    by code_simp
  from InrE [OF this] obtain code gfin where
    gen: "generate ?G ?g0 = Inr (code, gfin)"
    by (cases "generate ?G ?g0") auto
  note t6 = partition_intermediates_and_memo [where self = ?G and ginit = ?g0 and code = code
        and gfin = gfin,
        THEN conjunct2, THEN conjunct2, THEN conjunct2, THEN conjunct2, THEN conjunct2,
        THEN mp, OF conjI, OF gen dk]
  from t6 obtain bodies gs where
    f1: "length bodies = length (sorted_keys (expr_irs (gen_ir ?G)))" and
    f2: "\<forall>k<length (sorted_keys (expr_irs (gen_ir ?G))).
         vaccesses (gs ! k) (sorted_keys (expr_irs (gen_ir ?G)) ! k) = Some Map.empty \<and>
         generate_num_points ?G (1 < length (sorted_keys (expr_irs (gen_ir ?G))))
           (sorted_keys (expr_irs (gen_ir ?G)) ! k) (gs ! k) =
             Inr (bodies ! k, gs ! Suc k)"
    by (elim conjE exE) (rule that, assumption, blast)
  from f1 have f3: "length bodies = 3" unfolding k by simp
  from f2 [unfolded k, rule_format, of 1]
  have f4: "vaccesses (gs ! 1) 2 = Some Map.empty"
    "generate_num_points ?G True 2 (gs ! 1) = Inr (bodies ! 1, gs ! 2)"
    by (simp_all add: numeral_2_eq_2)
  from gen f3 f4
  have f: "\<exists>code gfin bodies gs. generate ?G ?g0 = Inr (code, gfin) \<and>
      length bodies = 3 \<and> vaccesses (gs ! 1) 2 = Some Map.empty \<and>
      generate_num_points ?G True 2 (gs ! 1) = Inr (bodies ! 1, gs ! 2)"
    by blast
  from a b c d e f show ?thesis by blast
qed

end
